theory Spec2Isabelle
  imports Main "HOL-Library.Word"
begin

unbundle bit_operations_syntax

section \<open>Machine types\<close>

text \<open>
  The driver is C code for 32-bit ARM SoCs (rk3288, rk3229): \<^verbatim>\<open>u8\<close>, \<^verbatim>\<open>__s8\<close> and
  \<^verbatim>\<open>u32\<close> are words of their width, \<^verbatim>\<open>__s8\<close> being read with \<open>sint\<close>;
  \<^verbatim>\<open>dma_addr_t\<close> and \<^verbatim>\<open>unsigned long\<close> are 32 bits wide.  Fixed-size C arrays of the
  frame header are functions from the index; the code reads them at constant or
  loop-bounded indices only.  All code guarded by \<^verbatim>\<open>#ifdef NO_BOILERPLATE_CLEANUP\<close> is
  modelled as compiled in.
\<close>

type_synonym u8 = "8 word"
type_synonym s8 = "8 word"
type_synonym u32 = "32 word"
type_synonym dma_addr_t = "32 word"

section \<open>The VP8 frame header\<close>

text \<open>
  \<^verbatim>\<open>struct v4l2_ctrl_vp8_frame_hdr\<close> and its sub-structures come from the V4L2 control
  header of the kernel the driver is built in; the driver sources only use them.  The
  field types below are the ones of that header (\<^verbatim>\<open>__u8\<close>, \<^verbatim>\<open>__s8\<close>, \<^verbatim>\<open>__u32\<close>); fields no
  modelled function reads are left out.
\<close>

record v4l2_vp8_sgmnt_hdr =
  segment_feature_mode :: u8
  quant_update :: "nat \<Rightarrow> s8"
  lf_update :: "nat \<Rightarrow> s8"
  segment_probs :: "nat \<Rightarrow> u8"
  sgmnt_flags :: u8

record v4l2_vp8_loopfilter_hdr =
  lf_type :: u8
  lf_level :: u8
  sharpness_level :: u8
  ref_frm_delta_magnitude :: "nat \<Rightarrow> s8"
  mb_mode_delta_magnitude :: "nat \<Rightarrow> s8"
  lf_flags :: u8

record v4l2_vp8_quantization_hdr =
  y_ac_qi :: u8
  y_dc_delta :: s8
  y2_dc_delta :: s8
  y2_ac_delta :: s8
  uv_dc_delta :: s8
  uv_ac_delta :: s8

record v4l2_vp8_entropy_hdr =
  coeff_probs :: "nat \<Rightarrow> nat \<Rightarrow> nat \<Rightarrow> nat \<Rightarrow> u8"
  y_mode_probs :: "nat \<Rightarrow> u8"
  uv_mode_probs :: "nat \<Rightarrow> u8"
  mv_probs :: "nat \<Rightarrow> nat \<Rightarrow> u8"

record v4l2_ctrl_vp8_frame_hdr =
  key_frame :: u8
  version :: u8
  sgmnt_hdr :: v4l2_vp8_sgmnt_hdr
  lf_hdr :: v4l2_vp8_loopfilter_hdr
  quant_hdr :: v4l2_vp8_quantization_hdr
  entropy_hdr :: v4l2_vp8_entropy_hdr
  sign_bias_golden :: u8
  sign_bias_alternate :: u8
  prob_skip_false :: u8
  prob_intra :: u8
  prob_last :: u8
  prob_gf :: u8
  first_part_size :: u32
  first_part_offset :: u32
  macroblock_bit_offset :: u32
  dct_part_sizes :: "nat \<Rightarrow> u32"
  num_dct_parts :: u8
  last_frame :: u32
  golden_frame :: u32
  alt_frame :: u32

section \<open>Register slots\<close>

text \<open>
  \<^verbatim>\<open>vp8d_write_regs_value(index, value, name)\<close> stores \<open>value\<close> into slot \<open>index\<close> of the
  scratch table \<^verbatim>\<open>rk_regs_value\<close>.  A configuration function is modelled by the list of
  these calls, in program order.  The slot identifiers (\<^verbatim>\<open>VDPU_REG_...\<close>) are an
  enumeration of \<^verbatim>\<open>rockchip_vp8d_regs.h\<close>, which is not part of the sources: they are
  taken as a parameter.
\<close>

type_synonym reg_write = "nat \<times> u32"

record vp8d_reg_ids =
  VDPU_REG_REF_PIC_LF_LEVEL_0 :: nat
  VDPU_REG_REF_PIC_FILT_SHARPNESS :: nat
  VDPU_REG_REF_PIC_FILT_TYPE_E :: nat
  VDPU_REG_FILT_MB_ADJ_0 :: nat
  VDPU_REG_REF_PIC_ADJ_0 :: nat
  VDPU_REG_REF_PIC_QUANT_0 :: nat
  VDPU_REG_REF_PIC_QUANT_DELTA_0 :: nat
  VDPU_REG_REF_PIC_QUANT_DELTA_1 :: nat
  VDPU_REG_REF_PIC_QUANT_DELTA_2 :: nat
  VDPU_REG_REF_PIC_QUANT_DELTA_3 :: nat
  VDPU_REG_REF_PIC_QUANT_DELTA_4 :: nat
  VDPU_REG_VP8_ADDR_CTRL_PART :: nat
  VDPU_REG_DEC_CTRL2_STRM1_START_BIT :: nat
  VDPU_REG_DEC_CTRL6_STREAM1_LEN :: nat
  VDPU_REG_DEC_CTRL6_COEFFS_PART_AM :: nat
  VDPU_REG_DEC_CTRL3_STREAM_LEN :: nat
  VDPU_REG_ADDR_STR :: nat
  VDPU_REG_DEC_CTRL2_STRM_START_BIT :: nat
  VDPU_REG_VP8_ADDR_REF0 :: nat
  VDPU_REG_VP8_ADDR_REF2_5_0 :: nat
  VDPU_REG_VP8_GREF_SIGN_BIAS_0 :: nat
  VDPU_REG_VP8_ADDR_REF2_5_1 :: nat
  VDPU_REG_VP8_AREF_SIGN_BIAS_1 :: nat

definition vp8d_write_regs_value :: "nat \<Rightarrow> u32 \<Rightarrow> reg_write list" where
  "vp8d_write_regs_value index v = [(index, v)]"

section \<open>Partition addressing: \<^verbatim>\<open>rockchip_vp8d_cfg_parts\<close>\<close>

definition DEC_8190_ALIGN_MASK :: u32 where
  "DEC_8190_ALIGN_MASK = 0x07"

text \<open>The local variables of the control-partition part, as the code computes them.\<close>

definition mb_offset_bits :: "v4l2_ctrl_vp8_frame_hdr \<Rightarrow> u32" where
  "mb_offset_bits hdr = first_part_offset hdr * 8 + macroblock_bit_offset hdr + 8"

definition mb_offset_bytes :: "v4l2_ctrl_vp8_frame_hdr \<Rightarrow> u32" where
  "mb_offset_bytes hdr = mb_offset_bits hdr div 8"

definition mb_start_bits :: "v4l2_ctrl_vp8_frame_hdr \<Rightarrow> u32" where
  "mb_start_bits hdr =
     mb_offset_bits hdr - (mb_offset_bytes hdr AND (NOT DEC_8190_ALIGN_MASK)) * 8"

definition mb_size :: "v4l2_ctrl_vp8_frame_hdr \<Rightarrow> u32" where
  "mb_size hdr =
     first_part_size hdr - (mb_offset_bytes hdr - first_part_offset hdr)
       + (mb_offset_bytes hdr AND DEC_8190_ALIGN_MASK)"

text \<open>Lines 389 to 412: the three writes for the control partition.\<close>

definition cfg_parts_ctrl ::
  "vp8d_reg_ids \<Rightarrow> v4l2_ctrl_vp8_frame_hdr \<Rightarrow> dma_addr_t \<Rightarrow> reg_write list" where
  "cfg_parts_ctrl R hdr src_dma =
     vp8d_write_regs_value (VDPU_REG_VP8_ADDR_CTRL_PART R)
        ((mb_offset_bytes hdr AND (NOT DEC_8190_ALIGN_MASK)) + src_dma)
     @ vp8d_write_regs_value (VDPU_REG_DEC_CTRL2_STRM1_START_BIT R) (mb_start_bits hdr)
     @ vp8d_write_regs_value (VDPU_REG_DEC_CTRL6_STREAM1_LEN R) (mb_size hdr)"

text \<open>
  Lines 422 to 453: the DCT partitions.  \<^verbatim>\<open>hdr->num_dct_parts - 1\<close> is computed in
  \<^verbatim>\<open>int\<close> and converted to \<^verbatim>\<open>u32\<close>, which is subtraction on the zero-extended word.
  The loops read \<^verbatim>\<open>dct_part_sizes[i]\<close> for \<open>i < num_dct_parts\<close>; the array has 8
  entries, so a header with more than 8 partitions makes the C code read out of the
  array: the model returns \<open>None\<close> there.
\<close>

definition dct_size_part_size :: "v4l2_ctrl_vp8_frame_hdr \<Rightarrow> u32" where
  "dct_size_part_size hdr = (ucast (num_dct_parts hdr) - 1) * 3"

definition dct_part_offset :: "v4l2_ctrl_vp8_frame_hdr \<Rightarrow> u32" where
  "dct_part_offset hdr = first_part_offset hdr + first_part_size hdr"

definition dct_part_total_len :: "v4l2_ctrl_vp8_frame_hdr \<Rightarrow> u32" where
  "dct_part_total_len hdr =
     fold (\<lambda>i len. len + dct_part_sizes hdr i) [0 ..< unat (num_dct_parts hdr)] 0
       + dct_size_part_size hdr
       + (dct_part_offset hdr AND DEC_8190_ALIGN_MASK)"

definition dct_part_step ::
  "vp8d_reg_ids \<Rightarrow> v4l2_ctrl_vp8_frame_hdr \<Rightarrow> dma_addr_t \<Rightarrow> nat
     \<Rightarrow> u32 \<times> reg_write list \<Rightarrow> u32 \<times> reg_write list" where
  "dct_part_step R hdr src_dma i = (\<lambda>(count, ws).
     let byte_offset = dct_part_offset hdr + dct_size_part_size hdr + count;
         base_addr = byte_offset + src_dma
     in (count + dct_part_sizes hdr i,
         ws @ vp8d_write_regs_value (VDPU_REG_ADDR_STR R + i)
                (base_addr AND (NOT DEC_8190_ALIGN_MASK))
            @ vp8d_write_regs_value (VDPU_REG_DEC_CTRL2_STRM_START_BIT R + i)
                ((byte_offset AND DEC_8190_ALIGN_MASK) * 8)))"

definition cfg_parts_dct ::
  "vp8d_reg_ids \<Rightarrow> v4l2_ctrl_vp8_frame_hdr \<Rightarrow> dma_addr_t \<Rightarrow> reg_write list option" where
  "cfg_parts_dct R hdr src_dma =
     (if unat (num_dct_parts hdr) \<le> 8 then
        Some (vp8d_write_regs_value (VDPU_REG_DEC_CTRL6_COEFFS_PART_AM R)
                (ucast (num_dct_parts hdr) - 1)
              @ vp8d_write_regs_value (VDPU_REG_DEC_CTRL3_STREAM_LEN R)
                  (dct_part_total_len hdr)
              @ snd (fold (dct_part_step R hdr src_dma)
                       [0 ..< unat (num_dct_parts hdr)] (0, [])))
      else None)"

definition rockchip_vp8d_cfg_parts ::
  "vp8d_reg_ids \<Rightarrow> v4l2_ctrl_vp8_frame_hdr \<Rightarrow> dma_addr_t \<Rightarrow> reg_write list option" where
  "rockchip_vp8d_cfg_parts R hdr src_dma =
     map_option (\<lambda>ws. cfg_parts_ctrl R hdr src_dma @ ws) (cfg_parts_dct R hdr src_dma)"

section \<open>Probability table packing: \<^verbatim>\<open>rockchip_vp8d_prob_update\<close>\<close>

text \<open>
  The function writes through a byte pointer \<open>dst\<close> into the table
  \<^verbatim>\<open>ctx->hw.vp8d.prob_tbl.cpu\<close>.  The pointer is modelled by its offset from the start of
  the table, and the function by the list of its byte stores \<open>(offset, value)\<close> in
  program order; \<open>stores dst [a, b, c]\<close> stands for
  \<^verbatim>\<open>dst[0] = a; dst[1] = b; dst[2] = c;\<close>.  A loop threads the pair of the pointer and
  the stores made so far.
\<close>

type_synonym byte_write = "nat \<times> u8"

definition stores :: "nat \<Rightarrow> u8 list \<Rightarrow> byte_write list" where
  "stores dst vs = map (\<lambda>k. (dst + k, vs ! k)) [0 ..< length vs]"

definition mv_probs_loop ::
  "v4l2_vp8_entropy_hdr \<Rightarrow> nat \<times> byte_write list \<Rightarrow> nat \<times> byte_write list" where
  "mv_probs_loop e =
     fold (\<lambda>i. fold (\<lambda>j (dst, ws).
             (dst + 4,
              ws @ stores dst [mv_probs e i (j + 9 + 0), mv_probs e i (j + 9 + 1),
                               mv_probs e i (j + 9 + 2), mv_probs e i (j + 9 + 3)]))
           [0, 4])
       [0 ..< 2]"

definition mv_probs_loop2 ::
  "v4l2_vp8_entropy_hdr \<Rightarrow> nat \<times> byte_write list \<Rightarrow> nat \<times> byte_write list" where
  "mv_probs_loop2 e =
     fold (\<lambda>i (dst, ws).
             (dst + 8,
              ws @ stores dst [mv_probs e i (0 + 2), mv_probs e i (1 + 2),
                               mv_probs e i (2 + 2), mv_probs e i (3 + 2),
                               mv_probs e i (4 + 2), mv_probs e i (5 + 2),
                               mv_probs e i (6 + 2), 0]))
       [0 ..< 2]"

definition coeff_probs_header_loop ::
  "v4l2_vp8_entropy_hdr \<Rightarrow> nat \<times> byte_write list \<Rightarrow> nat \<times> byte_write list" where
  "coeff_probs_header_loop e =
     fold (\<lambda>i. fold (\<lambda>j. fold (\<lambda>k (dst, ws).
             (dst + 4,
              ws @ stores dst [coeff_probs e i j k 0, coeff_probs e i j k 1,
                               coeff_probs e i j k 2, coeff_probs e i j k 3]))
           [0 ..< 3]) [0 ..< 8]) [0 ..< 4]"

definition coeff_probs_footer_loop ::
  "v4l2_vp8_entropy_hdr \<Rightarrow> nat \<times> byte_write list \<Rightarrow> nat \<times> byte_write list" where
  "coeff_probs_footer_loop e =
     fold (\<lambda>i. fold (\<lambda>j. fold (\<lambda>k (dst, ws).
             (dst + 8,
              ws @ stores dst [coeff_probs e i j k 4, coeff_probs e i j k 5,
                               coeff_probs e i j k 6, coeff_probs e i j k 7,
                               coeff_probs e i j k 8, coeff_probs e i j k 9,
                               coeff_probs e i j k 10, 0]))
           [0 ..< 3]) [0 ..< 8]) [0 ..< 4]"

text \<open>The stores of the three straight-line blocks (lines 146 to 177).\<close>

definition first_probs :: "v4l2_ctrl_vp8_frame_hdr \<Rightarrow> u8 list" where
  "first_probs hdr =
     [prob_skip_false hdr, prob_intra hdr, prob_last hdr, prob_gf hdr,
      segment_probs (sgmnt_hdr hdr) 0, segment_probs (sgmnt_hdr hdr) 1,
      segment_probs (sgmnt_hdr hdr) 2, 0]"

definition mode_probs :: "v4l2_vp8_entropy_hdr \<Rightarrow> u8 list" where
  "mode_probs e =
     [y_mode_probs e 0, y_mode_probs e 1, y_mode_probs e 2, y_mode_probs e 3,
      uv_mode_probs e 0, uv_mode_probs e 1, uv_mode_probs e 2, 0]"

definition mv_short_sign_probs :: "v4l2_vp8_entropy_hdr \<Rightarrow> u8 list" where
  "mv_short_sign_probs e =
     [mv_probs e 0 0, mv_probs e 1 0, mv_probs e 0 1, mv_probs e 1 1,
      mv_probs e 0 (8 + 9), mv_probs e 0 (9 + 9),
      mv_probs e 1 (8 + 9), mv_probs e 1 (9 + 9)]"

definition prob_update_writes :: "v4l2_ctrl_vp8_frame_hdr \<Rightarrow> byte_write list" where
  "prob_update_writes hdr =
     (let e = entropy_hdr hdr;
          dst = 0;
          ws = stores dst (first_probs hdr);
          dst = dst + 8;
          ws = ws @ stores dst (mode_probs e);
          dst = dst + 8;
          ws = ws @ stores dst (mv_short_sign_probs e);
          dst = dst + 8;
          (dst, ws) = mv_probs_loop e (dst, ws);
          (dst, ws) = mv_probs_loop2 e (dst, ws);
          dst = 8 * 7;
          (dst, ws) = coeff_probs_header_loop e (dst, ws);
          dst = 8 * 55;
          (dst, ws) = coeff_probs_footer_loop e (dst, ws)
      in ws)"

text \<open>
  Memory: a store at an offset inside the buffer updates it, a store outside the buffer
  is an out-of-bounds write, which the model reports as \<open>None\<close>.
\<close>

fun do_stores :: "byte_write list \<Rightarrow> u8 list \<Rightarrow> u8 list option" where
  "do_stores [] m = Some m"
| "do_stores ((a, v) # ws) m = (if a < length m then do_stores ws (m[a := v]) else None)"

text \<open>
  \<^verbatim>\<open>struct rockchip_vpu_aux_buf\<close>: the CPU pointer is \<open>None\<close> for \<^verbatim>\<open>NULL\<close> and otherwise
  holds the bytes of the buffer.
\<close>

record rockchip_vpu_aux_buf =
  buf_cpu :: "u8 list option"
  buf_dma :: dma_addr_t
  buf_size :: nat

definition rockchip_vp8d_prob_update ::
  "v4l2_ctrl_vp8_frame_hdr \<Rightarrow> rockchip_vpu_aux_buf \<Rightarrow> rockchip_vpu_aux_buf option" where
  "rockchip_vp8d_prob_update hdr tbl =
     (case buf_cpu tbl of
        None \<Rightarrow> None
      | Some m \<Rightarrow> map_option (\<lambda>m'. tbl\<lparr>buf_cpu := Some m'\<rparr>)
                    (do_stores (prob_update_writes hdr) m))"

text \<open>
  \<^verbatim>\<open>sizeof(struct vp8_prob_tbl_packed)\<close>: every member is a \<^verbatim>\<open>u8\<close> or an array of
  \<^verbatim>\<open>u8\<close>, so the size is the sum of the member sizes, in declaration order.
\<close>

definition sizeof_vp8_prob_tbl_packed :: nat where
  "sizeof_vp8_prob_tbl_packed =
     1 + 1 + 1 + 1 + 3 + 1 + 4 + 3 + 1 + 2 * 19 + 2 + 4 * 8 * 3 * 11 + 96"

text \<open>
  The closed form of the table contents, used to read the stores back: the coefficient
  probabilities of one (plane, band, context) triple, and the 1208 bytes in offset order.
\<close>

definition coeff_header_bytes :: "v4l2_vp8_entropy_hdr \<Rightarrow> nat \<Rightarrow> nat \<Rightarrow> nat \<Rightarrow> u8 list" where
  "coeff_header_bytes e i j k =
     [coeff_probs e i j k 0, coeff_probs e i j k 1, coeff_probs e i j k 2, coeff_probs e i j k 3]"

definition coeff_footer_bytes :: "v4l2_vp8_entropy_hdr \<Rightarrow> nat \<Rightarrow> nat \<Rightarrow> nat \<Rightarrow> u8 list" where
  "coeff_footer_bytes e i j k =
     [coeff_probs e i j k 4, coeff_probs e i j k 5, coeff_probs e i j k 6, coeff_probs e i j k 7,
      coeff_probs e i j k 8, coeff_probs e i j k 9, coeff_probs e i j k 10, 0]"

definition mv_block_bytes :: "v4l2_vp8_entropy_hdr \<Rightarrow> nat \<Rightarrow> nat \<Rightarrow> u8 list" where
  "mv_block_bytes e i j =
     [mv_probs e i (j + 9 + 0), mv_probs e i (j + 9 + 1),
      mv_probs e i (j + 9 + 2), mv_probs e i (j + 9 + 3)]"

definition mv_block2_bytes :: "v4l2_vp8_entropy_hdr \<Rightarrow> nat \<Rightarrow> u8 list" where
  "mv_block2_bytes e i =
     [mv_probs e i (0 + 2), mv_probs e i (1 + 2), mv_probs e i (2 + 2), mv_probs e i (3 + 2),
      mv_probs e i (4 + 2), mv_probs e i (5 + 2), mv_probs e i (6 + 2), 0]"

definition mv_region :: "v4l2_vp8_entropy_hdr \<Rightarrow> u8 list" where
  "mv_region e = concat (map (\<lambda>i. concat (map (mv_block_bytes e i) [0, 4])) [0 ..< 2])"

definition mv_region2 :: "v4l2_vp8_entropy_hdr \<Rightarrow> u8 list" where
  "mv_region2 e = concat (map (mv_block2_bytes e) [0 ..< 2])"

definition coeff_header_region :: "v4l2_vp8_entropy_hdr \<Rightarrow> u8 list" where
  "coeff_header_region e =
     concat (map (\<lambda>i. concat (map (\<lambda>j. concat (map (coeff_header_bytes e i j) [0 ..< 3]))
                                [0 ..< 8])) [0 ..< 4])"

definition coeff_footer_region :: "v4l2_vp8_entropy_hdr \<Rightarrow> u8 list" where
  "coeff_footer_region e =
     concat (map (\<lambda>i. concat (map (\<lambda>j. concat (map (coeff_footer_bytes e i j) [0 ..< 3]))
                                [0 ..< 8])) [0 ..< 4])"

definition prob_tbl_bytes :: "v4l2_ctrl_vp8_frame_hdr \<Rightarrow> u8 list" where
  "prob_tbl_bytes hdr =
     (let e = entropy_hdr hdr in
      first_probs hdr @ mode_probs e @ mv_short_sign_probs e
      @ mv_region e @ mv_region2 e @ coeff_header_region e @ coeff_footer_region e)"

section \<open>Loop filter and quantisation: \<^verbatim>\<open>rockchip_vp8d_cfg_lf\<close>, \<^verbatim>\<open>rockchip_vp8d_cfg_qp\<close>\<close>

text \<open>
  The flag masks \<^verbatim>\<open>V4L2_VP8_SEGMNT_HDR_FLAG_ENABLED\<close>,
  \<^verbatim>\<open>V4L2_VP8_SEGMNT_HDR_FLAG_UPDATE_MAP\<close> and \<^verbatim>\<open>V4L2_VP8_LF_HDR_ADJ_ENABLE\<close> are constants
  of the V4L2 control header, which is not part of the sources: they are a parameter.
  They are tested against \<^verbatim>\<open>__u8\<close> flag fields, so only their low 8 bits matter.
\<close>

record vp8_flag_masks =
  V4L2_VP8_SEGMNT_HDR_FLAG_ENABLED :: u8
  V4L2_VP8_SEGMNT_HDR_FLAG_UPDATE_MAP :: u8
  V4L2_VP8_LF_HDR_ADJ_ENABLE :: u8

text \<open>
  The kernel's \<^verbatim>\<open>clamp(val, lo, hi)\<close> is \<^verbatim>\<open>min((typeof(val))max(val, lo), hi)\<close>.  Its
  argument here is a sum of a \<^verbatim>\<open>__u8\<close> and a \<^verbatim>\<open>__s8\<close>, which C computes in
  \<^verbatim>\<open>int\<close> and which cannot overflow; the result is converted to the \<^verbatim>\<open>u32\<close> parameter
  of \<^verbatim>\<open>vp8d_write_regs_value\<close>.  A \<^verbatim>\<open>__u8\<close> argument is zero-extended (\<open>ucast\<close>), a
  \<^verbatim>\<open>__s8\<close> argument is sign-extended (\<open>scast\<close>).
\<close>

definition clamp :: "int \<Rightarrow> int \<Rightarrow> int \<Rightarrow> int" where
  "clamp val lo hi = min (max val lo) hi"

text \<open>Lines 243 to 265: the filter level, single or per segment.\<close>

definition cfg_lf_level ::
  "vp8_flag_masks \<Rightarrow> vp8d_reg_ids \<Rightarrow> v4l2_ctrl_vp8_frame_hdr \<Rightarrow> reg_write list" where
  "cfg_lf_level F R hdr =
     (if sgmnt_flags (sgmnt_hdr hdr) AND V4L2_VP8_SEGMNT_HDR_FLAG_ENABLED F = 0 then
        vp8d_write_regs_value (VDPU_REG_REF_PIC_LF_LEVEL_0 R) (ucast (lf_level (lf_hdr hdr)))
      else if segment_feature_mode (sgmnt_hdr hdr) \<noteq> 0 then
        concat (map (\<lambda>i. vp8d_write_regs_value (VDPU_REG_REF_PIC_LF_LEVEL_0 R + i)
                             (scast (lf_update (sgmnt_hdr hdr) i)))
                  [0 ..< 4])
      else
        concat (map (\<lambda>i. vp8d_write_regs_value (VDPU_REG_REF_PIC_LF_LEVEL_0 R + i)
                             (word_of_int
                                (clamp (uint (lf_level (lf_hdr hdr))
                                          + sint (lf_update (sgmnt_hdr hdr) i)) 0 63)))
                  [0 ..< 4]))"

text \<open>Lines 267 to 285: sharpness, filter type and the adjustment deltas.\<close>

definition cfg_lf_rest ::
  "vp8_flag_masks \<Rightarrow> vp8d_reg_ids \<Rightarrow> v4l2_ctrl_vp8_frame_hdr \<Rightarrow> reg_write list" where
  "cfg_lf_rest F R hdr =
     vp8d_write_regs_value (VDPU_REG_REF_PIC_FILT_SHARPNESS R)
        (ucast (sharpness_level (lf_hdr hdr)))
     @ (if lf_type (lf_hdr hdr) \<noteq> 0
        then vp8d_write_regs_value (VDPU_REG_REF_PIC_FILT_TYPE_E R) 1 else [])
     @ (if lf_flags (lf_hdr hdr) AND V4L2_VP8_LF_HDR_ADJ_ENABLE F \<noteq> 0 then
          concat (map (\<lambda>i.
                    vp8d_write_regs_value (VDPU_REG_FILT_MB_ADJ_0 R + i)
                       (scast (mb_mode_delta_magnitude (lf_hdr hdr) i))
                    @ vp8d_write_regs_value (VDPU_REG_REF_PIC_ADJ_0 R + i)
                        (scast (ref_frm_delta_magnitude (lf_hdr hdr) i)))
                  [0 ..< 4])
        else [])"

definition rockchip_vp8d_cfg_lf ::
  "vp8_flag_masks \<Rightarrow> vp8d_reg_ids \<Rightarrow> v4l2_ctrl_vp8_frame_hdr \<Rightarrow> reg_write list" where
  "rockchip_vp8d_cfg_lf F R hdr = cfg_lf_level F R hdr @ cfg_lf_rest F R hdr"

text \<open>Lines 297 to 318: the AC quantiser index, single or per segment.\<close>

definition cfg_qp_index ::
  "vp8_flag_masks \<Rightarrow> vp8d_reg_ids \<Rightarrow> v4l2_ctrl_vp8_frame_hdr \<Rightarrow> reg_write list" where
  "cfg_qp_index F R hdr =
     (if sgmnt_flags (sgmnt_hdr hdr) AND V4L2_VP8_SEGMNT_HDR_FLAG_ENABLED F = 0 then
        vp8d_write_regs_value (VDPU_REG_REF_PIC_QUANT_0 R) (ucast (y_ac_qi (quant_hdr hdr)))
      else if segment_feature_mode (sgmnt_hdr hdr) \<noteq> 0 then
        concat (map (\<lambda>i. vp8d_write_regs_value (VDPU_REG_REF_PIC_QUANT_0 R + i)
                             (scast (quant_update (sgmnt_hdr hdr) i)))
                  [0 ..< 4])
      else
        concat (map (\<lambda>i. let reg_value = quant_update (sgmnt_hdr hdr) i in
                           vp8d_write_regs_value (VDPU_REG_REF_PIC_QUANT_0 R + i)
                             (word_of_int
                                (clamp (uint (y_ac_qi (quant_hdr hdr)) + sint reg_value) 0 127)))
                  [0 ..< 4]))"

text \<open>Lines 320 to 334: the five delta registers.\<close>

definition cfg_qp_deltas :: "vp8d_reg_ids \<Rightarrow> v4l2_ctrl_vp8_frame_hdr \<Rightarrow> reg_write list" where
  "cfg_qp_deltas R hdr =
     vp8d_write_regs_value (VDPU_REG_REF_PIC_QUANT_DELTA_0 R) (scast (y_dc_delta (quant_hdr hdr)))
     @ vp8d_write_regs_value (VDPU_REG_REF_PIC_QUANT_DELTA_1 R) (scast (y2_dc_delta (quant_hdr hdr)))
     @ vp8d_write_regs_value (VDPU_REG_REF_PIC_QUANT_DELTA_2 R) (scast (y2_ac_delta (quant_hdr hdr)))
     @ vp8d_write_regs_value (VDPU_REG_REF_PIC_QUANT_DELTA_3 R) (scast (uv_dc_delta (quant_hdr hdr)))
     @ vp8d_write_regs_value (VDPU_REG_REF_PIC_QUANT_DELTA_4 R) (scast (uv_ac_delta (quant_hdr hdr)))"

definition rockchip_vp8d_cfg_qp ::
  "vp8_flag_masks \<Rightarrow> vp8d_reg_ids \<Rightarrow> v4l2_ctrl_vp8_frame_hdr \<Rightarrow> reg_write list" where
  "rockchip_vp8d_cfg_qp F R hdr = cfg_qp_index F R hdr @ cfg_qp_deltas R hdr"

section \<open>Reference frames: \<^verbatim>\<open>rockchip_vp8d_cfg_ref\<close>\<close>

text \<open>
  A \<^verbatim>\<open>struct vb2_buffer\<close> is read only through
  \<^verbatim>\<open>vb2_dma_contig_plane_dma_addr(buf, 0)\<close>, so it is modelled by that address.  The
  function reads \<^verbatim>\<open>ctx->vq_dst.num_buffers\<close>, the array \<^verbatim>\<open>ctx->dst_bufs\<close> and the
  destination buffer of the current run, \<^verbatim>\<open>ctx->run.dst\<close>.
\<close>

record vb2_buffer =
  plane_dma_addr :: dma_addr_t

record vp8d_ref_bufs =
  num_buffers :: u32
  dst_bufs :: "nat \<Rightarrow> vb2_buffer"
  run_dst_vb2 :: vb2_buffer

definition rockchip_vp8d_cfg_ref ::
  "vp8d_reg_ids \<Rightarrow> v4l2_ctrl_vp8_frame_hdr \<Rightarrow> vp8d_ref_bufs \<Rightarrow> reg_write list" where
  "rockchip_vp8d_cfg_ref R hdr B =
     (let buf = (if last_frame hdr \<ge> num_buffers B then run_dst_vb2 B
                 else dst_bufs B (unat (last_frame hdr)))
      in if key_frame hdr = 0 then
           vp8d_write_regs_value (VDPU_REG_VP8_ADDR_REF0 R) (plane_dma_addr (run_dst_vb2 B))
         else
           vp8d_write_regs_value (VDPU_REG_VP8_ADDR_REF0 R) (plane_dma_addr buf))
     @ (let buf = (if golden_frame hdr \<ge> num_buffers B then run_dst_vb2 B
                   else dst_bufs B (unat (golden_frame hdr)))
        in vp8d_write_regs_value (VDPU_REG_VP8_ADDR_REF2_5_0 R) (plane_dma_addr buf))
     @ (if sign_bias_golden hdr \<noteq> 0
        then vp8d_write_regs_value (VDPU_REG_VP8_GREF_SIGN_BIAS_0 R) 1 else [])
     @ (let buf = (if alt_frame hdr \<ge> num_buffers B then run_dst_vb2 B
                   else dst_bufs B (unat (alt_frame hdr)))
        in vp8d_write_regs_value (VDPU_REG_VP8_ADDR_REF2_5_1 R) (plane_dma_addr buf))
     @ (if sign_bias_alternate hdr \<noteq> 0
        then vp8d_write_regs_value (VDPU_REG_VP8_AREF_SIGN_BIAS_1 R) 1 else [])"

text \<open>
  The resolution rule as the specification words it, for comparison with the code: the
  indexed buffer when the index is in range, the current output buffer otherwise.
\<close>

definition spec_resolve_ref :: "vp8d_ref_bufs \<Rightarrow> u32 \<Rightarrow> dma_addr_t" where
  "spec_resolve_ref B idx =
     (if unat idx < unat (num_buffers B) then plane_dma_addr (dst_bufs B (unat idx))
      else plane_dma_addr (run_dst_vb2 B))"

section \<open>Auxiliary DMA buffers and VP8 codec init\<close>

text \<open>
  \<^verbatim>\<open>dma_alloc_coherent\<close> either fails or returns a fresh buffer: the outcome of each call
  is an input of the model, \<open>None\<close> for failure and otherwise the DMA address with the
  initial contents of the memory.  The coherent allocations that are live are kept in a
  list, so that a leak is visible.
\<close>

type_synonym alloc_outcome = "(dma_addr_t \<times> (nat \<Rightarrow> u8)) option"

type_synonym coherent_pool = "(dma_addr_t \<times> nat) list"

definition ENOMEM :: int where "ENOMEM = 12"
definition EPERM :: int where "EPERM = 1"

definition rockchip_vpu_aux_buf_alloc ::
  "alloc_outcome \<Rightarrow> nat \<Rightarrow> rockchip_vpu_aux_buf \<times> coherent_pool
     \<Rightarrow> int \<times> rockchip_vpu_aux_buf \<times> coherent_pool" where
  "rockchip_vpu_aux_buf_alloc outcome sz = (\<lambda>(buf, pool).
     case outcome of
       None \<Rightarrow> (- ENOMEM, buf\<lparr>buf_cpu := None\<rparr>, pool)
     | Some (addr, contents) \<Rightarrow>
         (0, buf\<lparr>buf_cpu := Some (map contents [0 ..< sz]), buf_dma := addr, buf_size := sz\<rparr>,
          (addr, sz) # pool))"

definition rockchip_vpu_aux_buf_free ::
  "rockchip_vpu_aux_buf \<times> coherent_pool \<Rightarrow> rockchip_vpu_aux_buf \<times> coherent_pool" where
  "rockchip_vpu_aux_buf_free = (\<lambda>(buf, pool).
     (buf\<lparr>buf_cpu := None, buf_dma := 0, buf_size := 0\<rparr>,
      remove1 (buf_dma buf, buf_size buf) pool))"

text \<open>
  \<^verbatim>\<open>memset(p, c, n)\<close> on a buffer of bytes; writing past its end is out of bounds
  (\<open>None\<close>).  A buffer that \<open>rockchip_vpu_aux_buf_alloc\<close> filled in has exactly
  \<open>buf_size\<close> bytes, so the \<^verbatim>\<open>memset\<close> of init is always in bounds.
\<close>

definition memset :: "u8 list \<Rightarrow> u8 \<Rightarrow> nat \<Rightarrow> u8 list option" where
  "memset m c n = (if n \<le> length m then Some (replicate n c @ drop n m) else None)"

text \<open>
  \<^verbatim>\<open>enum rockchip_vpu_type\<close> as its integer values, and the two file-static pointers
  \<^verbatim>\<open>rockchip_regs_table\<close> and \<^verbatim>\<open>rockchip_regs_map\<close>, which init sets together.
\<close>

definition RK_VPU_NONE :: int where "RK_VPU_NONE = - 1"
definition RK3288_VPU :: int where "RK3288_VPU = 0"
definition RK3229_VPU :: int where "RK3229_VPU = 1"

datatype regs_tables = Regs_unset | Regs_rk3229 | Regs_rk3288

record vp8d_state =
  vpu_type :: int
  dst_fmt_width :: u32
  dst_fmt_height :: u32
  segment_map :: rockchip_vpu_aux_buf
  prob_tbl :: rockchip_vpu_aux_buf
  coherent :: coherent_pool
  rockchip_regs :: regs_tables

text \<open>
  The kernel macros \<^verbatim>\<open>DIV_ROUND_UP(n, d) = ((n) + (d) - 1) / (d)\<close> and
  \<^verbatim>\<open>round_up(x, y) = ((((x) - 1) | ((y) - 1)) + 1)\<close>, on \<^verbatim>\<open>unsigned int\<close>.
\<close>

definition DIV_ROUND_UP :: "u32 \<Rightarrow> u32 \<Rightarrow> u32" where
  "DIV_ROUND_UP n d = (n + d - 1) div d"

definition round_up :: "u32 \<Rightarrow> u32 \<Rightarrow> u32" where
  "round_up x y = ((x - 1) OR (y - 1)) + 1"

definition MB_DIM :: u32 where "MB_DIM = 16"

definition segment_map_size :: "vp8d_state \<Rightarrow> nat" where
  "segment_map_size st =
     (let mb_width = DIV_ROUND_UP (dst_fmt_width st) MB_DIM;
          mb_height = DIV_ROUND_UP (dst_fmt_height st) MB_DIM
      in unat (round_up (DIV_ROUND_UP (mb_width * mb_height) 4) 64))"

definition rockchip_vpu_vp8d_init ::
  "alloc_outcome \<Rightarrow> alloc_outcome \<Rightarrow> vp8d_state \<Rightarrow> int \<times> vp8d_state" where
  "rockchip_vpu_vp8d_init alloc1 alloc2 st =
     (case (if vpu_type st = RK3229_VPU then Some Regs_rk3229
            else if vpu_type st = RK3288_VPU then Some Regs_rk3288
            else None) of
        None \<Rightarrow> (- EPERM, st)
      | Some tables \<Rightarrow>
        let st = st\<lparr>rockchip_regs := tables\<rparr>;
            (ret, seg, pool) =
               rockchip_vpu_aux_buf_alloc alloc1 (segment_map_size st)
                 (segment_map st, coherent st);
            st = st\<lparr>segment_map := seg, coherent := pool\<rparr>
        in if ret \<noteq> 0 then (ret, st)
           else
             let st = st\<lparr>segment_map :=
                          (segment_map st)\<lparr>buf_cpu :=
                             Option.bind (buf_cpu (segment_map st))
                               (\<lambda>m. memset m 0 (buf_size (segment_map st)))\<rparr>\<rparr>;
                 (ret, tbl, pool) =
                    rockchip_vpu_aux_buf_alloc alloc2 sizeof_vp8_prob_tbl_packed
                      (prob_tbl st, coherent st);
                 st = st\<lparr>prob_tbl := tbl, coherent := pool\<rparr>
             in if ret \<noteq> 0 then
                  let (seg, pool) = rockchip_vpu_aux_buf_free (segment_map st, coherent st)
                  in (ret, st\<lparr>segment_map := seg, coherent := pool\<rparr>)
                else (0, st))"

text \<open>
  Lines 660 to 665 of \<^verbatim>\<open>rockchip_vpu_vp8d_run\<close>: the effect of a run on the two
  auxiliary buffers, before the engine is powered and programmed.  \<open>None\<close> stands for a
  write outside a buffer or through a \<^verbatim>\<open>NULL\<close> pointer.
\<close>

definition vp8d_run_aux_buffers ::
  "v4l2_ctrl_vp8_frame_hdr \<Rightarrow> vp8d_state \<Rightarrow> vp8d_state option" where
  "vp8d_run_aux_buffers hdr st =
     (case (if key_frame hdr = 0 \<and> buf_cpu (segment_map st) \<noteq> None
            then map_option (\<lambda>m. (segment_map st)\<lparr>buf_cpu := Some m\<rparr>)
                   (Option.bind (buf_cpu (segment_map st))
                      (\<lambda>m. memset m 0 (buf_size (segment_map st))))
            else Some (segment_map st)) of
        None \<Rightarrow> None
      | Some seg \<Rightarrow>
          (case rockchip_vp8d_prob_update hdr (prob_tbl st) of
             None \<Rightarrow> None
           | Some tbl \<Rightarrow> Some (st\<lparr>segment_map := seg, prob_tbl := tbl\<rparr>)))"

text \<open>
  The condition under which the specification's section 4.4 has the segmentation map
  zeroed again during a run, for comparison with the code: the frame is not a key frame
  and its header does not flag a segmentation update.  Which frames are key frames is a
  parameter, as is the mask of the update flag.
\<close>

definition spec_rezero_condition ::
  "(v4l2_ctrl_vp8_frame_hdr \<Rightarrow> bool) \<Rightarrow> u8 \<Rightarrow> v4l2_ctrl_vp8_frame_hdr \<Rightarrow> bool" where
  "spec_rezero_condition is_key_frame update_mask hdr =
     (\<not> is_key_frame hdr \<and> sgmnt_flags (sgmnt_hdr hdr) AND update_mask = 0)"

section \<open>The run scheduler\<close>

text \<open>
  Contexts and buffers are referred to by pointer; the model uses natural numbers for
  the pointers and keeps the contexts in a store indexed by them.  The intrusive list
  \<^verbatim>\<open>dev->ready_ctxs\<close>, linked through \<^verbatim>\<open>ctx->list\<close>, is the list of the contexts on it;
  \<^verbatim>\<open>list_empty(&ctx->list)\<close> holds when the context is on no list, that is, when it is not
  a member of \<open>ready_ctxs\<close>.  \<^verbatim>\<open>list_add_tail\<close> of a node that is already linked would
  corrupt the C list; in the model it shows as a duplicate.

  The codec hooks and the calls into the rest of the kernel are recorded in a trace, and
  so are taking and releasing \<^verbatim>\<open>dev->irqlock\<close>.  The delayed work \<^verbatim>\<open>watchdog_work\<close> is
  either idle (\<open>None\<close>) or pending with the delay, in milliseconds, it was scheduled
  with; time itself is not part of the model.
\<close>

type_synonym ctx_ptr = nat
type_synonym buf_ptr = nat

datatype vb2_buffer_state = VB2_BUF_STATE_DONE | VB2_BUF_STATE_ERROR

datatype hw_event =
    Ev_spin_lock
  | Ev_spin_unlock
  | Ev_prepare_run ctx_ptr
  | Ev_codec_run ctx_ptr
  | Ev_codec_reset ctx_ptr
  | Ev_run_done_hook ctx_ptr vb2_buffer_state
  | Ev_vb2_buffer_done buf_ptr vb2_buffer_state
  | Ev_wake_up_all
  | Ev_power_off
  | Ev_watchdog_scheduled nat
  | Ev_watchdog_cancelled

record rockchip_vpu_ctx =
  src_queue :: "buf_ptr list"
  dst_queue :: "buf_ptr list"
  run_src :: "buf_ptr option"
  run_dst :: "buf_ptr option"
  has_prepare_run :: bool
  has_run_done :: bool

record rockchip_vpu_dev =
  dev_state :: "32 word"
  ready_ctxs :: "ctx_ptr list"
  current_ctx :: "ctx_ptr option"
  ctxs :: "ctx_ptr \<Rightarrow> rockchip_vpu_ctx"
  watchdog_work :: "nat option"
  trace :: "hw_event list"

text \<open>
  \<^verbatim>\<open>enum rockchip_vpu_state { VPU_RUNNING = BIT(0), VPU_SUSPENDED = BIT(1) }\<close>.  The
  driver passes these values as the bit \<^emph>\<open>number\<close> to \<^verbatim>\<open>test_bit\<close>, \<^verbatim>\<open>set_bit\<close>,
  \<^verbatim>\<open>clear_bit\<close> and \<^verbatim>\<open>test_and_set_bit\<close>, so the flags live in bits 1 and 2 of
  \<^verbatim>\<open>dev->state\<close>.
\<close>

definition VPU_RUNNING :: nat where "VPU_RUNNING = 2 ^ 0"
definition VPU_SUSPENDED :: nat where "VPU_SUSPENDED = 2 ^ 1"

definition test_bit :: "nat \<Rightarrow> 32 word \<Rightarrow> bool" where
  "test_bit nr w = bit w nr"

definition emit :: "hw_event \<Rightarrow> rockchip_vpu_dev \<Rightarrow> rockchip_vpu_dev" where
  "emit e dev = dev\<lparr>trace := trace dev @ [e]\<rparr>"

text \<open>
  \<^verbatim>\<open>schedule_delayed_work\<close> queues the work unless it is already pending;
  \<^verbatim>\<open>cancel_delayed_work\<close> removes a pending work.
\<close>

definition schedule_delayed_work :: "nat \<Rightarrow> rockchip_vpu_dev \<Rightarrow> rockchip_vpu_dev" where
  "schedule_delayed_work msecs dev =
     (case watchdog_work dev of
        None \<Rightarrow> emit (Ev_watchdog_scheduled msecs) (dev\<lparr>watchdog_work := Some msecs\<rparr>)
      | Some _ \<Rightarrow> dev)"

definition cancel_delayed_work :: "rockchip_vpu_dev \<Rightarrow> rockchip_vpu_dev" where
  "cancel_delayed_work dev =
     (case watchdog_work dev of
        None \<Rightarrow> dev
      | Some _ \<Rightarrow> emit Ev_watchdog_cancelled (dev\<lparr>watchdog_work := None\<rparr>))"

definition rockchip_vpu_prepare_run :: "ctx_ptr \<Rightarrow> rockchip_vpu_dev \<Rightarrow> rockchip_vpu_dev" where
  "rockchip_vpu_prepare_run c dev =
     (if has_prepare_run (ctxs dev c) then emit (Ev_prepare_run c) dev else dev)"

text \<open>
  \<^verbatim>\<open>rockchip_vpu_run\<close> calls \<^verbatim>\<open>ctx->hw.codec_ops->run\<close>, which is
  \<^verbatim>\<open>rockchip_vpu_vp8d_run\<close> for both entries of \<^verbatim>\<open>mode_ops\<close>.  Of that function the
  scheduler sees the call itself and line 761, which schedules the watchdog 2000 ms
  ahead; what it writes to the auxiliary buffers and the registers is modelled in the
  sections above.
\<close>

definition rockchip_vpu_run :: "ctx_ptr \<Rightarrow> rockchip_vpu_dev \<Rightarrow> rockchip_vpu_dev" where
  "rockchip_vpu_run c dev = schedule_delayed_work 2000 (emit (Ev_codec_run c) dev)"

text \<open>
  \<^verbatim>\<open>list_first_entry\<close> of an empty queue yields a pointer that is no buffer; the model
  returns \<open>None\<close> there.
\<close>

definition rockchip_vpu_dequeue_run_locked ::
  "ctx_ptr \<Rightarrow> rockchip_vpu_dev \<Rightarrow> rockchip_vpu_dev option" where
  "rockchip_vpu_dequeue_run_locked c dev =
     (case (src_queue (ctxs dev c), dst_queue (ctxs dev c)) of
        (src # src_rest, dst # dst_rest) \<Rightarrow>
          Some (dev\<lparr>ctxs := (ctxs dev)(c := (ctxs dev c)
                  \<lparr>src_queue := src_rest, dst_queue := dst_rest,
                   run_src := Some src, run_dst := Some dst\<rparr>)\<rparr>)
      | _ \<Rightarrow> None)"

text \<open>
  \<^verbatim>\<open>test_and_set_bit\<close> leaves the word as it is when the bit is already set, which is
  the branch of \<open>rockchip_vpu_try_run\<close> that gives up.
\<close>

definition rockchip_vpu_try_run :: "rockchip_vpu_dev \<Rightarrow> rockchip_vpu_dev option" where
  "rockchip_vpu_try_run dev0 =
     (let dev = emit Ev_spin_lock dev0 in
      if ready_ctxs dev = [] \<or> test_bit VPU_SUSPENDED (dev_state dev) then
        Some (emit Ev_spin_unlock dev)
      else if test_bit VPU_RUNNING (dev_state dev) then
        Some (emit Ev_spin_unlock dev)
      else
        let dev = dev\<lparr>dev_state := set_bit VPU_RUNNING (dev_state dev)\<rparr>;
            c = hd (ready_ctxs dev);
            dev = dev\<lparr>ready_ctxs := tl (ready_ctxs dev)\<rparr>
        in case rockchip_vpu_dequeue_run_locked c dev of
             None \<Rightarrow> None
           | Some dev \<Rightarrow>
               let dev = dev\<lparr>current_ctx := Some c\<rparr>;
                   dev = emit Ev_spin_unlock dev;
                   dev = rockchip_vpu_prepare_run c dev
               in Some (rockchip_vpu_run c dev))"

definition rockchip_vpu_try_context_locked ::
  "ctx_ptr \<Rightarrow> rockchip_vpu_dev \<Rightarrow> rockchip_vpu_dev" where
  "rockchip_vpu_try_context_locked c dev =
     (if c \<in> set (ready_ctxs dev) then dev
      else if dst_queue (ctxs dev c) \<noteq> [] \<and> src_queue (ctxs dev c) \<noteq> []
      then dev\<lparr>ready_ctxs := ready_ctxs dev @ [c]\<rparr>
      else dev)"

text \<open>
  \<^verbatim>\<open>rockchip_vpu_run_done\<close> hands \<^verbatim>\<open>ctx->run.src\<close> and \<^verbatim>\<open>ctx->run.dst\<close> to
  \<^verbatim>\<open>vb2_buffer_done\<close>; for a context that never ran they are \<^verbatim>\<open>NULL\<close> (\<open>None\<close>).
\<close>

definition rockchip_vpu_run_done ::
  "ctx_ptr \<Rightarrow> vb2_buffer_state \<Rightarrow> rockchip_vpu_dev \<Rightarrow> rockchip_vpu_dev option" where
  "rockchip_vpu_run_done c result dev0 =
     (let dev = (if has_run_done (ctxs dev0 c) then emit (Ev_run_done_hook c result) dev0
                 else dev0)
      in case (run_src (ctxs dev c), run_dst (ctxs dev c)) of
           (Some src, Some dst) \<Rightarrow>
             let dev = emit (Ev_vb2_buffer_done src result) dev;
                 dev = emit (Ev_vb2_buffer_done dst result) dev;
                 dev = dev\<lparr>current_ctx := None\<rparr>;
                 dev = emit Ev_wake_up_all dev;
                 dev = emit Ev_spin_lock dev;
                 dev = rockchip_vpu_try_context_locked c dev;
                 dev = dev\<lparr>dev_state := unset_bit VPU_RUNNING (dev_state dev)\<rparr>;
                 dev = emit Ev_spin_unlock dev
             in rockchip_vpu_try_run dev
         | _ \<Rightarrow> None)"

definition rockchip_vpu_try_context ::
  "ctx_ptr \<Rightarrow> rockchip_vpu_dev \<Rightarrow> rockchip_vpu_dev option" where
  "rockchip_vpu_try_context c dev0 =
     (let dev = emit Ev_spin_lock dev0;
          dev = rockchip_vpu_try_context_locked c dev;
          dev = emit Ev_spin_unlock dev
      in rockchip_vpu_try_run dev)"

text \<open>
  The interrupt handler and the watchdog work.  Both take the context from
  \<^verbatim>\<open>vpu->current_ctx\<close> and dereference it; with no current context that is a
  \<^verbatim>\<open>NULL\<close> dereference (\<open>None\<close>).  \<open>irq_ret\<close> is what the codec's \<^verbatim>\<open>irq\<close> hook returns
  from the hardware status: 0 when the decoder signals completion.  The codec's
  \<^verbatim>\<open>done\<close> hook is \<^verbatim>\<open>rockchip_vpu_run_done\<close> in both entries of \<^verbatim>\<open>mode_ops\<close>.
\<close>

definition vdpu_irq :: "int \<Rightarrow> rockchip_vpu_dev \<Rightarrow> rockchip_vpu_dev option" where
  "vdpu_irq irq_ret dev =
     (case current_ctx dev of
        None \<Rightarrow> None
      | Some c \<Rightarrow>
          if irq_ret = 0 then
            let dev = emit Ev_power_off dev;
                dev = cancel_delayed_work dev
            in rockchip_vpu_run_done c VB2_BUF_STATE_DONE dev
          else Some dev)"

definition rockchip_vpu_watchdog :: "rockchip_vpu_dev \<Rightarrow> rockchip_vpu_dev option" where
  "rockchip_vpu_watchdog dev =
     (case current_ctx dev of
        None \<Rightarrow> None
      | Some c \<Rightarrow>
          let dev = emit Ev_spin_lock dev;
              dev = emit (Ev_codec_reset c) dev;
              dev = emit Ev_spin_unlock dev;
              dev = emit Ev_power_off dev
          in rockchip_vpu_run_done c VB2_BUF_STATE_ERROR dev)"

text \<open>
  The expiry of the delayed work: the kernel runs \<open>rockchip_vpu_watchdog\<close> only for a
  work that is pending, and the work is no longer pending while its function runs.
\<close>

definition watchdog_expires :: "rockchip_vpu_dev \<Rightarrow> rockchip_vpu_dev option" where
  "watchdog_expires dev =
     (case watchdog_work dev of
        None \<Rightarrow> None
      | Some _ \<Rightarrow> rockchip_vpu_watchdog (dev\<lparr>watchdog_work := None\<rparr>))"

text \<open>
  Sequences of calls into the scheduler, for the invariants: a call that faults ends the
  run with \<open>None\<close>.
\<close>

datatype sched_call = Submit ctx_ptr | Complete ctx_ptr vb2_buffer_state

fun sched_step :: "sched_call \<Rightarrow> rockchip_vpu_dev \<Rightarrow> rockchip_vpu_dev option" where
  "sched_step (Submit c) dev = rockchip_vpu_try_context c dev"
| "sched_step (Complete c result) dev = rockchip_vpu_run_done c result dev"

fun sched_run :: "sched_call list \<Rightarrow> rockchip_vpu_dev \<Rightarrow> rockchip_vpu_dev option" where
  "sched_run [] dev = Some dev"
| "sched_run (call # calls) dev =
     (case sched_step call dev of None \<Rightarrow> None | Some dev' \<Rightarrow> sched_run calls dev')"

text \<open>
  The readiness invariant the comment in \<^verbatim>\<open>__rockchip_vpu_dequeue_run_locked\<close> relies
  on: no context is twice on the ready list, and every context on it has a buffer in
  each queue.
\<close>

definition ready_inv :: "rockchip_vpu_dev \<Rightarrow> bool" where
  "ready_inv dev =
     (distinct (ready_ctxs dev) \<and>
      list_all (\<lambda>c. src_queue (ctxs dev c) \<noteq> [] \<and> dst_queue (ctxs dev c) \<noteq> [])
        (ready_ctxs dev))"

text \<open>
  The layout of the table as the specification documents it, for reading the table back:
  the offset of motion-vector probability \<open>t\<close> of component \<open>c\<close>, and the offset of
  coefficient probability \<open>l\<close> of the triple (plane \<open>i\<close>, band \<open>j\<close>, context \<open>k\<close>), whose
  first four entries lie in the header region at byte 56 and whose last seven lie in the
  footer region at byte 440.
\<close>

definition mv_prob_offset :: "nat \<Rightarrow> nat \<Rightarrow> nat" where
  "mv_prob_offset c t =
     (if t = 0 then 16 + c
      else if t = 1 then 18 + c
      else if t < 9 then 40 + 8 * c + (t - 2)
      else if t < 17 then 24 + 8 * c + (t - 9)
      else 20 + 2 * c + (t - 17))"

definition coeff_prob_offset :: "nat \<Rightarrow> nat \<Rightarrow> nat \<Rightarrow> nat \<Rightarrow> nat" where
  "coeff_prob_offset i j k l =
     (if l < 4 then 56 + 4 * ((i * 8 + j) * 3 + k) + l
      else 440 + 8 * ((i * 8 + j) * 3 + k) + (l - 4))"

text \<open>A concrete frame header and table, for instances of the theorems.\<close>

definition example_hdr :: v4l2_ctrl_vp8_frame_hdr where
  "example_hdr =
     \<lparr>key_frame = 0, version = 0,
      sgmnt_hdr = \<lparr>segment_feature_mode = 0, quant_update = (\<lambda>i. - 3),
                   lf_update = (\<lambda>i. 5), segment_probs = (\<lambda>i. 200 + of_nat i),
                   sgmnt_flags = 0xFF\<rparr>,
      lf_hdr = \<lparr>lf_type = 0, lf_level = 60, sharpness_level = 0,
                ref_frm_delta_magnitude = (\<lambda>i. 0), mb_mode_delta_magnitude = (\<lambda>i. 0),
                lf_flags = 0\<rparr>,
      quant_hdr = \<lparr>y_ac_qi = 1, y_dc_delta = 0, y2_dc_delta = 0, y2_ac_delta = 0,
                   uv_dc_delta = 0, uv_ac_delta = 0\<rparr>,
      entropy_hdr = \<lparr>coeff_probs = (\<lambda>i j k l. of_nat (((i * 8 + j) * 3 + k) * 11 + l)),
                     y_mode_probs = (\<lambda>i. 100 + of_nat i),
                     uv_mode_probs = (\<lambda>i. 110 + of_nat i),
                     mv_probs = (\<lambda>c t. of_nat (c * 19 + t))\<rparr>,
      sign_bias_golden = 0, sign_bias_alternate = 1,
      prob_skip_false = 11, prob_intra = 22, prob_last = 33, prob_gf = 44,
      first_part_size = 100, first_part_offset = 10, macroblock_bit_offset = 3,
      dct_part_sizes = (\<lambda>i. 50), num_dct_parts = 2,
      last_frame = 0, golden_frame = 1, alt_frame = 7\<rparr>"

definition example_tbl :: rockchip_vpu_aux_buf where
  "example_tbl = \<lparr>buf_cpu = Some (replicate 1208 0xAA), buf_dma = 0x1000, buf_size = 1208\<rparr>"

definition example_masks :: vp8_flag_masks where
  "example_masks =
     \<lparr>V4L2_VP8_SEGMNT_HDR_FLAG_ENABLED = 0x01, V4L2_VP8_SEGMNT_HDR_FLAG_UPDATE_MAP = 0x02,
      V4L2_VP8_LF_HDR_ADJ_ENABLE = 0x01\<rparr>"

definition example_regs :: vp8d_reg_ids where
  "example_regs =
     \<lparr>VDPU_REG_REF_PIC_LF_LEVEL_0 = 10, VDPU_REG_REF_PIC_FILT_SHARPNESS = 14,
      VDPU_REG_REF_PIC_FILT_TYPE_E = 15, VDPU_REG_FILT_MB_ADJ_0 = 16,
      VDPU_REG_REF_PIC_ADJ_0 = 20, VDPU_REG_REF_PIC_QUANT_0 = 24,
      VDPU_REG_REF_PIC_QUANT_DELTA_0 = 28, VDPU_REG_REF_PIC_QUANT_DELTA_1 = 29,
      VDPU_REG_REF_PIC_QUANT_DELTA_2 = 30, VDPU_REG_REF_PIC_QUANT_DELTA_3 = 31,
      VDPU_REG_REF_PIC_QUANT_DELTA_4 = 32, VDPU_REG_VP8_ADDR_CTRL_PART = 33,
      VDPU_REG_DEC_CTRL2_STRM1_START_BIT = 34, VDPU_REG_DEC_CTRL6_STREAM1_LEN = 35,
      VDPU_REG_DEC_CTRL6_COEFFS_PART_AM = 36, VDPU_REG_DEC_CTRL3_STREAM_LEN = 37,
      VDPU_REG_ADDR_STR = 38, VDPU_REG_DEC_CTRL2_STRM_START_BIT = 46,
      VDPU_REG_VP8_ADDR_REF0 = 54, VDPU_REG_VP8_ADDR_REF2_5_0 = 55,
      VDPU_REG_VP8_GREF_SIGN_BIAS_0 = 56, VDPU_REG_VP8_ADDR_REF2_5_1 = 57,
      VDPU_REG_VP8_AREF_SIGN_BIAS_1 = 58\<rparr>"

definition example_bufs :: vp8d_ref_bufs where
  "example_bufs =
     \<lparr>num_buffers = 2,
      dst_bufs = (\<lambda>i. \<lparr>plane_dma_addr = 0x1000 + 0x100 * of_nat i\<rparr>),
      run_dst_vb2 = \<lparr>plane_dma_addr = 0x2000\<rparr>\<rparr>"

definition example_state :: vp8d_state where
  "example_state =
     \<lparr>vpu_type = RK3288_VPU, dst_fmt_width = 64, dst_fmt_height = 48,
      segment_map = \<lparr>buf_cpu = Some [1, 2, 3, 4], buf_dma = 0x3000, buf_size = 4\<rparr>,
      prob_tbl = example_tbl,
      coherent = [(0x1000, 1208), (0x3000, 4)],
      rockchip_regs = Regs_rk3288\<rparr>"

definition fresh_state :: vp8d_state where
  "fresh_state =
     \<lparr>vpu_type = RK3288_VPU, dst_fmt_width = 64, dst_fmt_height = 48,
      segment_map = \<lparr>buf_cpu = None, buf_dma = 0, buf_size = 0\<rparr>,
      prob_tbl = \<lparr>buf_cpu = None, buf_dma = 0, buf_size = 0\<rparr>,
      coherent = [],
      rockchip_regs = Regs_unset\<rparr>"

definition example_ctx :: "buf_ptr list \<Rightarrow> buf_ptr list \<Rightarrow> bool \<Rightarrow> rockchip_vpu_ctx" where
  "example_ctx srcs dsts hooks =
     \<lparr>src_queue = srcs, dst_queue = dsts, run_src = None, run_dst = None,
      has_prepare_run = hooks, has_run_done = hooks\<rparr>"

text \<open>
  An idle device with two contexts: context 1 has two buffers in each queue, context 2
  has one, the others have none.  In \<open>example_dev\<close> both are on the ready list, in
  \<open>example_dev_idle\<close> the list is empty.
\<close>

definition example_ctxs :: "ctx_ptr \<Rightarrow> rockchip_vpu_ctx" where
  "example_ctxs =
     (\<lambda>c. example_ctx [] [] False)
       (1 := example_ctx [10, 11] [20, 21] True, 2 := example_ctx [12] [22] False)"

definition example_dev_idle :: rockchip_vpu_dev where
  "example_dev_idle =
     \<lparr>dev_state = 0, ready_ctxs = [], current_ctx = None, ctxs = example_ctxs,
      watchdog_work = None, trace = []\<rparr>"

definition example_dev :: rockchip_vpu_dev where
  "example_dev = example_dev_idle\<lparr>ready_ctxs := [1, 2]\<rparr>"

text \<open>Context 1 is being decoded, with buffers 10 and 20; context 2 waits.\<close>

definition example_dev_busy :: rockchip_vpu_dev where
  "example_dev_busy =
     \<lparr>dev_state = 2, ready_ctxs = [2], current_ctx = Some 1,
      ctxs = example_ctxs(1 := (example_ctx [11] [21] True)\<lparr>run_src := Some 10, run_dst := Some 20\<rparr>),
      watchdog_work = Some 2000, trace = []\<rparr>"

text \<open>
  Context 2 is being decoded with its last buffers, 12 and 22, and nothing is on the
  ready list.
\<close>

definition example_dev_last :: rockchip_vpu_dev where
  "example_dev_last =
     \<lparr>dev_state = 2, ready_ctxs = [], current_ctx = Some 2,
      ctxs = example_ctxs(2 := (example_ctx [] [] False)\<lparr>run_src := Some 12, run_dst := Some 22\<rparr>),
      watchdog_work = Some 2000, trace = []\<rparr>"

section \<open>Derived forms used in the proofs\<close>

text \<open>The register tables a successful variant check of init selects.\<close>

definition init_tables :: "vp8d_state \<Rightarrow> regs_tables" where
  "init_tables st = (if vpu_type st = RK3229_VPU then Regs_rk3229 else Regs_rk3288)"

text \<open>
  The state a dispatch leaves behind, written out: the head context \<open>c\<close> is off the
  ready list, the heads \<open>src\<close> and \<open>dst\<close> of its queues are bound as its run, and the
  codec hooks have run after the lock was released.
\<close>

definition dispatched ::
  "ctx_ptr \<Rightarrow> ctx_ptr list \<Rightarrow> buf_ptr \<Rightarrow> buf_ptr list \<Rightarrow> buf_ptr \<Rightarrow> buf_ptr list
     \<Rightarrow> rockchip_vpu_dev \<Rightarrow> rockchip_vpu_dev" where
  "dispatched c rest src srcs dst dsts dev =
     rockchip_vpu_run c (rockchip_vpu_prepare_run c (emit Ev_spin_unlock
       (emit Ev_spin_lock dev
          \<lparr>dev_state := set_bit VPU_RUNNING (dev_state dev),
           ready_ctxs := rest,
           ctxs := (ctxs dev)(c := (ctxs dev c)
                  \<lparr>src_queue := srcs, dst_queue := dsts,
                   run_src := Some src, run_dst := Some dst\<rparr>),
           current_ctx := Some c\<rparr>)))"

text \<open>
  The state in which \<open>rockchip_vpu_run_done\<close> makes its final call of
  \<open>rockchip_vpu_try_run\<close>, for a context whose run is bound to \<open>src\<close> and \<open>dst\<close>.
\<close>

definition completed ::
  "ctx_ptr \<Rightarrow> vb2_buffer_state \<Rightarrow> buf_ptr \<Rightarrow> buf_ptr \<Rightarrow> rockchip_vpu_dev \<Rightarrow> rockchip_vpu_dev" where
  "completed c result src dst dev =
     emit Ev_spin_unlock
       ((rockchip_vpu_try_context_locked c
          (emit Ev_spin_lock (emit Ev_wake_up_all
            ((emit (Ev_vb2_buffer_done dst result) (emit (Ev_vb2_buffer_done src result)
               (if has_run_done (ctxs dev c) then emit (Ev_run_done_hook c result) dev else dev)))
             \<lparr>current_ctx := None\<rparr>))))
        \<lparr>dev_state := unset_bit VPU_RUNNING (dev_state dev)\<rparr>)"

text \<open>
  Frame \<open>k\<close> of a context whose queues held \<open>S\<close> and \<open>D\<close> is in flight: its run is bound
  to the \<open>k\<close>-th buffers and the queues hold what follows them.
\<close>

definition in_flight ::
  "ctx_ptr \<Rightarrow> buf_ptr list \<Rightarrow> buf_ptr list \<Rightarrow> nat \<Rightarrow> rockchip_vpu_dev \<Rightarrow> bool" where
  "in_flight c S D k dev =
     (ready_ctxs dev = [] \<and> \<not> test_bit VPU_SUSPENDED (dev_state dev)
      \<and> run_src (ctxs dev c) = Some (S ! k) \<and> run_dst (ctxs dev c) = Some (D ! k)
      \<and> src_queue (ctxs dev c) = drop (Suc k) S \<and> dst_queue (ctxs dev c) = drop (Suc k) D)"

text \<open>
  The events of a completion up to its final call of \<open>rockchip_vpu_try_run\<close>, and the
  events of a dispatch.
\<close>

definition completion_events ::
  "ctx_ptr \<Rightarrow> vb2_buffer_state \<Rightarrow> buf_ptr \<Rightarrow> buf_ptr \<Rightarrow> rockchip_vpu_dev \<Rightarrow> hw_event list" where
  "completion_events c result src dst dev =
     (if has_run_done (ctxs dev c) then [Ev_run_done_hook c result] else [])
     @ [Ev_vb2_buffer_done src result, Ev_vb2_buffer_done dst result, Ev_wake_up_all,
        Ev_spin_lock, Ev_spin_unlock]"

definition dispatch_events :: "ctx_ptr \<Rightarrow> rockchip_vpu_dev \<Rightarrow> hw_event list" where
  "dispatch_events c dev =
     [Ev_spin_lock, Ev_spin_unlock]
     @ (if has_prepare_run (ctxs dev c) then [Ev_prepare_run c] else [])
     @ [Ev_codec_run c, Ev_watchdog_scheduled 2000]"

section \<open>Proofs: partition addressing\<close>

lemma and7_mod: "unat ((x :: u32) AND 7) = unat x mod 8"
proof -
  have "(7 :: u32) = mask 3" by (simp add: mask_eq_exp_minus_1)
  then have "x AND 7 = take_bit 3 x" by (simp only: take_bit_eq_mask)
  then show ?thesis by (simp add: unsigned_take_bit_eq take_bit_eq_mod unat_mod)
qed

lemma and_not7: "(x :: u32) AND - 8 = x - (x AND 7)"
proof -
  have "x AND NOT 7 = x - (x AND 7)"
    by (metis (no_types, lifting) and.assoc bit.compl_zero
    bit.conj_disj_distrib bit.de_Morgan_conj disjunctive_diff_eq_and_not
    word_and_not word_bitwise_m1_simps(2) zero_and_eq)
  then show ?thesis by simp
qed

lemma unat_and_not7: "unat ((x :: u32) AND - 8) = unat x - unat x mod 8"
proof -
  have "unat (x AND 7) \<le> unat x" by (simp add: and7_mod)
  then have "x AND 7 \<le> x" by (simp add: word_le_nat_alt)
  then show ?thesis
    by (simp only: and_not7 unat_sub and7_mod)
qed

lemma unat_div8: "unat ((x :: u32) div 8) = unat x div 8"
  by (simp add: unat_div)

lemma unat_and_not7_div: "unat ((x :: u32) AND - 8) = 8 * (unat x div 8)"
  by (simp add: unat_and_not7 minus_mod_eq_mult_div)

lemma unat_aligned_times8:
  "unat (((x :: u32) div 8 AND - 8) * 8) = 64 * (unat x div 64)"
proof -
  have "unat x < 2 ^ 32" using unsigned_less [of x] by simp
  then have "64 * (unat x div 64) < 2 ^ 32" by simp
  moreover have "unat x div 8 div 8 = unat x div 64"
    by (simp add: div_mult2_eq [symmetric])
  ultimately show ?thesis
    by (simp add: unat_word_ariths unat_and_not7_div unat_div8)
qed

lemma start_bits: "unat (mb_start_bits hdr) = unat (mb_offset_bits hdr) mod 64"
proof -
  let ?b = "mb_offset_bits hdr"
  have "64 * (unat ?b div 64) \<le> unat ?b" by simp
  then have le: "((?b div 8) AND - 8) * 8 \<le> ?b"
    by (simp only: word_le_nat_alt unat_aligned_times8) 
  have "unat (mb_start_bits hdr) = unat ?b - 64 * (unat ?b div 64)"
    using le by (simp add: mb_start_bits_def mb_offset_bytes_def DEC_8190_ALIGN_MASK_def
        unat_sub unat_aligned_times8)
  also have "\<dots> = unat ?b mod 64" by (simp add: minus_mult_div_eq_mod)
  finally show ?thesis .
qed

lemma size_comp: "(mb_offset_bytes hdr AND NOT DEC_8190_ALIGN_MASK) + mb_size hdr
   = first_part_offset hdr + first_part_size hdr"
  by (simp add: mb_size_def DEC_8190_ALIGN_MASK_def and_not7 [of "mb_offset_bytes hdr"])


lemma unat_mb_offset_bits:
  "unat (mb_offset_bits hdr) =
     (unat (first_part_offset hdr) * 8 + unat (macroblock_bit_offset hdr) + 8) mod 2 ^ 32"
  by (simp add: mb_offset_bits_def unat_word_ariths mod_simps)

lemma unat_start_bits_diff:
  "unat (mb_start_bits hdr) =
     unat (mb_offset_bits hdr) - 8 * unat (mb_offset_bytes hdr AND NOT DEC_8190_ALIGN_MASK)"
proof -
  have "unat (mb_start_bits hdr) = unat (mb_offset_bits hdr) mod 64" by (rule start_bits)
  also have "\<dots> = unat (mb_offset_bits hdr) - 64 * (unat (mb_offset_bits hdr) div 64)"
    by (simp add: minus_mult_div_eq_mod)
  also have "unat (mb_offset_bits hdr) div 64 = unat (mb_offset_bits hdr) div 8 div 8"
    by (simp add: div_mult2_eq [symmetric])
  finally show ?thesis
    by (simp add: DEC_8190_ALIGN_MASK_def unat_and_not7_div mb_offset_bytes_def unat_div8)
qed

text \<open>
  Claim C4.  For every frame header, the start of the macroblock data of the control
  partition is \<open>first_part_offset * 8 + macroblock_bit_offset + 8\<close> bits (in 32-bit
  arithmetic); the base-address register gets the byte offset rounded down to a multiple
  of 8, plus the buffer address; the start-bit register gets the remaining bit offset,
  which is at most 63; and the length register makes up for the bytes dropped by the
  rounding, so that base offset plus length is the end of the first partition.  For
  \<open>first_part_offset = 10\<close> and \<open>macroblock_bit_offset = 3\<close> the aligned offset is 8 and
  the start bit is 27.
\<close>

theorem C4_ctrl_partition_alignment:
  "unat (mb_offset_bits hdr) =
     (unat (first_part_offset hdr) * 8 + unat (macroblock_bit_offset hdr) + 8) mod 2 ^ 32
   \<and> cfg_parts_ctrl R hdr src_dma =
       [(VDPU_REG_VP8_ADDR_CTRL_PART R,
           (mb_offset_bytes hdr AND NOT DEC_8190_ALIGN_MASK) + src_dma),
        (VDPU_REG_DEC_CTRL2_STRM1_START_BIT R, mb_start_bits hdr),
        (VDPU_REG_DEC_CTRL6_STREAM1_LEN R, mb_size hdr)]
   \<and> unat (mb_offset_bytes hdr) = unat (mb_offset_bits hdr) div 8
   \<and> unat (mb_offset_bytes hdr AND NOT DEC_8190_ALIGN_MASK)
       = 8 * (unat (mb_offset_bytes hdr) div 8)
   \<and> 8 dvd unat (mb_offset_bytes hdr AND NOT DEC_8190_ALIGN_MASK)
   \<and> unat (mb_start_bits hdr) =
       unat (mb_offset_bits hdr) - 8 * unat (mb_offset_bytes hdr AND NOT DEC_8190_ALIGN_MASK)
   \<and> unat (mb_start_bits hdr) \<le> 63
   \<and> mb_size hdr =
       (first_part_size hdr - (mb_offset_bytes hdr - first_part_offset hdr))
         + (mb_offset_bytes hdr - (mb_offset_bytes hdr AND NOT DEC_8190_ALIGN_MASK))
   \<and> (mb_offset_bytes hdr AND NOT DEC_8190_ALIGN_MASK) + mb_size hdr
       = first_part_offset hdr + first_part_size hdr
   \<and> mb_offset_bytes (hdr\<lparr>first_part_offset := 10, macroblock_bit_offset := 3\<rparr>)
         AND NOT DEC_8190_ALIGN_MASK = 8
   \<and> mb_start_bits (hdr\<lparr>first_part_offset := 10, macroblock_bit_offset := 3\<rparr>) = 27"
proof -
  have w: "cfg_parts_ctrl R hdr src_dma =
       [(VDPU_REG_VP8_ADDR_CTRL_PART R,
           (mb_offset_bytes hdr AND NOT DEC_8190_ALIGN_MASK) + src_dma),
        (VDPU_REG_DEC_CTRL2_STRM1_START_BIT R, mb_start_bits hdr),
        (VDPU_REG_DEC_CTRL6_STREAM1_LEN R, mb_size hdr)]"
    by (simp add: cfg_parts_ctrl_def vp8d_write_regs_value_def)
  have y: "unat (mb_offset_bytes hdr) = unat (mb_offset_bits hdr) div 8"
    by (simp add: mb_offset_bytes_def unat_div8)
  have a: "unat (mb_offset_bytes hdr AND NOT DEC_8190_ALIGN_MASK)
       = 8 * (unat (mb_offset_bytes hdr) div 8)"
    by (simp add: DEC_8190_ALIGN_MASK_def unat_and_not7_div)
  have a': "8 dvd unat (mb_offset_bytes hdr AND NOT DEC_8190_ALIGN_MASK)"
    by (simp only: a dvd_triv_left)
  have b: "unat (mb_start_bits hdr) \<le> 63"
    by (simp add: start_bits)
  have c: "mb_size hdr =
       (first_part_size hdr - (mb_offset_bytes hdr - first_part_offset hdr))
         + (mb_offset_bytes hdr - (mb_offset_bytes hdr AND NOT DEC_8190_ALIGN_MASK))"
    by (simp add: mb_size_def DEC_8190_ALIGN_MASK_def and_not7 [of "mb_offset_bytes hdr"])
  have d: "mb_offset_bytes (hdr\<lparr>first_part_offset := 10, macroblock_bit_offset := 3\<rparr>)
         AND NOT DEC_8190_ALIGN_MASK = 8"
    by (simp add: mb_offset_bytes_def mb_offset_bits_def DEC_8190_ALIGN_MASK_def)
  have e: "mb_start_bits (hdr\<lparr>first_part_offset := 10, macroblock_bit_offset := 3\<rparr>) = 27"
    by (simp add: mb_start_bits_def mb_offset_bytes_def mb_offset_bits_def
        DEC_8190_ALIGN_MASK_def)
  show ?thesis
    by (intro conjI) (rule unat_mb_offset_bits, rule w, rule y, rule a, rule a',
        rule unat_start_bits_diff, rule b, rule c, rule size_comp, rule d, rule e)
qed

section \<open>Proofs: probability table packing\<close>

lemma stores_Nil: "stores d [] = []"
  by (simp add: stores_def)

lemma length_stores: "length (stores d vs) = length vs"
  by (simp add: stores_def)

lemma stores_append: "stores d (xs @ ys) = stores d xs @ stores (d + length xs) ys"
proof -
  have "[0 ..< length xs + length ys] = [0 ..< length xs] @ map (\<lambda>k. k + length xs) [0 ..< length ys]"
    by (metis add.commute map_add_upt upt_add_eq_append zero_le)
  then show ?thesis
    by (simp add: stores_def nth_append add.assoc add.commute)
qed

lemma map_fst_stores: "map fst (stores d vs) = [d ..< d + length vs]"
  by (simp add: stores_def comp_def map_add_upt add.commute)

lemma map_snd_stores: "map snd (stores d vs) = vs"
  by (simp add: stores_def comp_def map_nth)

lemma length_concat_uniform:
  "\<forall>x\<in>set xs. length (f x) = n \<Longrightarrow> length (concat (map f xs)) = n * length xs"
  by (induction xs) auto

lemma fold_stores:
  "\<forall>x\<in>set xs. length (f x) = n \<Longrightarrow>
   fold (\<lambda>x (dst, ws). (dst + n, ws @ stores dst (f x))) xs (d, w)
     = (d + n * length xs, w @ stores d (concat (map f xs)))"
proof (induction xs arbitrary: d w)
  case Nil
  then show ?case by (simp add: stores_Nil)
next
  case (Cons x xs)
  then show ?case by (simp add: stores_append add.assoc)
qed

lemma fold_stores_fun:
  "\<forall>x\<in>set xs. length (f x) = n \<Longrightarrow>
   fold (\<lambda>x (dst, ws). (dst + n, ws @ stores dst (f x))) xs
     = (\<lambda>(dst, ws). (dst + n * length xs, ws @ stores dst (concat (map f xs))))"
  by (rule ext) (auto simp: fold_stores)


lemma length_coeff_header_bytes: "length (coeff_header_bytes e i j k) = 4"
  by (simp add: coeff_header_bytes_def)

lemma length_coeff_footer_bytes: "length (coeff_footer_bytes e i j k) = 8"
  by (simp add: coeff_footer_bytes_def)

lemma nested_fold_stores:
  assumes len: "\<And>i j k. length (f i j k) = n"
  shows "fold (\<lambda>i. fold (\<lambda>j. fold (\<lambda>k (dst, ws). (dst + n, ws @ stores dst (f i j k)))
                   [0 ..< 3]) [0 ..< 8]) [0 ..< 4] (d, w)
     = (d + n * 96, w @ stores d (concat (map (\<lambda>i. concat (map (\<lambda>j.
          concat (map (f i j) [0 ..< 3])) [0 ..< 8])) [0 ..< 4])))"
proof -
  let ?K = "\<lambda>i j. concat (map (f i j) [0 ..< 3])"
  let ?J = "\<lambda>i. concat (map (?K i) [0 ..< 8])"
  have lk: "length (?K i j) = n * 3" for i j
    using length_concat_uniform [where f = "f i j" and n = n and xs = "[0 ..< 3]"]
    by (simp add: len)
  have lj: "length (?J i) = n * 3 * 8" for i
    using length_concat_uniform [where f = "?K i" and n = "n * 3" and xs = "[0 ..< 8]"]
    by (simp add: lk)
  have k: "fold (\<lambda>k (dst, ws). (dst + n, ws @ stores dst (f i j k))) [0 ..< 3]
      = (\<lambda>(dst, ws). (dst + n * 3, ws @ stores dst (?K i j)))" for i j
    using fold_stores_fun [where f = "f i j" and n = n and xs = "[0 ..< 3]"]
    by (simp add: len)
  have j: "fold (\<lambda>j (dst, ws). (dst + n * 3, ws @ stores dst (?K i j))) [0 ..< 8]
      = (\<lambda>(dst, ws). (dst + n * 3 * 8, ws @ stores dst (?J i)))" for i
    using fold_stores_fun [where f = "?K i" and n = "n * 3" and xs = "[0 ..< 8]"]
    by (simp add: lk)
  have i: "fold (\<lambda>i (dst, ws). (dst + n * 3 * 8, ws @ stores dst (?J i))) [0 ..< 4]
      = (\<lambda>(dst, ws). (dst + n * 3 * 8 * 4, ws @ stores dst (concat (map ?J [0 ..< 4]))))"
    using fold_stores_fun [where f = "?J" and n = "n * 3 * 8" and xs = "[0 ..< 4]"]
    by (simp add: lj)
  show ?thesis by (simp only: k j i split_conv) simp
qed

lemma coeff_probs_header_loop_eq:
  "coeff_probs_header_loop e (d, w) = (d + 384, w @ stores d (coeff_header_region e))"
  using nested_fold_stores [where f = "coeff_header_bytes e" and n = 4, OF length_coeff_header_bytes]
  by (simp add: coeff_probs_header_loop_def coeff_header_bytes_def coeff_header_region_def)

lemma coeff_probs_footer_loop_eq:
  "coeff_probs_footer_loop e (d, w) = (d + 768, w @ stores d (coeff_footer_region e))"
  using nested_fold_stores [where f = "coeff_footer_bytes e" and n = 8, OF length_coeff_footer_bytes]
  by (simp add: coeff_probs_footer_loop_def coeff_footer_bytes_def coeff_footer_region_def)

lemma mv_probs_loop_eq: "mv_probs_loop e (d, w) = (d + 16, w @ stores d (mv_region e))"
proof -
  let ?J = "\<lambda>i. concat (map (mv_block_bytes e i) [0, 4])"
  have j: "fold (\<lambda>j (dst, ws). (dst + 4, ws @ stores dst (mv_block_bytes e i j))) [0, 4]
      = (\<lambda>(dst, ws). (dst + 8, ws @ stores dst (?J i)))" for i
    using fold_stores_fun [where f = "mv_block_bytes e i" and n = 4 and xs = "[0, 4]"]
    by (simp add: mv_block_bytes_def)
  have i: "fold (\<lambda>i (dst, ws). (dst + 8, ws @ stores dst (?J i))) [0 ..< 2]
      = (\<lambda>(dst, ws). (dst + 16, ws @ stores dst (concat (map ?J [0 ..< 2]))))"
    using fold_stores_fun [where f = "?J" and n = 8 and xs = "[0 ..< 2]"]
    by (simp add: mv_block_bytes_def)
  have "mv_probs_loop e =
      fold (\<lambda>i. fold (\<lambda>j (dst, ws). (dst + 4, ws @ stores dst (mv_block_bytes e i j))) [0, 4])
        [0 ..< 2]"
    by (simp add: mv_probs_loop_def mv_block_bytes_def)
  then show ?thesis by (simp only: j i split_conv mv_region_def)
qed

lemma mv_probs_loop2_eq: "mv_probs_loop2 e (d, w) = (d + 16, w @ stores d (mv_region2 e))"
proof -
  have "mv_probs_loop2 e =
      fold (\<lambda>i (dst, ws). (dst + 8, ws @ stores dst (mv_block2_bytes e i))) [0 ..< 2]"
    by (simp add: mv_probs_loop2_def mv_block2_bytes_def)
  then show ?thesis
    using fold_stores [where f = "mv_block2_bytes e" and n = 8 and xs = "[0 ..< 2]"]
    by (simp add: mv_block2_bytes_def mv_region2_def)
qed

lemma length_coeff_header_region: "length (coeff_header_region e) = 384"
  by (simp add: coeff_header_region_def length_concat_uniform [where n = 96]
      length_concat_uniform [where n = 12] length_concat_uniform [where n = 4]
      length_coeff_header_bytes)

lemma length_coeff_footer_region: "length (coeff_footer_region e) = 768"
  by (simp add: coeff_footer_region_def length_concat_uniform [where n = 192]
      length_concat_uniform [where n = 24] length_concat_uniform [where n = 8]
      length_coeff_footer_bytes)

lemma length_mv_region: "length (mv_region e) = 16"
  by (simp add: mv_region_def length_concat_uniform [where n = 8] mv_block_bytes_def)

lemma length_mv_region2: "length (mv_region2 e) = 16"
  by (simp add: mv_region2_def length_concat_uniform [where n = 8] mv_block2_bytes_def)

lemma length_first_probs: "length (first_probs hdr) = 8"
  by (simp add: first_probs_def)

lemma length_mode_probs: "length (mode_probs e) = 8"
  by (simp add: mode_probs_def)

lemma length_mv_short_sign_probs: "length (mv_short_sign_probs e) = 8"
  by (simp add: mv_short_sign_probs_def)

lemmas region_lengths = length_first_probs length_mode_probs length_mv_short_sign_probs
  length_mv_region length_mv_region2 length_coeff_header_region length_coeff_footer_region

lemma prob_update_writes_eq: "prob_update_writes hdr = stores 0 (prob_tbl_bytes hdr)"
  by (simp add: prob_update_writes_def prob_tbl_bytes_def Let_def mv_probs_loop_eq
      mv_probs_loop2_eq coeff_probs_header_loop_eq coeff_probs_footer_loop_eq
      stores_append region_lengths)

lemma length_prob_tbl_bytes: "length (prob_tbl_bytes hdr) = 1208"
  by (simp add: prob_tbl_bytes_def Let_def region_lengths)

lemma stores_Cons: "stores d (v # vs) = (d, v) # stores (Suc d) vs"
  using stores_append [of d "[v]" vs] by (simp add: stores_def)

lemma do_stores_stores:
  "d + length vs \<le> length m \<Longrightarrow>
   do_stores (stores d vs) m = Some (take d m @ vs @ drop (d + length vs) m)"
proof (induction vs arbitrary: d m)
  case Nil
  then show ?case by (simp add: stores_Nil)
next
  case (Cons v vs)
  have d: "d < length m" using Cons.prems by simp
  have "do_stores (stores d (v # vs)) m = do_stores (stores (Suc d) vs) (m[d := v])"
    using d by (simp add: stores_Cons)
  also have "\<dots> = Some (take (Suc d) (m[d := v]) @ vs @ drop (Suc d + length vs) (m[d := v]))"
    using Cons.prems by (intro Cons.IH) simp
  also have "take (Suc d) (m[d := v]) = take d m @ [v]"
    using d by (simp add: take_Suc_conv_app_nth)
  finally show ?case by simp
qed

lemma do_stores_out_of_bounds:
  "vs \<noteq> [] \<Longrightarrow> length m < d + length vs \<Longrightarrow> do_stores (stores d vs) m = None"
proof (induction vs arbitrary: d m)
  case Nil
  then show ?case by simp
next
  case (Cons v vs)
  show ?case
  proof (cases "d < length m")
    case False
    then show ?thesis by (simp add: stores_Cons)
  next
    case True
    with Cons.prems have "vs \<noteq> []" by auto
    moreover have "length (m[d := v]) < Suc d + length vs" using Cons.prems by simp
    ultimately have "do_stores (stores (Suc d) vs) (m[d := v]) = None" by (rule Cons.IH)
    with True show ?thesis by (simp add: stores_Cons)
  qed
qed

lemma nth_concat_uniform:
  "\<forall>x\<in>set xs. length (f x) = n \<Longrightarrow> i < length xs \<Longrightarrow> l < n \<Longrightarrow>
   concat (map f xs) ! (i * n + l) = f (xs ! i) ! l"
proof (induction xs arbitrary: i)
  case Nil
  then show ?case by simp
next
  case (Cons x xs)
  show ?case
  proof (cases i)
    case 0
    with Cons.prems show ?thesis by (simp add: nth_append)
  next
    case (Suc i')
    with Cons.prems have "concat (map f xs) ! (i' * n + l) = f (xs ! i') ! l"
      by (intro Cons.IH) auto
    with Suc Cons.prems show ?thesis by (simp add: nth_append add.assoc)
  qed
qed

lemma coeff_header_region_nth:
  assumes "i < 4" "j < 8" "k < 3" "l < 4"
  shows "coeff_header_region e ! (i * 96 + (j * 12 + (k * 4 + l))) = coeff_header_bytes e i j k ! l"
proof -
  let ?K = "\<lambda>i j. concat (map (coeff_header_bytes e i j) [0 ..< 3])"
  let ?J = "\<lambda>i. concat (map (?K i) [0 ..< 8])"
  have lk: "length (?K i j) = 12" for i j
    by (simp add: length_concat_uniform [where n = 4] length_coeff_header_bytes)
  have lj: "length (?J i) = 96" for i
    by (simp add: length_concat_uniform [where n = 12] lk)
  have "coeff_header_region e ! (i * 96 + (j * 12 + (k * 4 + l))) = ?J i ! (j * 12 + (k * 4 + l))"
    unfolding coeff_header_region_def
    using nth_concat_uniform [where f = ?J and n = 96 and xs = "[0 ..< 4]" and i = i
        and l = "j * 12 + (k * 4 + l)"] assms
    by (simp add: lj)
  also have "\<dots> = ?K i j ! (k * 4 + l)"
    using nth_concat_uniform [where f = "?K i" and n = 12 and xs = "[0 ..< 8]" and i = j
        and l = "k * 4 + l"] assms
    by (simp add: lk)
  also have "\<dots> = coeff_header_bytes e i j k ! l"
    using nth_concat_uniform [where f = "coeff_header_bytes e i j" and n = 4 and xs = "[0 ..< 3]"
        and i = k and l = l] assms
    by (simp add: length_coeff_header_bytes)
  finally show ?thesis .
qed

lemma coeff_footer_region_nth:
  assumes "i < 4" "j < 8" "k < 3" "l < 8"
  shows "coeff_footer_region e ! (i * 192 + (j * 24 + (k * 8 + l))) = coeff_footer_bytes e i j k ! l"
proof -
  let ?K = "\<lambda>i j. concat (map (coeff_footer_bytes e i j) [0 ..< 3])"
  let ?J = "\<lambda>i. concat (map (?K i) [0 ..< 8])"
  have lk: "length (?K i j) = 24" for i j
    by (simp add: length_concat_uniform [where n = 8] length_coeff_footer_bytes)
  have lj: "length (?J i) = 192" for i
    by (simp add: length_concat_uniform [where n = 24] lk)
  have "coeff_footer_region e ! (i * 192 + (j * 24 + (k * 8 + l))) = ?J i ! (j * 24 + (k * 8 + l))"
    unfolding coeff_footer_region_def
    using nth_concat_uniform [where f = ?J and n = 192 and xs = "[0 ..< 4]" and i = i
        and l = "j * 24 + (k * 8 + l)"] assms
    by (simp add: lj)
  also have "\<dots> = ?K i j ! (k * 8 + l)"
    using nth_concat_uniform [where f = "?K i" and n = 24 and xs = "[0 ..< 8]" and i = j
        and l = "k * 8 + l"] assms
    by (simp add: lk)
  also have "\<dots> = coeff_footer_bytes e i j k ! l"
    using nth_concat_uniform [where f = "coeff_footer_bytes e i j" and n = 8 and xs = "[0 ..< 3]"
        and i = k and l = l] assms
    by (simp add: length_coeff_footer_bytes)
  finally show ?thesis .
qed

lemma prob_tbl_bytes_nth:
  "n < 8 \<Longrightarrow> prob_tbl_bytes hdr ! n = first_probs hdr ! n"
  "n < 8 \<Longrightarrow> prob_tbl_bytes hdr ! (8 + n) = mode_probs (entropy_hdr hdr) ! n"
  "n < 8 \<Longrightarrow> prob_tbl_bytes hdr ! (16 + n) = mv_short_sign_probs (entropy_hdr hdr) ! n"
  "n < 16 \<Longrightarrow> prob_tbl_bytes hdr ! (24 + n) = mv_region (entropy_hdr hdr) ! n"
  "n < 16 \<Longrightarrow> prob_tbl_bytes hdr ! (40 + n) = mv_region2 (entropy_hdr hdr) ! n"
  "n < 384 \<Longrightarrow> prob_tbl_bytes hdr ! (56 + n) = coeff_header_region (entropy_hdr hdr) ! n"
  "n < 768 \<Longrightarrow> prob_tbl_bytes hdr ! (440 + n) = coeff_footer_region (entropy_hdr hdr) ! n"
  by (simp_all add: prob_tbl_bytes_def Let_def nth_append region_lengths)

lemma lt8_cases: "(t::nat) < 8 \<Longrightarrow> t = 0 \<or> t = 1 \<or> t = 2 \<or> t = 3 \<or> t = 4 \<or> t = 5 \<or> t = 6 \<or> t = 7"
  by arith

lemma lt2_cases: "(c::nat) < 2 \<Longrightarrow> c = 0 \<or> c = 1"
  by arith

lemma mv_region_nth:
  assumes "c < 2" and "t < 8"
  shows "mv_region e ! (c * 8 + t) = mv_probs e c (9 + t)"
proof -
  let ?J = "\<lambda>i. concat (map (mv_block_bytes e i) [0, 4])"
  have "mv_region e ! (c * 8 + t) = ?J c ! t"
    unfolding mv_region_def
    using nth_concat_uniform [where f = ?J and n = 8 and xs = "[0 ..< 2]" and i = c and l = t] assms
    by (simp add: mv_block_bytes_def)
  also have "\<dots> = mv_probs e c (9 + t)"
    using lt8_cases [OF assms(2)] by (auto simp: mv_block_bytes_def)
  finally show ?thesis .
qed

lemma mv_region2_nth:
  assumes "c < 2" and "t < 8"
  shows "mv_region2 e ! (c * 8 + t) = mv_block2_bytes e c ! t"
  unfolding mv_region2_def
  using nth_concat_uniform [where f = "mv_block2_bytes e" and n = 8 and xs = "[0 ..< 2]"
      and i = c and l = t] assms
  by (simp add: mv_block2_bytes_def)

lemma mv_block2_bytes_nth_low:
  "mv_block2_bytes e i ! 0 = mv_probs e i 2"
  "mv_block2_bytes e i ! Suc 0 = mv_probs e i 3"
  by (simp_all add: mv_block2_bytes_def numeral_2_eq_2 numeral_3_eq_3)

lemma mv_block2_bytes_nth:
  "mv_block2_bytes e i ! 2 = mv_probs e i 4"
  "mv_block2_bytes e i ! 3 = mv_probs e i 5"
  "mv_block2_bytes e i ! 4 = mv_probs e i 6"
  "mv_block2_bytes e i ! 5 = mv_probs e i 7"
  "mv_block2_bytes e i ! 6 = mv_probs e i 8"
  by (simp_all add: mv_block2_bytes_def)

lemma mv_prob_at_offset:
  assumes "c < 2" and "t < 19"
  shows "prob_tbl_bytes hdr ! mv_prob_offset c t = mv_probs (entropy_hdr hdr) c t"
proof -
  let ?e = "entropy_hdr hdr"
  consider "t = 0" | "t = 1" | "2 \<le> t \<and> t < 9" | "9 \<le> t \<and> t < 17" | "t = 17" | "t = 18"
    using assms(2) by arith
  then show ?thesis
  proof cases
    case 1
    then show ?thesis
      using lt2_cases [OF assms(1)] prob_tbl_bytes_nth(3) [of c hdr]
      by (auto simp: mv_prob_offset_def mv_short_sign_probs_def)
  next
    case 2
    then show ?thesis
      using lt2_cases [OF assms(1)] prob_tbl_bytes_nth(3) [of "2 + c" hdr]
      by (auto simp: mv_prob_offset_def mv_short_sign_probs_def)
  next
    case 3
    then have u: "t - 2 < 8" by arith
    have "prob_tbl_bytes hdr ! (40 + (c * 8 + (t - 2))) = mv_region2 ?e ! (c * 8 + (t - 2))"
      using assms(1) u by (intro prob_tbl_bytes_nth) arith
    also have "\<dots> = mv_block2_bytes ?e c ! (t - 2)"
      using assms(1) u by (rule mv_region2_nth)
    also have "\<dots> = mv_probs ?e c t"
    proof -
      have "t = 2 \<or> t = 3 \<or> t = 4 \<or> t = 5 \<or> t = 6 \<or> t = 7 \<or> t = 8" using 3 by arith
      then show ?thesis
        by (elim disjE) (simp_all add: mv_block2_bytes_nth mv_block2_bytes_nth_low)
    qed
    finally show ?thesis using 3 by (simp add: mv_prob_offset_def mult.commute)
  next
    case 4
    then have u: "t - 9 < 8" by arith
    have "prob_tbl_bytes hdr ! (24 + (c * 8 + (t - 9))) = mv_region ?e ! (c * 8 + (t - 9))"
      using assms(1) u by (intro prob_tbl_bytes_nth) arith
    also have "\<dots> = mv_probs ?e c (9 + (t - 9))"
      using assms(1) u by (rule mv_region_nth)
    finally show ?thesis using 4 by (simp add: mv_prob_offset_def mult.commute)
  next
    case 5
    then show ?thesis
      using lt2_cases [OF assms(1)] prob_tbl_bytes_nth(3) [of "4 + 2 * c" hdr]
      by (auto simp: mv_prob_offset_def mv_short_sign_probs_def)
  next
    case 6
    then show ?thesis
      using lt2_cases [OF assms(1)] prob_tbl_bytes_nth(3) [of "5 + 2 * c" hdr]
      by (auto simp: mv_prob_offset_def mv_short_sign_probs_def)
  qed
qed

lemma coeff_prob_at_offset:
  assumes "i < 4" and "j < 8" and "k < 3" and "l < 11"
  shows "prob_tbl_bytes hdr ! coeff_prob_offset i j k l = coeff_probs (entropy_hdr hdr) i j k l"
proof (cases "l < 4")
  case True
  let ?n = "i * 96 + (j * 12 + (k * 4 + l))"
  have n: "?n < 384" using assms True by arith
  have "l = 0 \<or> l = 1 \<or> l = 2 \<or> l = 3" using True by arith
  then have "coeff_header_bytes (entropy_hdr hdr) i j k ! l = coeff_probs (entropy_hdr hdr) i j k l"
    by (auto simp: coeff_header_bytes_def)
  moreover have "coeff_prob_offset i j k l = 56 + ?n"
    using True by (simp add: coeff_prob_offset_def)
  ultimately show ?thesis
    using prob_tbl_bytes_nth(6) [OF n, of hdr] coeff_header_region_nth [OF assms(1-3) True]
    by simp
next
  case False
  let ?n = "i * 192 + (j * 24 + (k * 8 + (l - 4)))"
  have u: "l - 4 < 8" using assms(4) by arith
  have n: "?n < 768" using assms False by arith
  have "l = 4 \<or> l = 5 \<or> l = 6 \<or> l = 7 \<or> l = 8 \<or> l = 9 \<or> l = 10" using False assms(4) by arith
  then have "coeff_footer_bytes (entropy_hdr hdr) i j k ! (l - 4)
      = coeff_probs (entropy_hdr hdr) i j k l"
    by (auto simp: coeff_footer_bytes_def)
  moreover have "coeff_prob_offset i j k l = 440 + ?n"
    using False by (simp add: coeff_prob_offset_def)
  ultimately show ?thesis
    using prob_tbl_bytes_nth(7) [OF n, of hdr] coeff_footer_region_nth [OF assms(1-3) u]
    by simp
qed

lemma prob_update_result:
  assumes "buf_cpu tbl = Some m" and "length m = sizeof_vp8_prob_tbl_packed"
  shows "rockchip_vp8d_prob_update hdr tbl = Some (tbl\<lparr>buf_cpu := Some (prob_tbl_bytes hdr)\<rparr>)"
proof -
  have "length m = 1208" using assms(2) by (simp add: sizeof_vp8_prob_tbl_packed_def)
  then have "do_stores (stores 0 (prob_tbl_bytes hdr)) m = Some (prob_tbl_bytes hdr)"
    using do_stores_stores [of 0 "prob_tbl_bytes hdr" m] by (simp add: length_prob_tbl_bytes)
  then show ?thesis
    using assms(1) by (simp add: rockchip_vp8d_prob_update_def prob_update_writes_eq)
qed

lemma lt3_cases: "(s::nat) < 3 \<Longrightarrow> s = 0 \<or> s = 1 \<or> s = 2"
  by arith

lemma lt4_cases: "(s::nat) < 4 \<Longrightarrow> s = 0 \<or> s = 1 \<or> s = 2 \<or> s = 3"
  by arith

lemma frame_probs_at_offset:
  "prob_tbl_bytes hdr ! 0 = prob_skip_false hdr"
  "prob_tbl_bytes hdr ! 1 = prob_intra hdr"
  "prob_tbl_bytes hdr ! 2 = prob_last hdr"
  "prob_tbl_bytes hdr ! 3 = prob_gf hdr"
  using prob_tbl_bytes_nth(1) [of 0 hdr] prob_tbl_bytes_nth(1) [of 1 hdr]
    prob_tbl_bytes_nth(1) [of 2 hdr] prob_tbl_bytes_nth(1) [of 3 hdr]
  by (simp_all add: first_probs_def)

lemma segment_probs_at_offset:
  assumes "s < 3"
  shows "prob_tbl_bytes hdr ! (4 + s) = segment_probs (sgmnt_hdr hdr) s"
  using lt3_cases [OF assms] prob_tbl_bytes_nth(1) [of "4 + s" hdr]
  by (auto simp: first_probs_def)

lemma y_mode_probs_at_offset:
  assumes "s < 4"
  shows "prob_tbl_bytes hdr ! (8 + s) = y_mode_probs (entropy_hdr hdr) s"
  using lt4_cases [OF assms] prob_tbl_bytes_nth(2) [of s hdr]
  by (auto simp: mode_probs_def)

lemma uv_mode_probs_at_offset:
  assumes "s < 3"
  shows "prob_tbl_bytes hdr ! (12 + s) = uv_mode_probs (entropy_hdr hdr) s"
  using lt3_cases [OF assms] prob_tbl_bytes_nth(2) [of "4 + s" hdr]
  by (auto simp: mode_probs_def)

text \<open>
  Claim C3.  For every frame header, packing it into a table of
  \<^verbatim>\<open>sizeof(struct vp8_prob_tbl_packed)\<close> bytes succeeds, and reading the table back by
  offset gives every source probability: \<open>prob_skip_false\<close> at byte 0, \<open>prob_intra\<close> at
  byte 1, \<open>prob_last\<close> and \<open>prob_gf\<close> at bytes 2 and 3, the segment probabilities at 4 to
  6, the luma and chroma mode probabilities at 8 to 14, each of the 19 motion-vector
  probabilities of both components at \<open>mv_prob_offset\<close>, and each of the 11 coefficient
  probabilities of every triple at \<open>coeff_prob_offset\<close>: entries 0 to 3 in the header
  region from byte 56, entries 4 to 10 in the footer region from byte 440.
\<close>

theorem C3_prob_table_round_trip:
  assumes "buf_cpu tbl = Some m" and "length m = sizeof_vp8_prob_tbl_packed"
  shows "\<exists>m'. rockchip_vp8d_prob_update hdr tbl = Some (tbl\<lparr>buf_cpu := Some m'\<rparr>)
      \<and> length m' = sizeof_vp8_prob_tbl_packed
      \<and> m' ! 0 = prob_skip_false hdr \<and> m' ! 1 = prob_intra hdr
      \<and> m' ! 2 = prob_last hdr \<and> m' ! 3 = prob_gf hdr
      \<and> (\<forall>s<3. m' ! (4 + s) = segment_probs (sgmnt_hdr hdr) s)
      \<and> (\<forall>s<4. m' ! (8 + s) = y_mode_probs (entropy_hdr hdr) s)
      \<and> (\<forall>s<3. m' ! (12 + s) = uv_mode_probs (entropy_hdr hdr) s)
      \<and> (\<forall>c<2. \<forall>t<19. m' ! mv_prob_offset c t = mv_probs (entropy_hdr hdr) c t)
      \<and> (\<forall>i<4. \<forall>j<8. \<forall>k<3. \<forall>l<11.
            m' ! coeff_prob_offset i j k l = coeff_probs (entropy_hdr hdr) i j k l)"
proof (intro exI conjI allI impI)
  show "rockchip_vp8d_prob_update hdr tbl = Some (tbl\<lparr>buf_cpu := Some (prob_tbl_bytes hdr)\<rparr>)"
    using assms by (rule prob_update_result)
  show "length (prob_tbl_bytes hdr) = sizeof_vp8_prob_tbl_packed"
    by (simp add: length_prob_tbl_bytes sizeof_vp8_prob_tbl_packed_def)
qed (simp_all only: frame_probs_at_offset segment_probs_at_offset y_mode_probs_at_offset
    uv_mode_probs_at_offset mv_prob_at_offset coeff_prob_at_offset)

text \<open>An instance of C3 on the example header and a table of 1208 bytes.\<close>

theorem C3_prob_table_round_trip_witness:
  "\<exists>m'. rockchip_vp8d_prob_update example_hdr example_tbl
          = Some (example_tbl\<lparr>buf_cpu := Some m'\<rparr>)
      \<and> m' ! 0 = 11 \<and> m' ! 1 = 22 \<and> m' ! 6 = 202 \<and> m' ! 14 = 112
      \<and> m' ! 23 = 37 \<and> m' ! 56 = 0 \<and> m' ! 440 = 4 \<and> m' ! 1206 = 31"
proof -
  have 1: "buf_cpu example_tbl = Some (replicate 1208 0xAA)"
    by (simp add: example_tbl_def)
  have 2: "length (replicate 1208 (0xAA :: u8)) = sizeof_vp8_prob_tbl_packed"
    by (simp add: sizeof_vp8_prob_tbl_packed_def)
  from C3_prob_table_round_trip [OF 1 2, of example_hdr] obtain m'
    where u: "rockchip_vp8d_prob_update example_hdr example_tbl
          = Some (example_tbl\<lparr>buf_cpu := Some m'\<rparr>)"
      and a: "m' ! 0 = prob_skip_false example_hdr" "m' ! 1 = prob_intra example_hdr"
      and s: "\<forall>s<3. m' ! (4 + s) = segment_probs (sgmnt_hdr example_hdr) s"
      and uv: "\<forall>s<3. m' ! (12 + s) = uv_mode_probs (entropy_hdr example_hdr) s"
      and mv: "\<forall>c<2. \<forall>t<19. m' ! mv_prob_offset c t = mv_probs (entropy_hdr example_hdr) c t"
      and co: "\<forall>i<4. \<forall>j<8. \<forall>k<3. \<forall>l<11.
            m' ! coeff_prob_offset i j k l = coeff_probs (entropy_hdr example_hdr) i j k l"
    by blast
  have v0: "m' ! 0 = 11" and v1: "m' ! 1 = 22"
    using a by (simp_all add: example_hdr_def)
  have v6: "m' ! 6 = 202"
    using s [rule_format, of 2] by (simp add: example_hdr_def)
  have v14: "m' ! 14 = 112"
    using uv [rule_format, of 2] by (simp add: example_hdr_def)
  have v23: "m' ! 23 = 37"
    using mv [rule_format, of 1 18] by (simp add: example_hdr_def mv_prob_offset_def)
  have v56: "m' ! 56 = 0"
    using co [rule_format, of 0 0 0 0] by (simp add: example_hdr_def coeff_prob_offset_def)
  have v440: "m' ! 440 = 4"
    using co [rule_format, of 0 0 0 4] by (simp add: example_hdr_def coeff_prob_offset_def)
  have v1206: "m' ! 1206 = 31"
    using co [rule_format, of 3 7 2 10] by (simp add: example_hdr_def coeff_prob_offset_def)
  show ?thesis
    using u v0 v1 v6 v14 v23 v56 v440 v1206 by blast
qed

text \<open>
  Claim C10.  For every frame header, the byte stores of the packing are at the offsets
  0, 1, ..., 1207, each once and in this order, where 1208 is
  \<^verbatim>\<open>sizeof(struct vp8_prob_tbl_packed)\<close>, the size init allocates.  The header
  coefficient loop stores at 56 to 439, the footer loop at 440 to 1207 and leaves the
  pointer at 1208, the end of the table.  So no store is out of bounds in a table of
  that size, and the last store is the last byte: on any shorter table the packing
  writes out of bounds.
\<close>

theorem C10_prob_update_in_bounds:
  "map fst (prob_update_writes hdr) = [0 ..< sizeof_vp8_prob_tbl_packed]
   \<and> sizeof_vp8_prob_tbl_packed = 1208
   \<and> map fst (snd (coeff_probs_header_loop (entropy_hdr hdr) (8 * 7, []))) = [56 ..< 440]
   \<and> map fst (snd (coeff_probs_footer_loop (entropy_hdr hdr) (8 * 55, []))) = [440 ..< 1208]
   \<and> fst (coeff_probs_footer_loop (entropy_hdr hdr) (8 * 55, [])) = sizeof_vp8_prob_tbl_packed
   \<and> list_all (\<lambda>w. fst w < sizeof_vp8_prob_tbl_packed) (prob_update_writes hdr)
   \<and> fst (last (prob_update_writes hdr)) = sizeof_vp8_prob_tbl_packed - 1
   \<and> (length m = sizeof_vp8_prob_tbl_packed \<longrightarrow> do_stores (prob_update_writes hdr) m \<noteq> None)
   \<and> (length m < sizeof_vp8_prob_tbl_packed \<longrightarrow> do_stores (prob_update_writes hdr) m = None)
   \<and> buf_size (fst (snd (rockchip_vpu_aux_buf_alloc (Some (addr, contents))
          sizeof_vp8_prob_tbl_packed (buf, pool)))) = sizeof_vp8_prob_tbl_packed
   \<and> map_option length (buf_cpu (fst (snd (rockchip_vpu_aux_buf_alloc (Some (addr, contents))
          sizeof_vp8_prob_tbl_packed (buf, pool))))) = Some sizeof_vp8_prob_tbl_packed"
proof -
  have sz: "sizeof_vp8_prob_tbl_packed = 1208" by (simp add: sizeof_vp8_prob_tbl_packed_def)
  have offs: "map fst (prob_update_writes hdr) = [0 ..< sizeof_vp8_prob_tbl_packed]"
    by (simp add: prob_update_writes_eq map_fst_stores length_prob_tbl_bytes sz
        del: upt_rec_numeral)
  have hd: "map fst (snd (coeff_probs_header_loop (entropy_hdr hdr) (8 * 7, []))) = [56 ..< 440]"
    by (simp add: coeff_probs_header_loop_eq map_fst_stores length_coeff_header_region
        del: upt_rec_numeral)
  have ft: "map fst (snd (coeff_probs_footer_loop (entropy_hdr hdr) (8 * 55, [])))
      = [440 ..< 1208]"
    by (simp add: coeff_probs_footer_loop_eq map_fst_stores length_coeff_footer_region
        del: upt_rec_numeral)
  have fin: "fst (coeff_probs_footer_loop (entropy_hdr hdr) (8 * 55, []))
      = sizeof_vp8_prob_tbl_packed"
    by (simp add: coeff_probs_footer_loop_eq sz)
  have all: "list_all (\<lambda>w. fst w < sizeof_vp8_prob_tbl_packed) (prob_update_writes hdr)"
  proof -
    have "set (map fst (prob_update_writes hdr)) = {0 ..< sizeof_vp8_prob_tbl_packed}"
      by (simp only: offs set_upt)
    then have "\<forall>w\<in>set (prob_update_writes hdr). fst w < sizeof_vp8_prob_tbl_packed"
      by (metis atLeastLessThan_iff image_eqI set_map)
    then show ?thesis by (simp only: list_all_iff)
  qed
  have pos: "0 < sizeof_vp8_prob_tbl_packed" by (simp add: sz)
  have ne: "prob_update_writes hdr \<noteq> []"
  proof
    assume "prob_update_writes hdr = []"
    then have "[0 ..< sizeof_vp8_prob_tbl_packed] = []" using offs by simp
    then show False using pos by simp
  qed
  have "fst (last (prob_update_writes hdr)) = last (map fst (prob_update_writes hdr))"
    using ne by (simp add: last_map)
  also have "\<dots> = sizeof_vp8_prob_tbl_packed - 1"
    using pos by (simp only: offs last_upt)
  finally have lst: "fst (last (prob_update_writes hdr)) = sizeof_vp8_prob_tbl_packed - 1" .
  have ok: "length m = sizeof_vp8_prob_tbl_packed \<longrightarrow> do_stores (prob_update_writes hdr) m \<noteq> None"
    using do_stores_stores [of 0 "prob_tbl_bytes hdr" m]
    by (simp add: prob_update_writes_eq length_prob_tbl_bytes sz)
  have bad: "length m < sizeof_vp8_prob_tbl_packed \<longrightarrow> do_stores (prob_update_writes hdr) m = None"
  proof -
    have "prob_tbl_bytes hdr \<noteq> []" using length_prob_tbl_bytes [of hdr] by auto
    then show ?thesis
      using do_stores_out_of_bounds [of "prob_tbl_bytes hdr" m 0]
      by (simp add: prob_update_writes_eq length_prob_tbl_bytes sz)
  qed
  have al1: "buf_size (fst (snd (rockchip_vpu_aux_buf_alloc (Some (addr, contents))
          sizeof_vp8_prob_tbl_packed (buf, pool)))) = sizeof_vp8_prob_tbl_packed"
    by (simp add: rockchip_vpu_aux_buf_alloc_def)
  have al2: "map_option length (buf_cpu (fst (snd (rockchip_vpu_aux_buf_alloc
          (Some (addr, contents)) sizeof_vp8_prob_tbl_packed (buf, pool)))))
       = Some sizeof_vp8_prob_tbl_packed"
    by (simp add: rockchip_vpu_aux_buf_alloc_def)
  show ?thesis
    by (intro conjI) (rule offs, rule sz, rule hd, rule ft, rule fin, rule all, rule lst,
        rule ok, rule bad, rule al1, rule al2)
qed

text \<open>An instance of C10: a table of 1208 bytes, and one of 1207.\<close>

theorem C10_prob_update_in_bounds_witness:
  "length (replicate 1208 (0 :: u8)) = sizeof_vp8_prob_tbl_packed
   \<and> do_stores (prob_update_writes example_hdr) (replicate 1208 0) \<noteq> None
   \<and> length (replicate 1207 (0 :: u8)) < sizeof_vp8_prob_tbl_packed
   \<and> do_stores (prob_update_writes example_hdr) (replicate 1207 0) = None"
proof -
  have 1: "length (replicate 1208 (0 :: u8)) = sizeof_vp8_prob_tbl_packed"
    by (simp add: sizeof_vp8_prob_tbl_packed_def)
  have 2: "length (replicate 1207 (0 :: u8)) < sizeof_vp8_prob_tbl_packed"
    by (simp add: sizeof_vp8_prob_tbl_packed_def)
  have "length (replicate 1208 (0 :: u8)) = sizeof_vp8_prob_tbl_packed
      \<longrightarrow> do_stores (prob_update_writes example_hdr) (replicate 1208 0) \<noteq> None"
    using C10_prob_update_in_bounds [of example_hdr "replicate 1208 0"] by blast
  moreover have "length (replicate 1207 (0 :: u8)) < sizeof_vp8_prob_tbl_packed
      \<longrightarrow> do_stores (prob_update_writes example_hdr) (replicate 1207 0) = None"
    using C10_prob_update_in_bounds [of example_hdr "replicate 1207 0"] by blast
  ultimately show ?thesis using 1 2 by blast
qed

section \<open>Proofs: loop filter, quantisation and reference frames\<close>

lemma uint_clamp_63: "uint (word_of_int (clamp x 0 63) :: u32) = clamp x 0 63"
proof -
  have "0 \<le> clamp x 0 63" "clamp x 0 63 < 2 ^ 32" by (simp_all add: clamp_def)
  then show ?thesis by (simp add: uint_word_of_int take_bit_int_eq_self)
qed

lemma uint_clamp_127: "uint (word_of_int (clamp x 0 127) :: u32) = clamp x 0 127"
proof -
  have "0 \<le> clamp x 0 127" "clamp x 0 127 < 2 ^ 32" by (simp_all add: clamp_def)
  then show ?thesis by (simp add: uint_word_of_int take_bit_int_eq_self)
qed

lemma clamp_range: "lo \<le> hi \<Longrightarrow> lo \<le> clamp x lo hi \<and> clamp x lo hi \<le> hi"
  by (simp add: clamp_def)

lemma sint_scast_s8: "sint (scast (d :: s8) :: u32) = sint d"
  by (rule sint_up_scast) (simp add: is_up)

lemma uint_ucast_u8: "uint (ucast (b :: u8) :: u32) = uint b"
  by (rule uint_up_ucast) (simp add: is_up)

lemma four: "[0 ..< 4] = [0, 1, 2, 3]"
  by (simp add: upt_rec)

lemma cfg_ref_closed_form:
  "rockchip_vp8d_cfg_ref R hdr B =
     [(VDPU_REG_VP8_ADDR_REF0 R,
         if key_frame hdr = 0 then plane_dma_addr (run_dst_vb2 B)
         else spec_resolve_ref B (last_frame hdr)),
      (VDPU_REG_VP8_ADDR_REF2_5_0 R, spec_resolve_ref B (golden_frame hdr))]
     @ (if sign_bias_golden hdr \<noteq> 0 then [(VDPU_REG_VP8_GREF_SIGN_BIAS_0 R, 1)] else [])
     @ [(VDPU_REG_VP8_ADDR_REF2_5_1 R, spec_resolve_ref B (alt_frame hdr))]
     @ (if sign_bias_alternate hdr \<noteq> 0 then [(VDPU_REG_VP8_AREF_SIGN_BIAS_1 R, 1)] else [])"
  by (simp add: rockchip_vp8d_cfg_ref_def spec_resolve_ref_def vp8d_write_regs_value_def
      Let_def word_le_nat_alt not_le)


text \<open>
  Claim C6.  For every frame header: with segmentation disabled one filter level
  (\<open>lf_level\<close>) and one AC quantiser index (\<open>y_ac_qi\<close>) are programmed, into slot 0;
  with segmentation enabled in absolute mode the four per-segment filter levels and
  quantiser indices are passed on as they are (as \<^verbatim>\<open>__s8\<close> values converted to
  \<^verbatim>\<open>u32\<close>, which keeps their signed value); with segmentation enabled in delta mode
  slot \<open>i\<close> gets \<open>clamp (level + lf_update i) 0 63\<close> and
  \<open>clamp (y_ac_qi + quant_update i) 0 127\<close>, computed on integers, and the conversion
  to \<^verbatim>\<open>u32\<close> keeps these values.
\<close>

theorem C6_segment_filter_levels_and_quantisers:
  "(sgmnt_flags (sgmnt_hdr hdr) AND V4L2_VP8_SEGMNT_HDR_FLAG_ENABLED F = 0 \<longrightarrow>
      cfg_lf_level F R hdr =
        [(VDPU_REG_REF_PIC_LF_LEVEL_0 R, ucast (lf_level (lf_hdr hdr)))]
      \<and> cfg_qp_index F R hdr =
        [(VDPU_REG_REF_PIC_QUANT_0 R, ucast (y_ac_qi (quant_hdr hdr)))])
   \<and> (sgmnt_flags (sgmnt_hdr hdr) AND V4L2_VP8_SEGMNT_HDR_FLAG_ENABLED F \<noteq> 0
        \<and> segment_feature_mode (sgmnt_hdr hdr) \<noteq> 0 \<longrightarrow>
      cfg_lf_level F R hdr =
        map (\<lambda>i. (VDPU_REG_REF_PIC_LF_LEVEL_0 R + i, scast (lf_update (sgmnt_hdr hdr) i)))
          [0, 1, 2, 3]
      \<and> cfg_qp_index F R hdr =
        map (\<lambda>i. (VDPU_REG_REF_PIC_QUANT_0 R + i, scast (quant_update (sgmnt_hdr hdr) i)))
          [0, 1, 2, 3])
   \<and> (sgmnt_flags (sgmnt_hdr hdr) AND V4L2_VP8_SEGMNT_HDR_FLAG_ENABLED F \<noteq> 0
        \<and> segment_feature_mode (sgmnt_hdr hdr) = 0 \<longrightarrow>
      cfg_lf_level F R hdr =
        map (\<lambda>i. (VDPU_REG_REF_PIC_LF_LEVEL_0 R + i,
                   word_of_int (clamp (uint (lf_level (lf_hdr hdr))
                                         + sint (lf_update (sgmnt_hdr hdr) i)) 0 63)))
          [0, 1, 2, 3]
      \<and> cfg_qp_index F R hdr =
        map (\<lambda>i. (VDPU_REG_REF_PIC_QUANT_0 R + i,
                   word_of_int (clamp (uint (y_ac_qi (quant_hdr hdr))
                                         + sint (quant_update (sgmnt_hdr hdr) i)) 0 127)))
          [0, 1, 2, 3])
   \<and> uint (word_of_int (clamp x 0 63) :: u32) = clamp x 0 63
   \<and> 0 \<le> clamp x 0 63 \<and> clamp x 0 63 \<le> 63
   \<and> uint (word_of_int (clamp x 0 127) :: u32) = clamp x 0 127
   \<and> 0 \<le> clamp x 0 127 \<and> clamp x 0 127 \<le> 127
   \<and> sint (scast (d :: s8) :: u32) = sint d
   \<and> uint (ucast (b :: u8) :: u32) = uint b
   \<and> rockchip_vp8d_cfg_lf F R hdr = cfg_lf_level F R hdr @ cfg_lf_rest F R hdr
   \<and> rockchip_vp8d_cfg_qp F R hdr = cfg_qp_index F R hdr @ cfg_qp_deltas R hdr"
  by (simp add: cfg_lf_level_def cfg_qp_index_def vp8d_write_regs_value_def four Let_def
      uint_clamp_63 uint_clamp_127 sint_scast_s8 uint_ucast_u8 clamp_range
      rockchip_vp8d_cfg_lf_def rockchip_vp8d_cfg_qp_def del: upt_rec_numeral)

text \<open>
  Instances of C6 with segmentation disabled, in absolute mode and in delta mode.
\<close>

theorem C6_segment_filter_levels_and_quantisers_witness:
  "sgmnt_flags (sgmnt_hdr (example_hdr\<lparr>sgmnt_hdr := (sgmnt_hdr example_hdr)\<lparr>sgmnt_flags := 0\<rparr>\<rparr>))
       AND V4L2_VP8_SEGMNT_HDR_FLAG_ENABLED example_masks = 0
   \<and> cfg_lf_level example_masks example_regs
         (example_hdr\<lparr>sgmnt_hdr := (sgmnt_hdr example_hdr)\<lparr>sgmnt_flags := 0\<rparr>\<rparr>) = [(10, 60)]
   \<and> cfg_qp_index example_masks example_regs
         (example_hdr\<lparr>sgmnt_hdr := (sgmnt_hdr example_hdr)\<lparr>sgmnt_flags := 0\<rparr>\<rparr>) = [(24, 1)]
   \<and> sgmnt_flags (sgmnt_hdr (example_hdr\<lparr>sgmnt_hdr :=
          (sgmnt_hdr example_hdr)\<lparr>segment_feature_mode := 1\<rparr>\<rparr>))
       AND V4L2_VP8_SEGMNT_HDR_FLAG_ENABLED example_masks \<noteq> 0
   \<and> cfg_lf_level example_masks example_regs
         (example_hdr\<lparr>sgmnt_hdr := (sgmnt_hdr example_hdr)\<lparr>segment_feature_mode := 1\<rparr>\<rparr>)
       = [(10, 5), (11, 5), (12, 5), (13, 5)]
   \<and> cfg_qp_index example_masks example_regs
         (example_hdr\<lparr>sgmnt_hdr := (sgmnt_hdr example_hdr)\<lparr>segment_feature_mode := 1\<rparr>\<rparr>)
       = [(24, 0xFFFFFFFD), (25, 0xFFFFFFFD), (26, 0xFFFFFFFD), (27, 0xFFFFFFFD)]
   \<and> sgmnt_flags (sgmnt_hdr example_hdr) AND V4L2_VP8_SEGMNT_HDR_FLAG_ENABLED example_masks \<noteq> 0
   \<and> segment_feature_mode (sgmnt_hdr example_hdr) = 0
   \<and> cfg_lf_level example_masks example_regs example_hdr
       = [(10, 63), (11, 63), (12, 63), (13, 63)]
   \<and> cfg_qp_index example_masks example_regs example_hdr
       = [(24, 0), (25, 0), (26, 0), (27, 0)]"
  using C6_segment_filter_levels_and_quantisers [of
      "example_hdr\<lparr>sgmnt_hdr := (sgmnt_hdr example_hdr)\<lparr>sgmnt_flags := 0\<rparr>\<rparr>"
      example_masks example_regs]
    C6_segment_filter_levels_and_quantisers [of
      "example_hdr\<lparr>sgmnt_hdr := (sgmnt_hdr example_hdr)\<lparr>segment_feature_mode := 1\<rparr>\<rparr>"
      example_masks example_regs]
    C6_segment_filter_levels_and_quantisers [of example_hdr example_masks example_regs]
  by (simp add: example_hdr_def example_masks_def example_regs_def clamp_def)

text \<open>
  Claim C7, amended.  The golden and the alternate reference address are always resolved
  by index: the indexed output buffer when the index is below \<open>num_buffers\<close>, the current
  run's output buffer otherwise.  The last-frame address is resolved in this way only
  when the header's \<open>key_frame\<close> field is not zero; when it is zero (a key frame, in the
  convention of the header) register \<open>VDPU_REG_VP8_ADDR_REF0\<close> gets the address of the
  current run's output buffer whatever the index is.
\<close>

theorem C7_reference_frame_addresses:
  "rockchip_vp8d_cfg_ref R hdr B =
     [(VDPU_REG_VP8_ADDR_REF0 R,
         if key_frame hdr = 0 then plane_dma_addr (run_dst_vb2 B)
         else spec_resolve_ref B (last_frame hdr)),
      (VDPU_REG_VP8_ADDR_REF2_5_0 R, spec_resolve_ref B (golden_frame hdr))]
     @ (if sign_bias_golden hdr \<noteq> 0 then [(VDPU_REG_VP8_GREF_SIGN_BIAS_0 R, 1)] else [])
     @ [(VDPU_REG_VP8_ADDR_REF2_5_1 R, spec_resolve_ref B (alt_frame hdr))]
     @ (if sign_bias_alternate hdr \<noteq> 0 then [(VDPU_REG_VP8_AREF_SIGN_BIAS_1 R, 1)] else [])"
  by (rule cfg_ref_closed_form)

text \<open>
  The claim as stated fails: with \<open>key_frame = 0\<close> and the in-range index
  \<open>last_frame = 0\<close>, the programmed last-frame address is that of the current output
  buffer (0x2000), not that of the indexed buffer (0x1000).
\<close>

theorem C7_last_frame_counterexample:
  "unat (last_frame example_hdr) < unat (num_buffers example_bufs)
   \<and> spec_resolve_ref example_bufs (last_frame example_hdr) = 0x1000
   \<and> hd (rockchip_vp8d_cfg_ref example_regs example_hdr example_bufs) = (54, 0x2000)
   \<and> snd (hd (rockchip_vp8d_cfg_ref example_regs example_hdr example_bufs))
        \<noteq> spec_resolve_ref example_bufs (last_frame example_hdr)"
  by (simp add: cfg_ref_closed_form spec_resolve_ref_def example_hdr_def example_bufs_def
      example_regs_def)

section \<open>Proofs: codec init and the auxiliary buffers\<close>

lemma replicate_4: "replicate 4 x = [x, x, x, x]"
  by (simp add: numeral_eq_Suc)

lemma memset_full: "memset m c (length m) = Some (replicate (length m) c)"
  by (simp add: memset_def)

lemma init_unknown_variant:
  "vpu_type st \<noteq> RK3229_VPU \<Longrightarrow> vpu_type st \<noteq> RK3288_VPU \<Longrightarrow>
   rockchip_vpu_vp8d_init a1 a2 st = (- EPERM, st)"
  by (simp add: rockchip_vpu_vp8d_init_def)

lemma init_first_alloc_fails:
  "vpu_type st = RK3229_VPU \<or> vpu_type st = RK3288_VPU \<Longrightarrow>
   rockchip_vpu_vp8d_init None a2 st =
     (- ENOMEM, st\<lparr>segment_map := (segment_map st)\<lparr>buf_cpu := None\<rparr>,
                   rockchip_regs := init_tables st\<rparr>)"
  by (auto simp: rockchip_vpu_vp8d_init_def rockchip_vpu_aux_buf_alloc_def ENOMEM_def
      init_tables_def RK3229_VPU_def RK3288_VPU_def)

lemma init_second_alloc_fails:
  "vpu_type st = RK3229_VPU \<or> vpu_type st = RK3288_VPU \<Longrightarrow>
   rockchip_vpu_vp8d_init (Some (addr, contents)) None st =
     (- ENOMEM, st\<lparr>segment_map := \<lparr>buf_cpu = None, buf_dma = 0, buf_size = 0\<rparr>,
                   prob_tbl := (prob_tbl st)\<lparr>buf_cpu := None\<rparr>,
                   rockchip_regs := init_tables st\<rparr>)"
  by (auto simp: rockchip_vpu_vp8d_init_def rockchip_vpu_aux_buf_alloc_def ENOMEM_def
      init_tables_def RK3229_VPU_def RK3288_VPU_def rockchip_vpu_aux_buf_free_def
      segment_map_size_def memset_def Let_def)

lemma init_succeeds:
  "vpu_type st = RK3229_VPU \<or> vpu_type st = RK3288_VPU \<Longrightarrow>
   rockchip_vpu_vp8d_init (Some (addr1, contents1)) (Some (addr2, contents2)) st =
     (0, st\<lparr>segment_map := \<lparr>buf_cpu = Some (replicate (segment_map_size st) 0),
                              buf_dma = addr1, buf_size = segment_map_size st\<rparr>,
              prob_tbl := \<lparr>buf_cpu = Some (map contents2 [0 ..< sizeof_vp8_prob_tbl_packed]),
                           buf_dma = addr2, buf_size = sizeof_vp8_prob_tbl_packed\<rparr>,
              coherent := (addr2, sizeof_vp8_prob_tbl_packed)
                            # (addr1, segment_map_size st) # coherent st,
              rockchip_regs := init_tables st\<rparr>)"
  by (auto simp: rockchip_vpu_vp8d_init_def rockchip_vpu_aux_buf_alloc_def ENOMEM_def
      init_tables_def RK3229_VPU_def RK3288_VPU_def
      segment_map_size_def memset_def Let_def)


text \<open>
  Claim C9.  Init with a hardware variant that is neither RK3229 nor RK3288 returns
  \<open>-EPERM\<close> and leaves the whole state as it was: nothing is allocated.  With a known
  variant, a failure of the first allocation returns \<open>-ENOMEM\<close> with no allocation
  live that was not live before; a failure of the second allocation returns \<open>-ENOMEM\<close>
  after the segment map has been freed, so again the live allocations are those from
  before the call and both buffers are without memory.
\<close>

theorem C9_init_atomic_on_error:
  "(vpu_type st \<noteq> RK3229_VPU \<and> vpu_type st \<noteq> RK3288_VPU \<longrightarrow>
      rockchip_vpu_vp8d_init alloc1 alloc2 st = (- EPERM, st))
   \<and> (vpu_type st = RK3229_VPU \<or> vpu_type st = RK3288_VPU \<longrightarrow>
        fst (rockchip_vpu_vp8d_init None alloc2 st) = - ENOMEM
        \<and> coherent (snd (rockchip_vpu_vp8d_init None alloc2 st)) = coherent st
        \<and> buf_cpu (segment_map (snd (rockchip_vpu_vp8d_init None alloc2 st))) = None
        \<and> prob_tbl (snd (rockchip_vpu_vp8d_init None alloc2 st)) = prob_tbl st
        \<and> fst (rockchip_vpu_vp8d_init (Some (addr, contents)) None st) = - ENOMEM
        \<and> coherent (snd (rockchip_vpu_vp8d_init (Some (addr, contents)) None st)) = coherent st
        \<and> segment_map (snd (rockchip_vpu_vp8d_init (Some (addr, contents)) None st))
            = \<lparr>buf_cpu = None, buf_dma = 0, buf_size = 0\<rparr>
        \<and> buf_cpu (prob_tbl (snd (rockchip_vpu_vp8d_init (Some (addr, contents)) None st)))
            = None
        \<and> fst (rockchip_vpu_vp8d_init (Some (addr, contents)) (Some (addr2, contents2)) st) = 0
        \<and> coherent (snd (rockchip_vpu_vp8d_init (Some (addr, contents))
              (Some (addr2, contents2)) st))
            = (addr2, sizeof_vp8_prob_tbl_packed) # (addr, segment_map_size st) # coherent st)
   \<and> EPERM = 1 \<and> ENOMEM = 12"
  by (simp add: init_unknown_variant init_first_alloc_fails init_second_alloc_fails
      init_succeeds EPERM_def ENOMEM_def)

text \<open>
  Instances of C9: an unknown variant, and a known variant with one and with both
  allocations failing.
\<close>

theorem C9_init_atomic_on_error_witness:
  "vpu_type (fresh_state\<lparr>vpu_type := RK_VPU_NONE\<rparr>) \<noteq> RK3229_VPU
   \<and> vpu_type (fresh_state\<lparr>vpu_type := RK_VPU_NONE\<rparr>) \<noteq> RK3288_VPU
   \<and> rockchip_vpu_vp8d_init (Some (0x3000, \<lambda>i. 0xEE)) (Some (0x1000, \<lambda>i. 0xAA))
        (fresh_state\<lparr>vpu_type := RK_VPU_NONE\<rparr>)
      = (- 1, fresh_state\<lparr>vpu_type := RK_VPU_NONE\<rparr>)
   \<and> vpu_type fresh_state = RK3288_VPU
   \<and> fst (rockchip_vpu_vp8d_init (Some (0x3000, \<lambda>i. 0xEE)) None fresh_state) = - 12
   \<and> coherent (snd (rockchip_vpu_vp8d_init (Some (0x3000, \<lambda>i. 0xEE)) None fresh_state)) = []
   \<and> segment_map (snd (rockchip_vpu_vp8d_init (Some (0x3000, \<lambda>i. 0xEE)) None fresh_state))
        = \<lparr>buf_cpu = None, buf_dma = 0, buf_size = 0\<rparr>
   \<and> fst (rockchip_vpu_vp8d_init None None fresh_state) = - 12
   \<and> coherent (snd (rockchip_vpu_vp8d_init None None fresh_state)) = []"
  using C9_init_atomic_on_error [where st = "fresh_state\<lparr>vpu_type := RK_VPU_NONE\<rparr>"
      and ?alloc1.0 = "Some (0x3000, \<lambda>i. 0xEE)" and ?alloc2.0 = "Some (0x1000, \<lambda>i. 0xAA)"]
    C9_init_atomic_on_error [where st = fresh_state and ?alloc2.0 = None
      and addr = "0x3000" and contents = "\<lambda>i. 0xEE"]
  by (simp add: fresh_state_def RK_VPU_NONE_def RK3229_VPU_def RK3288_VPU_def)

lemma run_aux_buffers_result:
  assumes "buf_cpu (prob_tbl st) = Some t" and "length t = sizeof_vp8_prob_tbl_packed"
    and "case buf_cpu (segment_map st) of None \<Rightarrow> True
         | Some m \<Rightarrow> length m = buf_size (segment_map st)"
  shows "vp8d_run_aux_buffers hdr st =
     Some (st\<lparr>segment_map :=
                (if key_frame hdr = 0 \<and> buf_cpu (segment_map st) \<noteq> None
                 then (segment_map st)\<lparr>buf_cpu := Some (replicate (buf_size (segment_map st)) 0)\<rparr>
                 else segment_map st),
              prob_tbl := (prob_tbl st)\<lparr>buf_cpu := Some (prob_tbl_bytes hdr)\<rparr>\<rparr>)"
  using assms(3) prob_update_result [OF assms(1,2), of hdr]
  by (auto simp: vp8d_run_aux_buffers_def memset_def split: option.splits)

text \<open>
  Claim C8, amended.  A successful init leaves the segmentation map allocated and zero in
  full.  A run zeroes the whole map again exactly when the header's \<open>key_frame\<close> field
  is zero (a key frame, in the convention of the header) and the map is allocated,
  whatever the segmentation flags of the header say; in every other case the map is left
  as it was.
\<close>

theorem C8_segment_map_zeroing:
  "(vpu_type st = RK3229_VPU \<or> vpu_type st = RK3288_VPU \<longrightarrow>
      segment_map (snd (rockchip_vpu_vp8d_init (Some (addr1, contents1))
                          (Some (addr2, contents2)) st))
        = \<lparr>buf_cpu = Some (replicate (segment_map_size st) 0), buf_dma = addr1,
           buf_size = segment_map_size st\<rparr>)
   \<and> (buf_cpu (prob_tbl st) = Some t \<and> length t = sizeof_vp8_prob_tbl_packed
        \<and> (case buf_cpu (segment_map st) of None \<Rightarrow> True
            | Some m \<Rightarrow> length m = buf_size (segment_map st)) \<longrightarrow>
       (\<exists>st'. vp8d_run_aux_buffers hdr st = Some st'
          \<and> segment_map st' =
              (if key_frame hdr = 0 \<and> buf_cpu (segment_map st) \<noteq> None
               then (segment_map st)\<lparr>buf_cpu := Some (replicate (buf_size (segment_map st)) 0)\<rparr>
               else segment_map st)))"
proof (intro conjI impI)
  assume "vpu_type st = RK3229_VPU \<or> vpu_type st = RK3288_VPU"
  then show "segment_map (snd (rockchip_vpu_vp8d_init (Some (addr1, contents1))
                          (Some (addr2, contents2)) st))
        = \<lparr>buf_cpu = Some (replicate (segment_map_size st) 0), buf_dma = addr1,
           buf_size = segment_map_size st\<rparr>"
    by (simp add: init_succeeds)
next
  assume a: "buf_cpu (prob_tbl st) = Some t \<and> length t = sizeof_vp8_prob_tbl_packed
        \<and> (case buf_cpu (segment_map st) of None \<Rightarrow> True
            | Some m \<Rightarrow> length m = buf_size (segment_map st))"
  show "\<exists>st'. vp8d_run_aux_buffers hdr st = Some st'
          \<and> segment_map st' =
              (if key_frame hdr = 0 \<and> buf_cpu (segment_map st) \<noteq> None
               then (segment_map st)\<lparr>buf_cpu := Some (replicate (buf_size (segment_map st)) 0)\<rparr>
               else segment_map st)"
    using run_aux_buffers_result [of st t hdr] a by simp
qed

text \<open>
  Instances of C8: init on a fresh state, a run with \<open>key_frame = 0\<close> and a run with
  \<open>key_frame = 1\<close>.
\<close>

theorem C8_segment_map_zeroing_witness:
  "vpu_type fresh_state = RK3288_VPU
   \<and> segment_map (snd (rockchip_vpu_vp8d_init (Some (0x3000, \<lambda>i. 0xEE))
                          (Some (0x1000, \<lambda>i. 0xAA)) fresh_state))
        = \<lparr>buf_cpu = Some (replicate 64 0), buf_dma = 0x3000, buf_size = 64\<rparr>
   \<and> buf_cpu (prob_tbl example_state) = Some (replicate 1208 0xAA)
   \<and> length (replicate 1208 (0xAA :: u8)) = sizeof_vp8_prob_tbl_packed
   \<and> buf_cpu (segment_map example_state) = Some [1, 2, 3, 4]
   \<and> (\<exists>st'. vp8d_run_aux_buffers example_hdr example_state = Some st'
         \<and> buf_cpu (segment_map st') = Some [0, 0, 0, 0])
   \<and> (\<exists>st'. vp8d_run_aux_buffers (example_hdr\<lparr>key_frame := 1\<rparr>) example_state = Some st'
         \<and> buf_cpu (segment_map st') = Some [1, 2, 3, 4])"
proof -
  have sz: "segment_map_size fresh_state = 64"
    by (simp add: segment_map_size_def fresh_state_def DIV_ROUND_UP_def round_up_def
        MB_DIM_def Let_def)
  have h: "buf_cpu (prob_tbl example_state) = Some (replicate 1208 0xAA)
        \<and> length (replicate 1208 (0xAA :: u8)) = sizeof_vp8_prob_tbl_packed
        \<and> (case buf_cpu (segment_map example_state) of None \<Rightarrow> True
            | Some m \<Rightarrow> length m = buf_size (segment_map example_state))"
    by (simp add: example_state_def example_tbl_def sizeof_vp8_prob_tbl_packed_def)
  have v: "vpu_type fresh_state = RK3288_VPU" by (simp add: fresh_state_def)
  have i: "segment_map (snd (rockchip_vpu_vp8d_init (Some (0x3000, \<lambda>i. 0xEE))
                          (Some (0x1000, \<lambda>i. 0xAA)) fresh_state))
        = \<lparr>buf_cpu = Some (replicate 64 0), buf_dma = 0x3000, buf_size = 64\<rparr>"
    using C8_segment_map_zeroing [where st = fresh_state and ?addr1.0 = "0x3000"
        and ?contents1.0 = "\<lambda>i. 0xEE" and ?addr2.0 = "0x1000" and ?contents2.0 = "\<lambda>i. 0xAA"] v sz
    by simp
  have k: "\<exists>st'. vp8d_run_aux_buffers example_hdr example_state = Some st'
         \<and> buf_cpu (segment_map st') = Some [0, 0, 0, 0]"
  proof -
    from C8_segment_map_zeroing [where st = example_state
        and t = "replicate 1208 0xAA" and hdr = example_hdr] h
    obtain st' where r: "vp8d_run_aux_buffers example_hdr example_state = Some st'"
      and sm: "segment_map st' =
        (if key_frame example_hdr = 0 \<and> buf_cpu (segment_map example_state) \<noteq> None
         then (segment_map example_state)
                \<lparr>buf_cpu := Some (replicate (buf_size (segment_map example_state)) 0)\<rparr>
         else segment_map example_state)"
      by blast
    have "buf_cpu (segment_map st') = Some [0, 0, 0, 0]"
      by (simp add: sm example_hdr_def example_state_def replicate_4)
    with r show ?thesis by blast
  qed
  have n: "\<exists>st'. vp8d_run_aux_buffers (example_hdr\<lparr>key_frame := 1\<rparr>) example_state = Some st'
         \<and> buf_cpu (segment_map st') = Some [1, 2, 3, 4]"
  proof -
    from C8_segment_map_zeroing [where st = example_state
        and t = "replicate 1208 0xAA" and hdr = "example_hdr\<lparr>key_frame := 1\<rparr>"] h
    obtain st' where r: "vp8d_run_aux_buffers (example_hdr\<lparr>key_frame := 1\<rparr>) example_state
          = Some st'"
      and sm: "segment_map st' =
        (if key_frame (example_hdr\<lparr>key_frame := 1\<rparr>) = 0
            \<and> buf_cpu (segment_map example_state) \<noteq> None
         then (segment_map example_state)
                \<lparr>buf_cpu := Some (replicate (buf_size (segment_map example_state)) 0)\<rparr>
         else segment_map example_state)"
      by blast
    have "buf_cpu (segment_map st') = Some [1, 2, 3, 4]"
      by (simp add: sm example_state_def)
    with r show ?thesis by blast
  qed
  have sg: "buf_cpu (segment_map example_state) = Some [1, 2, 3, 4]"
    by (simp add: example_state_def)
  show ?thesis using v i h k n sg by blast
qed

text \<open>
  The claim as stated fails: the example header has \<open>key_frame = 0\<close> and all
  segmentation flags set, so under either reading of the \<open>key_frame\<close> field it is not
  "a non-key frame whose header indicates that segmentation was not updated"; yet the
  run zeroes the map.
\<close>

theorem C8_rezero_counterexample:
  "key_frame example_hdr = 0
   \<and> sgmnt_flags (sgmnt_hdr example_hdr) AND V4L2_VP8_SEGMNT_HDR_FLAG_UPDATE_MAP example_masks \<noteq> 0
   \<and> \<not> spec_rezero_condition (\<lambda>h. key_frame h = 0)
         (V4L2_VP8_SEGMNT_HDR_FLAG_UPDATE_MAP example_masks) example_hdr
   \<and> \<not> spec_rezero_condition (\<lambda>h. key_frame h \<noteq> 0)
         (V4L2_VP8_SEGMNT_HDR_FLAG_UPDATE_MAP example_masks) example_hdr
   \<and> buf_cpu (segment_map example_state) = Some [1, 2, 3, 4]
   \<and> map_option (\<lambda>st'. buf_cpu (segment_map st'))
        (vp8d_run_aux_buffers example_hdr example_state) = Some (Some [0, 0, 0, 0])"
proof -
  have h: "buf_cpu (prob_tbl example_state) = Some (replicate 1208 0xAA)"
    "length (replicate 1208 (0xAA :: u8)) = sizeof_vp8_prob_tbl_packed"
    "case buf_cpu (segment_map example_state) of None \<Rightarrow> True
       | Some m \<Rightarrow> length m = buf_size (segment_map example_state)"
    by (simp_all add: example_state_def example_tbl_def sizeof_vp8_prob_tbl_packed_def)
  have r: "map_option (\<lambda>st'. buf_cpu (segment_map st'))
        (vp8d_run_aux_buffers example_hdr example_state) = Some (Some [0, 0, 0, 0])"
    by (simp add: run_aux_buffers_result [OF h])
      (simp add: example_hdr_def example_state_def replicate_4)
  have c: "key_frame example_hdr = 0
     \<and> sgmnt_flags (sgmnt_hdr example_hdr)
          AND V4L2_VP8_SEGMNT_HDR_FLAG_UPDATE_MAP example_masks \<noteq> 0
     \<and> \<not> spec_rezero_condition (\<lambda>h. key_frame h = 0)
         (V4L2_VP8_SEGMNT_HDR_FLAG_UPDATE_MAP example_masks) example_hdr
     \<and> \<not> spec_rezero_condition (\<lambda>h. key_frame h \<noteq> 0)
         (V4L2_VP8_SEGMNT_HDR_FLAG_UPDATE_MAP example_masks) example_hdr"
    by (simp add: spec_rezero_condition_def example_hdr_def example_masks_def)
  have sg: "buf_cpu (segment_map example_state) = Some [1, 2, 3, 4]"
    by (simp add: example_state_def)
  show ?thesis using r c sg by blast
qed

section \<open>Proofs: the run scheduler\<close>

lemma emit_fields [simp]:
  "dev_state (emit e dev) = dev_state dev"
  "ready_ctxs (emit e dev) = ready_ctxs dev"
  "current_ctx (emit e dev) = current_ctx dev"
  "ctxs (emit e dev) = ctxs dev"
  "watchdog_work (emit e dev) = watchdog_work dev"
  "trace (emit e dev) = trace dev @ [e]"
  by (simp_all add: emit_def)

lemma schedule_delayed_work_fields [simp]:
  "dev_state (schedule_delayed_work ms dev) = dev_state dev"
  "ready_ctxs (schedule_delayed_work ms dev) = ready_ctxs dev"
  "current_ctx (schedule_delayed_work ms dev) = current_ctx dev"
  "ctxs (schedule_delayed_work ms dev) = ctxs dev"
  by (simp_all add: schedule_delayed_work_def split: option.splits)

lemma schedule_delayed_work_idle:
  "watchdog_work dev = None \<Longrightarrow>
   watchdog_work (schedule_delayed_work ms dev) = Some ms \<and>
   trace (schedule_delayed_work ms dev) = trace dev @ [Ev_watchdog_scheduled ms]"
  by (simp add: schedule_delayed_work_def)

lemma cancel_delayed_work_fields [simp]:
  "dev_state (cancel_delayed_work dev) = dev_state dev"
  "ready_ctxs (cancel_delayed_work dev) = ready_ctxs dev"
  "current_ctx (cancel_delayed_work dev) = current_ctx dev"
  "ctxs (cancel_delayed_work dev) = ctxs dev"
  "watchdog_work (cancel_delayed_work dev) = None"
  by (simp_all add: cancel_delayed_work_def split: option.splits)

lemma prepare_run_fields [simp]:
  "dev_state (rockchip_vpu_prepare_run c dev) = dev_state dev"
  "ready_ctxs (rockchip_vpu_prepare_run c dev) = ready_ctxs dev"
  "current_ctx (rockchip_vpu_prepare_run c dev) = current_ctx dev"
  "ctxs (rockchip_vpu_prepare_run c dev) = ctxs dev"
  "watchdog_work (rockchip_vpu_prepare_run c dev) = watchdog_work dev"
  by (simp_all add: rockchip_vpu_prepare_run_def)

lemma run_fields [simp]:
  "dev_state (rockchip_vpu_run c dev) = dev_state dev"
  "ready_ctxs (rockchip_vpu_run c dev) = ready_ctxs dev"
  "current_ctx (rockchip_vpu_run c dev) = current_ctx dev"
  "ctxs (rockchip_vpu_run c dev) = ctxs dev"
  by (simp_all add: rockchip_vpu_run_def)

lemma run_watchdog:
  "watchdog_work dev = None \<Longrightarrow> watchdog_work (rockchip_vpu_run c dev) = Some 2000"
  by (simp add: rockchip_vpu_run_def schedule_delayed_work_idle)

lemma test_bit_set [simp]:
  "test_bit VPU_RUNNING (set_bit VPU_RUNNING w)"
  "test_bit VPU_SUSPENDED (set_bit VPU_RUNNING w) = test_bit VPU_SUSPENDED w"
  "\<not> test_bit VPU_RUNNING (unset_bit VPU_RUNNING w)"
  "test_bit VPU_SUSPENDED (unset_bit VPU_RUNNING w) = test_bit VPU_SUSPENDED w"
  by (simp_all add: test_bit_def VPU_RUNNING_def VPU_SUSPENDED_def bit_set_bit_iff
      bit_unset_bit_iff)

lemma try_run_nothing:
  "ready_ctxs dev = [] \<or> test_bit VPU_SUSPENDED (dev_state dev)
     \<or> test_bit VPU_RUNNING (dev_state dev) \<Longrightarrow>
   rockchip_vpu_try_run dev = Some (emit Ev_spin_unlock (emit Ev_spin_lock dev))"
  by (auto simp: rockchip_vpu_try_run_def Let_def)

lemma try_run_dispatch:
  assumes "ready_ctxs dev = c # rest"
    and "src_queue (ctxs dev c) = src # srcs"
    and "dst_queue (ctxs dev c) = dst # dsts"
    and "\<not> test_bit VPU_RUNNING (dev_state dev)"
    and "\<not> test_bit VPU_SUSPENDED (dev_state dev)"
  shows "rockchip_vpu_try_run dev = Some (dispatched c rest src srcs dst dsts dev)"
  using assms
  by (simp add: rockchip_vpu_try_run_def Let_def rockchip_vpu_dequeue_run_locked_def
      dispatched_def emit_def)


lemma dispatched_fields [simp]:
  "ready_ctxs (dispatched c rest src srcs dst dsts dev) = rest"
  "current_ctx (dispatched c rest src srcs dst dsts dev) = Some c"
  "dev_state (dispatched c rest src srcs dst dsts dev) = set_bit VPU_RUNNING (dev_state dev)"
  "ctxs (dispatched c rest src srcs dst dsts dev) =
     (ctxs dev)(c := (ctxs dev c)\<lparr>src_queue := srcs, dst_queue := dsts,
                   run_src := Some src, run_dst := Some dst\<rparr>)"
  by (simp_all add: dispatched_def)

lemma dispatched_watchdog:
  "watchdog_work dev = None \<Longrightarrow>
   watchdog_work (dispatched c rest src srcs dst dsts dev) = Some 2000"
  by (simp add: dispatched_def run_watchdog)

lemma dispatched_trace:
  "watchdog_work dev = None \<Longrightarrow>
   trace (dispatched c rest src srcs dst dsts dev) =
     trace dev @ [Ev_spin_lock, Ev_spin_unlock]
       @ (if has_prepare_run (ctxs dev c) then [Ev_prepare_run c] else [])
       @ [Ev_codec_run c, Ev_watchdog_scheduled 2000]"
  by (simp add: dispatched_def rockchip_vpu_run_def rockchip_vpu_prepare_run_def
      schedule_delayed_work_def emit_def)

lemma ready_inv_simps [simp]:
  "ready_inv (emit e dev) = ready_inv dev"
  "ready_inv (dev\<lparr>current_ctx := x\<rparr>) = ready_inv dev"
  "ready_inv (dev\<lparr>dev_state := w\<rparr>) = ready_inv dev"
  "ready_inv (dev\<lparr>watchdog_work := t\<rparr>) = ready_inv dev"
  "ready_inv (dev\<lparr>trace := tr\<rparr>) = ready_inv dev"
  "ready_inv (cancel_delayed_work dev) = ready_inv dev"
  by (simp_all add: ready_inv_def)

lemma try_context_locked_inv:
  "ready_inv dev \<Longrightarrow> ready_inv (rockchip_vpu_try_context_locked c dev)"
  by (auto simp: ready_inv_def rockchip_vpu_try_context_locked_def)

lemma try_run_inv:
  assumes "ready_inv dev"
  shows "\<exists>dev'. rockchip_vpu_try_run dev = Some dev' \<and> ready_inv dev'"
proof (cases "ready_ctxs dev = [] \<or> test_bit VPU_SUSPENDED (dev_state dev)
     \<or> test_bit VPU_RUNNING (dev_state dev)")
  case True
  then show ?thesis using assms by (simp add: try_run_nothing)
next
  case False
  then obtain c rest where r: "ready_ctxs dev = c # rest" by (cases "ready_ctxs dev") auto
  with assms obtain src srcs dst dsts
    where q: "src_queue (ctxs dev c) = src # srcs" "dst_queue (ctxs dev c) = dst # dsts"
    by (auto simp: ready_inv_def neq_Nil_conv)
  have "rockchip_vpu_try_run dev = Some (dispatched c rest src srcs dst dsts dev)"
    using r q False by (intro try_run_dispatch) auto
  moreover have "ready_inv (dispatched c rest src srcs dst dsts dev)"
    using assms r by (auto simp: ready_inv_def list_all_iff)
  ultimately show ?thesis by simp
qed

lemma try_context_inv:
  assumes "ready_inv dev"
  shows "\<exists>dev'. rockchip_vpu_try_context c dev = Some dev' \<and> ready_inv dev'"
  unfolding rockchip_vpu_try_context_def Let_def
  by (intro try_run_inv) (simp add: try_context_locked_inv assms)

lemma run_done_inv:
  assumes "ready_inv dev" and "run_src (ctxs dev c) = Some src" and "run_dst (ctxs dev c) = Some dst"
  shows "\<exists>dev'. rockchip_vpu_run_done c result dev = Some dev' \<and> ready_inv dev'"
proof -
  have "rockchip_vpu_run_done c result dev = rockchip_vpu_try_run
     (emit Ev_spin_unlock
       ((rockchip_vpu_try_context_locked c
          (emit Ev_spin_lock (emit Ev_wake_up_all
            ((emit (Ev_vb2_buffer_done dst result) (emit (Ev_vb2_buffer_done src result)
               (if has_run_done (ctxs dev c) then emit (Ev_run_done_hook c result) dev else dev)))
             \<lparr>current_ctx := None\<rparr>))))
        \<lparr>dev_state := unset_bit VPU_RUNNING (dev_state dev)\<rparr>))"
    (is "_ = rockchip_vpu_try_run ?d")
    using assms(2,3)
    by (simp add: rockchip_vpu_run_done_def Let_def rockchip_vpu_try_context_locked_def)
  moreover have "ready_inv ?d"
    using assms(1) by (simp add: try_context_locked_inv)
  ultimately show ?thesis using try_run_inv by simp
qed

lemma run_done_eq:
  "run_src (ctxs dev c) = Some src \<Longrightarrow> run_dst (ctxs dev c) = Some dst \<Longrightarrow>
   rockchip_vpu_run_done c result dev = rockchip_vpu_try_run (completed c result src dst dev)"
  by (simp add: rockchip_vpu_run_done_def Let_def rockchip_vpu_try_context_locked_def
      completed_def)

lemma try_context_locked_fields [simp]:
  "dev_state (rockchip_vpu_try_context_locked c dev) = dev_state dev"
  "current_ctx (rockchip_vpu_try_context_locked c dev) = current_ctx dev"
  "ctxs (rockchip_vpu_try_context_locked c dev) = ctxs dev"
  "watchdog_work (rockchip_vpu_try_context_locked c dev) = watchdog_work dev"
  "trace (rockchip_vpu_try_context_locked c dev) = trace dev"
  by (simp_all add: rockchip_vpu_try_context_locked_def)

lemma try_context_locked_ready:
  "ready_ctxs (rockchip_vpu_try_context_locked c dev) =
     (if c \<notin> set (ready_ctxs dev) \<and> src_queue (ctxs dev c) \<noteq> [] \<and> dst_queue (ctxs dev c) \<noteq> []
      then ready_ctxs dev @ [c] else ready_ctxs dev)"
  by (simp add: rockchip_vpu_try_context_locked_def)

lemma completed_fields [simp]:
  "dev_state (completed c result src dst dev) = unset_bit VPU_RUNNING (dev_state dev)"
  "current_ctx (completed c result src dst dev) = None"
  "ctxs (completed c result src dst dev) = ctxs dev"
  "watchdog_work (completed c result src dst dev) = watchdog_work dev"
  by (simp_all add: completed_def)

lemma completed_ready [simp]:
  "ready_ctxs (completed c result src dst dev) =
     ready_ctxs (rockchip_vpu_try_context_locked c dev)"
  by (simp add: completed_def rockchip_vpu_try_context_locked_def)

lemma completed_trace:
  "trace (completed c result src dst dev) =
     trace dev @ (if has_run_done (ctxs dev c) then [Ev_run_done_hook c result] else [])
       @ [Ev_vb2_buffer_done src result, Ev_vb2_buffer_done dst result, Ev_wake_up_all,
          Ev_spin_lock, Ev_spin_unlock]"
  by (simp add: completed_def)

lemma in_flight_step:
  assumes "in_flight c S D k dev" and "Suc k < length S" and "Suc k < length D"
  shows "\<exists>dev'. rockchip_vpu_run_done c result dev = Some dev' \<and> in_flight c S D (Suc k) dev'"
proof -
  let ?d = "completed c result (S ! k) (D ! k) dev"
  have s: "drop (Suc k) S = S ! Suc k # drop (Suc (Suc k)) S"
    and d: "drop (Suc k) D = D ! Suc k # drop (Suc (Suc k)) D"
    using assms(2,3) by (simp_all add: Cons_nth_drop_Suc)
  have eq: "rockchip_vpu_run_done c result dev = rockchip_vpu_try_run ?d"
    using assms(1) by (intro run_done_eq) (simp_all add: in_flight_def)
  have r: "ready_ctxs ?d = [c]"
    using assms(1) s d by (simp add: in_flight_def try_context_locked_ready)
  have "rockchip_vpu_try_run ?d =
      Some (dispatched c [] (S ! Suc k) (drop (Suc (Suc k)) S) (D ! Suc k) (drop (Suc (Suc k)) D) ?d)"
    using r assms(1) s d by (intro try_run_dispatch) (simp_all add: in_flight_def)
  then show ?thesis using eq assms(1) by (simp add: in_flight_def)
qed

lemma in_flight_run:
  assumes "in_flight c S D k dev" and "k + length rs < length S" and "k + length rs < length D"
  shows "\<exists>dev'. sched_run (map (Complete c) rs) dev = Some dev'
           \<and> in_flight c S D (k + length rs) dev'"
  using assms
proof (induction rs arbitrary: k dev)
  case Nil
  then show ?case by simp
next
  case (Cons r rs)
  from Cons.prems obtain dev1
    where 1: "rockchip_vpu_run_done c r dev = Some dev1" "in_flight c S D (Suc k) dev1"
    using in_flight_step [of c S D k dev r] by auto
  from Cons.IH [OF 1(2)] Cons.prems obtain dev'
    where "sched_run (map (Complete c) rs) dev1 = Some dev'"
      "in_flight c S D (Suc k + length rs) dev'"
    by auto
  with 1 show ?case by simp
qed

lemma submit_first_frame:
  assumes "ready_ctxs dev = []"
    and "\<not> test_bit VPU_RUNNING (dev_state dev)"
    and "\<not> test_bit VPU_SUSPENDED (dev_state dev)"
    and "0 < length (src_queue (ctxs dev c))" and "0 < length (dst_queue (ctxs dev c))"
  shows "\<exists>dev'. rockchip_vpu_try_context c dev = Some dev'
           \<and> in_flight c (src_queue (ctxs dev c)) (dst_queue (ctxs dev c)) 0 dev'"
proof -
  let ?S = "src_queue (ctxs dev c)" and ?D = "dst_queue (ctxs dev c)"
  let ?d = "emit Ev_spin_unlock (rockchip_vpu_try_context_locked c (emit Ev_spin_lock dev))"
  have s: "?S = ?S ! 0 # drop (Suc 0) ?S" and d: "?D = ?D ! 0 # drop (Suc 0) ?D"
    using assms(4,5) by (simp_all add: Cons_nth_drop_Suc)
  have r: "ready_ctxs ?d = [c]"
    using assms by (simp add: try_context_locked_ready)
  have "rockchip_vpu_try_run ?d =
      Some (dispatched c [] (?S ! 0) (drop (Suc 0) ?S) (?D ! 0) (drop (Suc 0) ?D) ?d)"
    using r assms(2,3) s d by (intro try_run_dispatch) simp_all
  then show ?thesis
    using assms(3) by (simp add: rockchip_vpu_try_context_def Let_def in_flight_def)
qed

lemma sched_run_append:
  "sched_run (xs @ ys) dev = Option.bind (sched_run xs dev) (sched_run ys)"
  by (induction xs arbitrary: dev) (auto split: option.splits)

lemma sched_step_inv:
  assumes "ready_inv dev" and "sched_step call dev = Some dev'"
  shows "ready_inv dev'"
proof (cases call)
  case (Submit c)
  with assms try_context_inv [of dev c] show ?thesis by auto
next
  case (Complete c result)
  with assms(2) obtain src dst
    where "run_src (ctxs dev c) = Some src" "run_dst (ctxs dev c) = Some dst"
    by (auto simp: rockchip_vpu_run_done_def Let_def split: option.splits if_splits)
  with assms Complete run_done_inv [of dev c src dst result] show ?thesis by auto
qed

lemma sched_run_inv:
  "ready_inv dev \<Longrightarrow> sched_run calls dev = Some dev' \<Longrightarrow> ready_inv dev'"
proof (induction calls arbitrary: dev)
  case Nil
  then show ?case by simp
next
  case (Cons call calls)
  then show ?case by (auto split: option.splits dest: sched_step_inv)
qed

lemma try_context_no_effect:
  assumes "c \<in> set (ready_ctxs dev) \<or> src_queue (ctxs dev c) = [] \<or> dst_queue (ctxs dev c) = []"
    and "test_bit VPU_RUNNING (dev_state dev) \<or> test_bit VPU_SUSPENDED (dev_state dev)
         \<or> ready_ctxs dev = []"
  shows "rockchip_vpu_try_context c dev =
     Some (dev\<lparr>trace := trace dev @ [Ev_spin_lock, Ev_spin_unlock, Ev_spin_lock, Ev_spin_unlock]\<rparr>)"
proof -
  have l: "rockchip_vpu_try_context_locked c (emit Ev_spin_lock dev) = emit Ev_spin_lock dev"
    using assms(1) by (auto simp: rockchip_vpu_try_context_locked_def)
  have "rockchip_vpu_try_run (emit Ev_spin_unlock (emit Ev_spin_lock dev))
      = Some (emit Ev_spin_unlock (emit Ev_spin_lock (emit Ev_spin_unlock (emit Ev_spin_lock dev))))"
    using assms(2) by (intro try_run_nothing) auto
  then have "rockchip_vpu_try_context c dev
      = Some (emit Ev_spin_unlock (emit Ev_spin_lock (emit Ev_spin_unlock (emit Ev_spin_lock dev))))"
    by (simp add: rockchip_vpu_try_context_def Let_def l)
  then show ?thesis by (simp add: emit_def)
qed

lemma try_context_while_running:
  assumes "test_bit VPU_RUNNING (dev_state dev)"
  shows "\<exists>dev'. rockchip_vpu_try_context c dev = Some dev'
     \<and> watchdog_work dev' = watchdog_work dev \<and> current_ctx dev' = current_ctx dev
     \<and> dev_state dev' = dev_state dev \<and> ctxs dev' = ctxs dev"
proof -
  let ?d = "emit Ev_spin_unlock (rockchip_vpu_try_context_locked c (emit Ev_spin_lock dev))"
  have "rockchip_vpu_try_run ?d = Some (emit Ev_spin_unlock (emit Ev_spin_lock ?d))"
    using assms by (intro try_run_nothing) simp
  then show ?thesis by (simp add: rockchip_vpu_try_context_def Let_def)
qed

lemma dispatched_trace_events:
  "watchdog_work dev = None \<Longrightarrow>
   trace (dispatched c rest src srcs dst dsts dev) = trace dev @ dispatch_events c dev"
  by (simp add: dispatched_trace dispatch_events_def)

lemma completed_trace_events:
  "trace (completed c result src dst dev) = trace dev @ completion_events c result src dst dev"
  by (simp add: completed_trace completion_events_def)

lemma run_done_outcome:
  assumes inv: "ready_inv dev"
    and src: "run_src (ctxs dev c) = Some src" and dst: "run_dst (ctxs dev c) = Some dst"
    and wd: "watchdog_work dev = None"
  shows "\<exists>dev'. rockchip_vpu_run_done c result dev = Some dev' \<and>
     (if ready_ctxs (rockchip_vpu_try_context_locked c dev) = []
         \<or> test_bit VPU_SUSPENDED (dev_state dev)
      then current_ctx dev' = None \<and> \<not> test_bit VPU_RUNNING (dev_state dev')
        \<and> watchdog_work dev' = None \<and> ctxs dev' = ctxs dev
        \<and> ready_ctxs dev' = ready_ctxs (rockchip_vpu_try_context_locked c dev)
        \<and> trace dev' = trace dev @ completion_events c result src dst dev
                         @ [Ev_spin_lock, Ev_spin_unlock]
      else current_ctx dev' = Some (hd (ready_ctxs (rockchip_vpu_try_context_locked c dev)))
        \<and> test_bit VPU_RUNNING (dev_state dev') \<and> watchdog_work dev' = Some 2000
        \<and> ready_ctxs dev' = tl (ready_ctxs (rockchip_vpu_try_context_locked c dev))
        \<and> trace dev' = trace dev @ completion_events c result src dst dev
             @ dispatch_events (hd (ready_ctxs (rockchip_vpu_try_context_locked c dev))) dev)"
proof -
  let ?Q = "ready_ctxs (rockchip_vpu_try_context_locked c dev)"
  let ?d = "completed c result src dst dev"
  have eq: "rockchip_vpu_run_done c result dev = rockchip_vpu_try_run ?d"
    using src dst by (rule run_done_eq)
  have inv': "ready_inv (rockchip_vpu_try_context_locked c dev)"
    using inv by (rule try_context_locked_inv)
  show ?thesis
  proof (cases "?Q = [] \<or> test_bit VPU_SUSPENDED (dev_state dev)")
    case True
    then have "rockchip_vpu_try_run ?d = Some (emit Ev_spin_unlock (emit Ev_spin_lock ?d))"
      by (intro try_run_nothing) auto
    then show ?thesis using True eq wd by (simp add: completed_trace_events)
  next
    case False
    then obtain c' rest where q: "?Q = c' # rest" by (cases ?Q) auto
    with inv' obtain s ss d ds
      where b: "src_queue (ctxs dev c') = s # ss" "dst_queue (ctxs dev c') = d # ds"
      by (auto simp: ready_inv_def neq_Nil_conv)
    have "rockchip_vpu_try_run ?d = Some (dispatched c' rest s ss d ds ?d)"
      using q b False by (intro try_run_dispatch) simp_all
    then show ?thesis
      using False eq wd q
      by (simp add: dispatched_watchdog dispatched_trace_events completed_trace_events
          dispatch_events_def)
  qed
qed

lemma events_cong [simp]:
  "completion_events c result src dst (emit e dev) = completion_events c result src dst dev"
  "completion_events c result src dst (dev\<lparr>watchdog_work := w\<rparr>)
     = completion_events c result src dst dev"
  "completion_events c result src dst (cancel_delayed_work dev)
     = completion_events c result src dst dev"
  "dispatch_events c' (emit e dev) = dispatch_events c' dev"
  "dispatch_events c' (dev\<lparr>watchdog_work := w\<rparr>) = dispatch_events c' dev"
  "dispatch_events c' (cancel_delayed_work dev) = dispatch_events c' dev"
  by (simp_all add: completion_events_def dispatch_events_def)

lemma try_context_locked_ready_cong [simp]:
  "ready_ctxs (rockchip_vpu_try_context_locked c (emit e dev))
     = ready_ctxs (rockchip_vpu_try_context_locked c dev)"
  "ready_ctxs (rockchip_vpu_try_context_locked c (dev\<lparr>watchdog_work := w\<rparr>))
     = ready_ctxs (rockchip_vpu_try_context_locked c dev)"
  "ready_ctxs (rockchip_vpu_try_context_locked c (cancel_delayed_work dev))
     = ready_ctxs (rockchip_vpu_try_context_locked c dev)"
  by (simp_all add: try_context_locked_ready)

lemma run_done_suspended:
  assumes "rockchip_vpu_run_done c result dev = Some dev'"
  shows "test_bit VPU_SUSPENDED (dev_state dev') = test_bit VPU_SUSPENDED (dev_state dev)"
proof -
  from assms obtain src dst
    where b: "run_src (ctxs dev c) = Some src" "run_dst (ctxs dev c) = Some dst"
    by (auto simp: rockchip_vpu_run_done_def Let_def split: option.splits if_splits)
  let ?d = "completed c result src dst dev"
  have eq: "rockchip_vpu_try_run ?d = Some dev'"
    using assms run_done_eq [OF b] by simp
  show ?thesis
  proof (cases "ready_ctxs ?d = [] \<or> test_bit VPU_SUSPENDED (dev_state ?d)
     \<or> test_bit VPU_RUNNING (dev_state ?d)")
    case True
    then show ?thesis using eq try_run_nothing [OF True] by auto
  next
    case False
    then show ?thesis
      using eq
      by (auto simp: rockchip_vpu_try_run_def Let_def rockchip_vpu_dequeue_run_locked_def
          split: list.splits option.splits)
  qed
qed

lemma submit_dispatches:
  assumes "ready_ctxs dev = []"
    and "\<not> test_bit VPU_RUNNING (dev_state dev)"
    and "\<not> test_bit VPU_SUSPENDED (dev_state dev)"
    and "src_queue (ctxs dev c) \<noteq> []" and "dst_queue (ctxs dev c) \<noteq> []"
    and "watchdog_work dev = None"
  shows "\<exists>dev'. rockchip_vpu_try_context c dev = Some dev'
           \<and> current_ctx dev' = Some c \<and> watchdog_work dev' = Some 2000
           \<and> run_src (ctxs dev' c) = Some (hd (src_queue (ctxs dev c)))
           \<and> run_dst (ctxs dev' c) = Some (hd (dst_queue (ctxs dev c)))"
proof -
  obtain s ss d ds where q: "src_queue (ctxs dev c) = s # ss" "dst_queue (ctxs dev c) = d # ds"
    using assms(4,5) by (auto simp: neq_Nil_conv)
  let ?d = "emit Ev_spin_unlock (rockchip_vpu_try_context_locked c (emit Ev_spin_lock dev))"
  have r: "ready_ctxs ?d = [c]"
    using assms(1) q by (simp add: try_context_locked_ready)
  have "rockchip_vpu_try_run ?d = Some (dispatched c [] s ss d ds ?d)"
    using r assms(2,3) q by (intro try_run_dispatch) simp_all
  then show ?thesis
    using q assms(6) by (simp add: rockchip_vpu_try_context_def Let_def dispatched_watchdog)
qed

text \<open>
  Claim C1.  When the engine is neither running nor suspended and context \<open>c\<close> is at
  the head of the ready list with a buffer in each queue, \<open>rockchip_vpu_try_run\<close> takes
  \<open>c\<close> off the ready list, makes it the current context, and binds as its run exactly
  the head of its source queue and the head of its destination queue; the queues keep
  the remaining buffers in order and no other context is touched.  Over several frames
  the order is kept: for a context alone on an idle device, after the submit and \<open>k\<close>
  completions the run is bound to the \<open>k\<close>-th buffer of each of the original queues.
\<close>

theorem C1_try_run_binds_queue_heads:
  "(ready_ctxs dev = c # rest \<and> src_queue (ctxs dev c) = src # srcs
      \<and> dst_queue (ctxs dev c) = dst # dsts
      \<and> \<not> test_bit VPU_RUNNING (dev_state dev) \<and> \<not> test_bit VPU_SUSPENDED (dev_state dev)
    \<longrightarrow> (\<exists>dev'. rockchip_vpu_try_run dev = Some dev'
           \<and> ready_ctxs dev' = rest
           \<and> (distinct (ready_ctxs dev) \<longrightarrow> c \<notin> set (ready_ctxs dev'))
           \<and> current_ctx dev' = Some c \<and> test_bit VPU_RUNNING (dev_state dev')
           \<and> run_src (ctxs dev' c) = Some src \<and> run_dst (ctxs dev' c) = Some dst
           \<and> src_queue (ctxs dev' c) = srcs \<and> dst_queue (ctxs dev' c) = dsts
           \<and> (\<forall>c'. c' \<noteq> c \<longrightarrow> ctxs dev' c' = ctxs dev c')))
   \<and> (ready_ctxs dev = [] \<and> \<not> test_bit VPU_RUNNING (dev_state dev)
        \<and> \<not> test_bit VPU_SUSPENDED (dev_state dev)
        \<and> length results < length (src_queue (ctxs dev c))
        \<and> length results < length (dst_queue (ctxs dev c))
    \<longrightarrow> (\<exists>dev'. sched_run (Submit c # map (Complete c) results) dev = Some dev'
           \<and> run_src (ctxs dev' c) = Some (src_queue (ctxs dev c) ! length results)
           \<and> run_dst (ctxs dev' c) = Some (dst_queue (ctxs dev c) ! length results)
           \<and> src_queue (ctxs dev' c) = drop (Suc (length results)) (src_queue (ctxs dev c))
           \<and> dst_queue (ctxs dev' c) = drop (Suc (length results)) (dst_queue (ctxs dev c))))"
proof (intro conjI impI)
  assume a: "ready_ctxs dev = c # rest \<and> src_queue (ctxs dev c) = src # srcs
      \<and> dst_queue (ctxs dev c) = dst # dsts
      \<and> \<not> test_bit VPU_RUNNING (dev_state dev) \<and> \<not> test_bit VPU_SUSPENDED (dev_state dev)"
  then have "rockchip_vpu_try_run dev = Some (dispatched c rest src srcs dst dsts dev)"
    by (intro try_run_dispatch) simp_all
  then show "\<exists>dev'. rockchip_vpu_try_run dev = Some dev'
           \<and> ready_ctxs dev' = rest
           \<and> (distinct (ready_ctxs dev) \<longrightarrow> c \<notin> set (ready_ctxs dev'))
           \<and> current_ctx dev' = Some c \<and> test_bit VPU_RUNNING (dev_state dev')
           \<and> run_src (ctxs dev' c) = Some src \<and> run_dst (ctxs dev' c) = Some dst
           \<and> src_queue (ctxs dev' c) = srcs \<and> dst_queue (ctxs dev' c) = dsts
           \<and> (\<forall>c'. c' \<noteq> c \<longrightarrow> ctxs dev' c' = ctxs dev c')"
    using a by simp
next
  let ?S = "src_queue (ctxs dev c)" and ?D = "dst_queue (ctxs dev c)"
  assume a: "ready_ctxs dev = [] \<and> \<not> test_bit VPU_RUNNING (dev_state dev)
        \<and> \<not> test_bit VPU_SUSPENDED (dev_state dev)
        \<and> length results < length ?S \<and> length results < length ?D"
  then have "0 < length ?S" and "0 < length ?D" by auto
  with a obtain dev1 where 1: "rockchip_vpu_try_context c dev = Some dev1"
      "in_flight c ?S ?D 0 dev1"
    using submit_first_frame [of dev c] by blast
  from in_flight_run [OF 1(2), of results] a obtain dev'
    where 2: "sched_run (map (Complete c) results) dev1 = Some dev'"
      "in_flight c ?S ?D (length results) dev'"
    by auto
  show "\<exists>dev'. sched_run (Submit c # map (Complete c) results) dev = Some dev'
           \<and> run_src (ctxs dev' c) = Some (?S ! length results)
           \<and> run_dst (ctxs dev' c) = Some (?D ! length results)
           \<and> src_queue (ctxs dev' c) = drop (Suc (length results)) ?S
           \<and> dst_queue (ctxs dev' c) = drop (Suc (length results)) ?D"
    using 1 2 by (auto simp: in_flight_def)
qed

text \<open>
  Instances of C1 on the example device: one dispatch, and a second frame after one
  completion.
\<close>

theorem C1_try_run_binds_queue_heads_witness:
  "(ready_ctxs example_dev = 1 # [2] \<and> src_queue (ctxs example_dev 1) = 10 # [11]
     \<and> dst_queue (ctxs example_dev 1) = 20 # [21]
     \<and> \<not> test_bit VPU_RUNNING (dev_state example_dev)
     \<and> \<not> test_bit VPU_SUSPENDED (dev_state example_dev))
   \<and> (\<exists>dev'. rockchip_vpu_try_run example_dev = Some dev'
         \<and> ready_ctxs dev' = [2] \<and> 1 \<notin> set (ready_ctxs dev') \<and> current_ctx dev' = Some 1
         \<and> run_src (ctxs dev' 1) = Some 10 \<and> run_dst (ctxs dev' 1) = Some 20
         \<and> src_queue (ctxs dev' 1) = [11] \<and> dst_queue (ctxs dev' 1) = [21])
   \<and> (\<exists>dev'. sched_run [Submit 1, Complete 1 VB2_BUF_STATE_DONE] example_dev_idle = Some dev'
         \<and> run_src (ctxs dev' 1) = Some 11 \<and> run_dst (ctxs dev' 1) = Some 21
         \<and> src_queue (ctxs dev' 1) = [] \<and> dst_queue (ctxs dev' 1) = [])"
proof -
  have h1: "ready_ctxs example_dev = 1 # [2] \<and> src_queue (ctxs example_dev 1) = 10 # [11]
     \<and> dst_queue (ctxs example_dev 1) = 20 # [21]
     \<and> \<not> test_bit VPU_RUNNING (dev_state example_dev)
     \<and> \<not> test_bit VPU_SUSPENDED (dev_state example_dev)"
    by (simp add: example_dev_def example_dev_idle_def example_ctxs_def example_ctx_def
        test_bit_def)
  have h2: "ready_ctxs example_dev_idle = [] \<and> \<not> test_bit VPU_RUNNING (dev_state example_dev_idle)
        \<and> \<not> test_bit VPU_SUSPENDED (dev_state example_dev_idle)
        \<and> length [VB2_BUF_STATE_DONE] < length (src_queue (ctxs example_dev_idle 1))
        \<and> length [VB2_BUF_STATE_DONE] < length (dst_queue (ctxs example_dev_idle 1))"
    by (simp add: example_dev_idle_def example_ctxs_def example_ctx_def test_bit_def)
  have d: "distinct (ready_ctxs example_dev)"
    by (simp add: example_dev_def example_dev_idle_def)
  have q: "src_queue (ctxs example_dev_idle 1) = [10, 11]"
    "dst_queue (ctxs example_dev_idle 1) = [20, 21]"
    by (simp_all add: example_dev_idle_def example_ctxs_def example_ctx_def)
  note t1 = C1_try_run_binds_queue_heads [where dev = example_dev and c = 1 and rest = "[2]"
      and src = 10 and srcs = "[11]" and dst = 20 and dsts = "[21]", THEN conjunct1, rule_format, OF h1]
  note t2 = C1_try_run_binds_queue_heads [where dev = example_dev_idle and c = 1
      and results = "[VB2_BUF_STATE_DONE]", THEN conjunct2, rule_format, OF h2]
  have a: "\<exists>dev'. rockchip_vpu_try_run example_dev = Some dev'
         \<and> ready_ctxs dev' = [2] \<and> 1 \<notin> set (ready_ctxs dev') \<and> current_ctx dev' = Some 1
         \<and> run_src (ctxs dev' 1) = Some 10 \<and> run_dst (ctxs dev' 1) = Some 20
         \<and> src_queue (ctxs dev' 1) = [11] \<and> dst_queue (ctxs dev' 1) = [21]"
    using t1 d by blast
  have b: "\<exists>dev'. sched_run [Submit 1, Complete 1 VB2_BUF_STATE_DONE] example_dev_idle = Some dev'
         \<and> run_src (ctxs dev' 1) = Some 11 \<and> run_dst (ctxs dev' 1) = Some 21
         \<and> src_queue (ctxs dev' 1) = [] \<and> dst_queue (ctxs dev' 1) = []"
  proof -
    from t2 obtain dev'
      where r: "sched_run (Submit 1 # map (Complete 1) [VB2_BUF_STATE_DONE]) example_dev_idle
                  = Some dev'"
        and v: "run_src (ctxs dev' 1)
                  = Some (src_queue (ctxs example_dev_idle 1) ! length [VB2_BUF_STATE_DONE])"
          "run_dst (ctxs dev' 1)
                  = Some (dst_queue (ctxs example_dev_idle 1) ! length [VB2_BUF_STATE_DONE])"
          "src_queue (ctxs dev' 1)
             = drop (Suc (length [VB2_BUF_STATE_DONE])) (src_queue (ctxs example_dev_idle 1))"
          "dst_queue (ctxs dev' 1)
             = drop (Suc (length [VB2_BUF_STATE_DONE])) (dst_queue (ctxs example_dev_idle 1))"
      by blast
    have r': "sched_run [Submit 1, Complete 1 VB2_BUF_STATE_DONE] example_dev_idle = Some dev'"
      using r by (simp only: list.map)
    have "run_src (ctxs dev' 1) = Some 11" "run_dst (ctxs dev' 1) = Some 21"
      "src_queue (ctxs dev' 1) = []" "dst_queue (ctxs dev' 1) = []"
      using v unfolding q by simp_all
    with r' show ?thesis by blast
  qed
  show ?thesis using h1 a b by blast
qed

text \<open>
  Claim C2.  \<open>__rockchip_vpu_try_context_locked\<close> appends the context to the tail of
  the ready list when the context is not on the list and has a buffer in each queue, and
  returns the device unchanged otherwise.  From a device whose ready list has no
  duplicates and holds only contexts with a buffer in each queue, \<open>rockchip_vpu_try_context\<close>
  and \<open>rockchip_vpu_run_done\<close> (on a context with a bound run) return, and the ready list
  of the result has no duplicates; so has the result of every sequence of submit and
  complete calls that returns.  A submit of a context that is on the list or lacks a
  buffer, while the engine cannot dispatch, changes nothing but the lock events.
\<close>

theorem C2_ready_list_without_duplicates:
  "rockchip_vpu_try_context_locked c dev =
     (if c \<notin> set (ready_ctxs dev) \<and> src_queue (ctxs dev c) \<noteq> []
         \<and> dst_queue (ctxs dev c) \<noteq> []
      then dev\<lparr>ready_ctxs := ready_ctxs dev @ [c]\<rparr> else dev)
   \<and> (ready_inv dev \<longrightarrow>
        (\<exists>dev'. rockchip_vpu_try_context c dev = Some dev'
           \<and> ready_inv dev' \<and> distinct (ready_ctxs dev')))
   \<and> (ready_inv dev \<and> run_src (ctxs dev c) \<noteq> None \<and> run_dst (ctxs dev c) \<noteq> None \<longrightarrow>
        (\<exists>dev'. rockchip_vpu_run_done c result dev = Some dev'
           \<and> ready_inv dev' \<and> distinct (ready_ctxs dev')))
   \<and> (ready_inv dev \<and> sched_run calls dev = Some dev'' \<longrightarrow>
        ready_inv dev'' \<and> distinct (ready_ctxs dev''))
   \<and> ((c \<in> set (ready_ctxs dev) \<or> src_queue (ctxs dev c) = [] \<or> dst_queue (ctxs dev c) = [])
        \<and> (test_bit VPU_RUNNING (dev_state dev) \<or> test_bit VPU_SUSPENDED (dev_state dev)
             \<or> ready_ctxs dev = []) \<longrightarrow>
        rockchip_vpu_try_context c dev =
          Some (dev\<lparr>trace := trace dev
                   @ [Ev_spin_lock, Ev_spin_unlock, Ev_spin_lock, Ev_spin_unlock]\<rparr>))"
proof (intro conjI impI)
  show "rockchip_vpu_try_context_locked c dev =
     (if c \<notin> set (ready_ctxs dev) \<and> src_queue (ctxs dev c) \<noteq> []
         \<and> dst_queue (ctxs dev c) \<noteq> []
      then dev\<lparr>ready_ctxs := ready_ctxs dev @ [c]\<rparr> else dev)"
    by (simp add: rockchip_vpu_try_context_locked_def)
next
  assume "ready_inv dev"
  then show "\<exists>dev'. rockchip_vpu_try_context c dev = Some dev'
           \<and> ready_inv dev' \<and> distinct (ready_ctxs dev')"
    using try_context_inv [of dev c] by (auto simp: ready_inv_def)
next
  assume "ready_inv dev \<and> run_src (ctxs dev c) \<noteq> None \<and> run_dst (ctxs dev c) \<noteq> None"
  then obtain src dst where "ready_inv dev" "run_src (ctxs dev c) = Some src"
      "run_dst (ctxs dev c) = Some dst"
    by auto
  then show "\<exists>dev'. rockchip_vpu_run_done c result dev = Some dev'
           \<and> ready_inv dev' \<and> distinct (ready_ctxs dev')"
    using run_done_inv [of dev c src dst result] by (auto simp: ready_inv_def)
next
  assume a: "ready_inv dev \<and> sched_run calls dev = Some dev''"
  then show "ready_inv dev''" using sched_run_inv by blast
  then show "distinct (ready_ctxs dev'')" by (simp add: ready_inv_def)
next
  assume "(c \<in> set (ready_ctxs dev) \<or> src_queue (ctxs dev c) = [] \<or> dst_queue (ctxs dev c) = [])
        \<and> (test_bit VPU_RUNNING (dev_state dev) \<or> test_bit VPU_SUSPENDED (dev_state dev)
             \<or> ready_ctxs dev = [])"
  then show "rockchip_vpu_try_context c dev =
          Some (dev\<lparr>trace := trace dev
                   @ [Ev_spin_lock, Ev_spin_unlock, Ev_spin_lock, Ev_spin_unlock]\<rparr>)"
    by (intro try_context_no_effect) blast+
qed

lemma example_dev_busy_inv: "ready_inv example_dev_busy"
  by (simp add: ready_inv_def example_dev_busy_def example_ctxs_def example_ctx_def)

lemma example_dev_busy_run:
  "run_src (ctxs example_dev_busy 1) = Some 10" "run_dst (ctxs example_dev_busy 1) = Some 20"
  "current_ctx example_dev_busy = Some 1" "watchdog_work example_dev_busy = Some 2000"
  "test_bit VPU_RUNNING (dev_state example_dev_busy)"
  "\<not> test_bit VPU_SUSPENDED (dev_state example_dev_busy)"
  by (simp_all add: example_dev_busy_def example_ctx_def test_bit_def VPU_RUNNING_def
      VPU_SUSPENDED_def)

text \<open>
  Instances of C2 on the example device on which context 1 runs and context 2 waits.
\<close>

theorem C2_ready_list_without_duplicates_witness:
  "ready_inv example_dev_busy
   \<and> (\<exists>dev'. rockchip_vpu_try_context 2 example_dev_busy = Some dev'
         \<and> distinct (ready_ctxs dev'))
   \<and> run_src (ctxs example_dev_busy 1) \<noteq> None \<and> run_dst (ctxs example_dev_busy 1) \<noteq> None
   \<and> (\<exists>dev'. rockchip_vpu_run_done 1 VB2_BUF_STATE_DONE example_dev_busy = Some dev'
         \<and> distinct (ready_ctxs dev'))
   \<and> (\<exists>dev''. sched_run [Submit 2, Complete 1 VB2_BUF_STATE_DONE] example_dev_busy = Some dev''
         \<and> distinct (ready_ctxs dev''))
   \<and> 2 \<in> set (ready_ctxs example_dev_busy)
   \<and> test_bit VPU_RUNNING (dev_state example_dev_busy)
   \<and> rockchip_vpu_try_context 2 example_dev_busy =
        Some (example_dev_busy\<lparr>trace := trace example_dev_busy
                @ [Ev_spin_lock, Ev_spin_unlock, Ev_spin_lock, Ev_spin_unlock]\<rparr>)"
proof -
  note t = C2_ready_list_without_duplicates [where dev = example_dev_busy]
  have m: "2 \<in> set (ready_ctxs example_dev_busy)" by (simp add: example_dev_busy_def)
  have b: "run_src (ctxs example_dev_busy 1) \<noteq> None" "run_dst (ctxs example_dev_busy 1) \<noteq> None"
    using example_dev_busy_run(1,2) by simp_all
  have s: "\<exists>dev'. rockchip_vpu_try_context 2 example_dev_busy = Some dev'
         \<and> distinct (ready_ctxs dev')"
    using t [where c = 2] example_dev_busy_inv by blast
  have e: "rockchip_vpu_try_context 2 example_dev_busy =
        Some (example_dev_busy\<lparr>trace := trace example_dev_busy
                @ [Ev_spin_lock, Ev_spin_unlock, Ev_spin_lock, Ev_spin_unlock]\<rparr>)"
    using t [where c = 2] m example_dev_busy_run(5) by blast
  have d: "\<exists>dev'. rockchip_vpu_run_done 1 VB2_BUF_STATE_DONE example_dev_busy = Some dev'
         \<and> distinct (ready_ctxs dev')"
    using t [where c = 1 and result = VB2_BUF_STATE_DONE] example_dev_busy_inv b by blast
  let ?d1 = "example_dev_busy\<lparr>trace := trace example_dev_busy
                @ [Ev_spin_lock, Ev_spin_unlock, Ev_spin_lock, Ev_spin_unlock]\<rparr>"
  have i1: "ready_inv ?d1" using example_dev_busy_inv by simp
  have "run_src (ctxs ?d1 1) = Some 10" "run_dst (ctxs ?d1 1) = Some 20"
    using example_dev_busy_run(1,2) by simp_all
  with run_done_inv [OF i1, of 1 10 20 VB2_BUF_STATE_DONE] obtain dev''
    where r: "rockchip_vpu_run_done 1 VB2_BUF_STATE_DONE ?d1 = Some dev''" by blast
  have q: "sched_run [Submit 2, Complete 1 VB2_BUF_STATE_DONE] example_dev_busy = Some dev''"
    using e r by simp
  have "distinct (ready_ctxs dev'')"
    using t [where calls = "[Submit 2, Complete 1 VB2_BUF_STATE_DONE]" and dev'' = dev'']
      example_dev_busy_inv q by blast
  with q have sq: "\<exists>dev''. sched_run [Submit 2, Complete 1 VB2_BUF_STATE_DONE] example_dev_busy
      = Some dev'' \<and> distinct (ready_ctxs dev'')" by blast
  show ?thesis
    using example_dev_busy_inv s b d sq m example_dev_busy_run(5) e by blast
qed

lemma watchdog_expires_eq:
  "current_ctx dev = Some c \<Longrightarrow> watchdog_work dev = Some ms \<Longrightarrow>
   watchdog_expires dev =
     rockchip_vpu_run_done c VB2_BUF_STATE_ERROR
       (emit Ev_power_off (emit Ev_spin_unlock (emit (Ev_codec_reset c)
          (emit Ev_spin_lock (dev\<lparr>watchdog_work := None\<rparr>)))))"
  by (simp add: watchdog_expires_def rockchip_vpu_watchdog_def Let_def)

lemma vdpu_irq_eq:
  "current_ctx dev = Some c \<Longrightarrow> watchdog_work dev = Some ms \<Longrightarrow>
   vdpu_irq 0 dev =
     rockchip_vpu_run_done c VB2_BUF_STATE_DONE
       (emit Ev_watchdog_cancelled ((emit Ev_power_off dev)\<lparr>watchdog_work := None\<rparr>))"
  by (simp add: vdpu_irq_def Let_def cancel_delayed_work_def)

lemma ready_inv_emit_upd [simp]:
  "ready_inv ((emit e dev)\<lparr>watchdog_work := w\<rparr>) = ready_inv dev"
  by (simp add: ready_inv_def)

lemma watchdog_expires_outcome:
  assumes inv: "ready_inv dev" and cur: "current_ctx dev = Some c"
    and src: "run_src (ctxs dev c) = Some src" and dst: "run_dst (ctxs dev c) = Some dst"
    and wd: "watchdog_work dev = Some ms"
  shows "\<exists>dev'. watchdog_expires dev = Some dev' \<and>
     test_bit VPU_SUSPENDED (dev_state dev') = test_bit VPU_SUSPENDED (dev_state dev) \<and>
     (if ready_ctxs (rockchip_vpu_try_context_locked c dev) = []
         \<or> test_bit VPU_SUSPENDED (dev_state dev)
      then current_ctx dev' = None \<and> \<not> test_bit VPU_RUNNING (dev_state dev')
        \<and> watchdog_work dev' = None \<and> ctxs dev' = ctxs dev
        \<and> ready_ctxs dev' = ready_ctxs (rockchip_vpu_try_context_locked c dev)
        \<and> trace dev' = trace dev
             @ [Ev_spin_lock, Ev_codec_reset c, Ev_spin_unlock, Ev_power_off]
             @ completion_events c VB2_BUF_STATE_ERROR src dst dev
             @ [Ev_spin_lock, Ev_spin_unlock]
      else current_ctx dev' = Some (hd (ready_ctxs (rockchip_vpu_try_context_locked c dev)))
        \<and> test_bit VPU_RUNNING (dev_state dev') \<and> watchdog_work dev' = Some 2000
        \<and> ready_ctxs dev' = tl (ready_ctxs (rockchip_vpu_try_context_locked c dev))
        \<and> trace dev' = trace dev
             @ [Ev_spin_lock, Ev_codec_reset c, Ev_spin_unlock, Ev_power_off]
             @ completion_events c VB2_BUF_STATE_ERROR src dst dev
             @ dispatch_events (hd (ready_ctxs (rockchip_vpu_try_context_locked c dev))) dev)"
proof -
  let ?d = "emit Ev_power_off (emit Ev_spin_unlock (emit (Ev_codec_reset c)
          (emit Ev_spin_lock (dev\<lparr>watchdog_work := None\<rparr>))))"
  have eq: "watchdog_expires dev = rockchip_vpu_run_done c VB2_BUF_STATE_ERROR ?d"
    using cur wd by (rule watchdog_expires_eq)
  have "ready_inv ?d" "run_src (ctxs ?d c) = Some src" "run_dst (ctxs ?d c) = Some dst"
    "watchdog_work ?d = None"
    using inv src dst by simp_all
  from run_done_outcome [OF this, of VB2_BUF_STATE_ERROR] obtain dev'
    where r: "rockchip_vpu_run_done c VB2_BUF_STATE_ERROR ?d = Some dev'"
      and o: "if ready_ctxs (rockchip_vpu_try_context_locked c ?d) = []
         \<or> test_bit VPU_SUSPENDED (dev_state ?d)
      then current_ctx dev' = None \<and> \<not> test_bit VPU_RUNNING (dev_state dev')
        \<and> watchdog_work dev' = None \<and> ctxs dev' = ctxs ?d
        \<and> ready_ctxs dev' = ready_ctxs (rockchip_vpu_try_context_locked c ?d)
        \<and> trace dev' = trace ?d @ completion_events c VB2_BUF_STATE_ERROR src dst ?d
                         @ [Ev_spin_lock, Ev_spin_unlock]
      else current_ctx dev' = Some (hd (ready_ctxs (rockchip_vpu_try_context_locked c ?d)))
        \<and> test_bit VPU_RUNNING (dev_state dev') \<and> watchdog_work dev' = Some 2000
        \<and> ready_ctxs dev' = tl (ready_ctxs (rockchip_vpu_try_context_locked c ?d))
        \<and> trace dev' = trace ?d @ completion_events c VB2_BUF_STATE_ERROR src dst ?d
             @ dispatch_events (hd (ready_ctxs (rockchip_vpu_try_context_locked c ?d))) ?d"
    by blast
  have s: "test_bit VPU_SUSPENDED (dev_state dev') = test_bit VPU_SUSPENDED (dev_state dev)"
    using run_done_suspended [OF r] by simp
  show ?thesis
    using eq r s o by (simp split: if_splits)
qed

lemma vdpu_irq_outcome:
  assumes inv: "ready_inv dev" and cur: "current_ctx dev = Some c"
    and src: "run_src (ctxs dev c) = Some src" and dst: "run_dst (ctxs dev c) = Some dst"
    and wd: "watchdog_work dev = Some ms"
  shows "\<exists>dev'. vdpu_irq 0 dev = Some dev' \<and>
     (if ready_ctxs (rockchip_vpu_try_context_locked c dev) = []
         \<or> test_bit VPU_SUSPENDED (dev_state dev)
      then current_ctx dev' = None \<and> \<not> test_bit VPU_RUNNING (dev_state dev')
        \<and> watchdog_work dev' = None
        \<and> trace dev' = trace dev @ [Ev_power_off, Ev_watchdog_cancelled]
             @ completion_events c VB2_BUF_STATE_DONE src dst dev
             @ [Ev_spin_lock, Ev_spin_unlock]
      else current_ctx dev' = Some (hd (ready_ctxs (rockchip_vpu_try_context_locked c dev)))
        \<and> test_bit VPU_RUNNING (dev_state dev') \<and> watchdog_work dev' = Some 2000
        \<and> trace dev' = trace dev @ [Ev_power_off, Ev_watchdog_cancelled]
             @ completion_events c VB2_BUF_STATE_DONE src dst dev
             @ dispatch_events (hd (ready_ctxs (rockchip_vpu_try_context_locked c dev))) dev)"
proof -
  let ?d = "emit Ev_watchdog_cancelled ((emit Ev_power_off dev)\<lparr>watchdog_work := None\<rparr>)"
  have eq: "vdpu_irq 0 dev = rockchip_vpu_run_done c VB2_BUF_STATE_DONE ?d"
    using cur wd by (rule vdpu_irq_eq)
  have c: "ready_ctxs (rockchip_vpu_try_context_locked c ?d)
      = ready_ctxs (rockchip_vpu_try_context_locked c dev)"
    by (simp add: try_context_locked_ready)
  have e: "completion_events c VB2_BUF_STATE_DONE src dst ?d
      = completion_events c VB2_BUF_STATE_DONE src dst dev"
    "\<And>c'. dispatch_events c' ?d = dispatch_events c' dev"
    by (simp_all add: completion_events_def dispatch_events_def)
  have "ready_inv ?d" "run_src (ctxs ?d c) = Some src" "run_dst (ctxs ?d c) = Some dst"
    "watchdog_work ?d = None"
    using inv src dst by simp_all
  from run_done_outcome [OF this, of VB2_BUF_STATE_DONE] obtain dev'
    where r: "rockchip_vpu_run_done c VB2_BUF_STATE_DONE ?d = Some dev'"
      and o: "if ready_ctxs (rockchip_vpu_try_context_locked c ?d) = []
         \<or> test_bit VPU_SUSPENDED (dev_state ?d)
      then current_ctx dev' = None \<and> \<not> test_bit VPU_RUNNING (dev_state dev')
        \<and> watchdog_work dev' = None \<and> ctxs dev' = ctxs ?d
        \<and> ready_ctxs dev' = ready_ctxs (rockchip_vpu_try_context_locked c ?d)
        \<and> trace dev' = trace ?d @ completion_events c VB2_BUF_STATE_DONE src dst ?d
                         @ [Ev_spin_lock, Ev_spin_unlock]
      else current_ctx dev' = Some (hd (ready_ctxs (rockchip_vpu_try_context_locked c ?d)))
        \<and> test_bit VPU_RUNNING (dev_state dev') \<and> watchdog_work dev' = Some 2000
        \<and> ready_ctxs dev' = tl (ready_ctxs (rockchip_vpu_try_context_locked c ?d))
        \<and> trace dev' = trace ?d @ completion_events c VB2_BUF_STATE_DONE src dst ?d
             @ dispatch_events (hd (ready_ctxs (rockchip_vpu_try_context_locked c ?d))) ?d"
    by blast
  show ?thesis
    using eq r o unfolding c e by (simp split: if_splits)
qed

text \<open>
  Claim C5.  A dispatch arms the watchdog with a delay of 2000 ms, and a submit while the
  engine runs leaves it armed.  When the armed watchdog expires while the run is still
  bound, \<open>rockchip_vpu_watchdog\<close> returns: it calls the codec reset once, between taking
  and releasing the lock, powers the engine off, and runs the completion path once with
  \<open>VB2_BUF_STATE_ERROR\<close> on the two buffers of the run; afterwards the engine is idle,
  or runs the head of the ready list with the watchdog armed anew, and when it is idle
  the next submit of a context with buffers is dispatched at once.  The interrupt path
  with a zero codec status cancels the watchdog before it completes the run with
  \<open>VB2_BUF_STATE_DONE\<close>; with a non-zero codec status it changes nothing.  The passing
  of the 2000 ms is the delayed-work mechanism of the kernel and is represented by the
  step \<open>watchdog_expires\<close>, which is enabled only while the work is pending.
\<close>

theorem C5_watchdog_recovery:
  "(ready_ctxs dev = c # rest \<and> src_queue (ctxs dev c) = src # srcs
      \<and> dst_queue (ctxs dev c) = dst # dsts
      \<and> \<not> test_bit VPU_RUNNING (dev_state dev) \<and> \<not> test_bit VPU_SUSPENDED (dev_state dev)
      \<and> watchdog_work dev = None
    \<longrightarrow> (\<exists>dev'. rockchip_vpu_try_run dev = Some dev' \<and> current_ctx dev' = Some c
           \<and> watchdog_work dev' = Some 2000
           \<and> trace dev' = trace dev @ dispatch_events c dev))
   \<and> (test_bit VPU_RUNNING (dev_state dev)
    \<longrightarrow> (\<exists>dev'. rockchip_vpu_try_context c2 dev = Some dev'
           \<and> watchdog_work dev' = watchdog_work dev \<and> current_ctx dev' = current_ctx dev
           \<and> dev_state dev' = dev_state dev \<and> ctxs dev' = ctxs dev))
   \<and> (ready_inv dev \<and> current_ctx dev = Some c \<and> run_src (ctxs dev c) = Some src
        \<and> run_dst (ctxs dev c) = Some dst \<and> watchdog_work dev = Some ms
    \<longrightarrow> (\<exists>dev'. watchdog_expires dev = Some dev' \<and>
          (if ready_ctxs (rockchip_vpu_try_context_locked c dev) = []
              \<or> test_bit VPU_SUSPENDED (dev_state dev)
           then current_ctx dev' = None \<and> \<not> test_bit VPU_RUNNING (dev_state dev')
             \<and> watchdog_work dev' = None
             \<and> trace dev' = trace dev
                  @ [Ev_spin_lock, Ev_codec_reset c, Ev_spin_unlock, Ev_power_off]
                  @ completion_events c VB2_BUF_STATE_ERROR src dst dev
                  @ [Ev_spin_lock, Ev_spin_unlock]
           else current_ctx dev' = Some (hd (ready_ctxs (rockchip_vpu_try_context_locked c dev)))
             \<and> test_bit VPU_RUNNING (dev_state dev') \<and> watchdog_work dev' = Some 2000
             \<and> trace dev' = trace dev
                  @ [Ev_spin_lock, Ev_codec_reset c, Ev_spin_unlock, Ev_power_off]
                  @ completion_events c VB2_BUF_STATE_ERROR src dst dev
                  @ dispatch_events (hd (ready_ctxs (rockchip_vpu_try_context_locked c dev))) dev)))
   \<and> (ready_inv dev \<and> current_ctx dev = Some c \<and> run_src (ctxs dev c) = Some src
        \<and> run_dst (ctxs dev c) = Some dst \<and> watchdog_work dev = Some ms
        \<and> ready_ctxs (rockchip_vpu_try_context_locked c dev) = []
        \<and> \<not> test_bit VPU_SUSPENDED (dev_state dev)
        \<and> src_queue (ctxs dev c2) \<noteq> [] \<and> dst_queue (ctxs dev c2) \<noteq> []
    \<longrightarrow> (\<exists>dev' dev''. watchdog_expires dev = Some dev'
           \<and> rockchip_vpu_try_context c2 dev' = Some dev''
           \<and> current_ctx dev'' = Some c2 \<and> watchdog_work dev'' = Some 2000
           \<and> run_src (ctxs dev'' c2) = Some (hd (src_queue (ctxs dev c2)))
           \<and> run_dst (ctxs dev'' c2) = Some (hd (dst_queue (ctxs dev c2)))))
   \<and> (ready_inv dev \<and> current_ctx dev = Some c \<and> run_src (ctxs dev c) = Some src
        \<and> run_dst (ctxs dev c) = Some dst \<and> watchdog_work dev = Some ms
    \<longrightarrow> (\<exists>dev'. vdpu_irq 0 dev = Some dev' \<and>
          (if ready_ctxs (rockchip_vpu_try_context_locked c dev) = []
              \<or> test_bit VPU_SUSPENDED (dev_state dev)
           then current_ctx dev' = None \<and> \<not> test_bit VPU_RUNNING (dev_state dev')
             \<and> watchdog_work dev' = None
             \<and> trace dev' = trace dev @ [Ev_power_off, Ev_watchdog_cancelled]
                  @ completion_events c VB2_BUF_STATE_DONE src dst dev
                  @ [Ev_spin_lock, Ev_spin_unlock]
           else current_ctx dev' = Some (hd (ready_ctxs (rockchip_vpu_try_context_locked c dev)))
             \<and> test_bit VPU_RUNNING (dev_state dev') \<and> watchdog_work dev' = Some 2000
             \<and> trace dev' = trace dev @ [Ev_power_off, Ev_watchdog_cancelled]
                  @ completion_events c VB2_BUF_STATE_DONE src dst dev
                  @ dispatch_events (hd (ready_ctxs (rockchip_vpu_try_context_locked c dev))) dev)))
   \<and> (current_ctx dev = Some c \<and> irq_ret \<noteq> 0 \<longrightarrow> vdpu_irq irq_ret dev = Some dev)"
proof (intro conjI impI)
  assume a: "ready_ctxs dev = c # rest \<and> src_queue (ctxs dev c) = src # srcs
      \<and> dst_queue (ctxs dev c) = dst # dsts
      \<and> \<not> test_bit VPU_RUNNING (dev_state dev) \<and> \<not> test_bit VPU_SUSPENDED (dev_state dev)
      \<and> watchdog_work dev = None"
  then have "rockchip_vpu_try_run dev = Some (dispatched c rest src srcs dst dsts dev)"
    by (intro try_run_dispatch) simp_all
  then show "\<exists>dev'. rockchip_vpu_try_run dev = Some dev' \<and> current_ctx dev' = Some c
           \<and> watchdog_work dev' = Some 2000
           \<and> trace dev' = trace dev @ dispatch_events c dev"
    using a by (simp add: dispatched_watchdog dispatched_trace_events)
next
  assume "test_bit VPU_RUNNING (dev_state dev)"
  then show "\<exists>dev'. rockchip_vpu_try_context c2 dev = Some dev'
           \<and> watchdog_work dev' = watchdog_work dev \<and> current_ctx dev' = current_ctx dev
           \<and> dev_state dev' = dev_state dev \<and> ctxs dev' = ctxs dev"
    by (rule try_context_while_running)
next
  assume a: "ready_inv dev \<and> current_ctx dev = Some c \<and> run_src (ctxs dev c) = Some src
        \<and> run_dst (ctxs dev c) = Some dst \<and> watchdog_work dev = Some ms"
  then show "\<exists>dev'. watchdog_expires dev = Some dev' \<and>
          (if ready_ctxs (rockchip_vpu_try_context_locked c dev) = []
              \<or> test_bit VPU_SUSPENDED (dev_state dev)
           then current_ctx dev' = None \<and> \<not> test_bit VPU_RUNNING (dev_state dev')
             \<and> watchdog_work dev' = None
             \<and> trace dev' = trace dev
                  @ [Ev_spin_lock, Ev_codec_reset c, Ev_spin_unlock, Ev_power_off]
                  @ completion_events c VB2_BUF_STATE_ERROR src dst dev
                  @ [Ev_spin_lock, Ev_spin_unlock]
           else current_ctx dev' = Some (hd (ready_ctxs (rockchip_vpu_try_context_locked c dev)))
             \<and> test_bit VPU_RUNNING (dev_state dev') \<and> watchdog_work dev' = Some 2000
             \<and> trace dev' = trace dev
                  @ [Ev_spin_lock, Ev_codec_reset c, Ev_spin_unlock, Ev_power_off]
                  @ completion_events c VB2_BUF_STATE_ERROR src dst dev
                  @ dispatch_events (hd (ready_ctxs (rockchip_vpu_try_context_locked c dev))) dev)"
    using watchdog_expires_outcome [of dev c src dst ms] by (auto split: if_splits)
next
  assume a: "ready_inv dev \<and> current_ctx dev = Some c \<and> run_src (ctxs dev c) = Some src
        \<and> run_dst (ctxs dev c) = Some dst \<and> watchdog_work dev = Some ms
        \<and> ready_ctxs (rockchip_vpu_try_context_locked c dev) = []
        \<and> \<not> test_bit VPU_SUSPENDED (dev_state dev)
        \<and> src_queue (ctxs dev c2) \<noteq> [] \<and> dst_queue (ctxs dev c2) \<noteq> []"
  with watchdog_expires_outcome [of dev c src dst ms] obtain dev'
    where e: "watchdog_expires dev = Some dev'"
      and i: "ready_ctxs dev' = []" "\<not> test_bit VPU_RUNNING (dev_state dev')"
        "\<not> test_bit VPU_SUSPENDED (dev_state dev')" "watchdog_work dev' = None"
        "ctxs dev' = ctxs dev"
    by auto
  from submit_dispatches [OF i(1-3), of c2] i(4,5) a obtain dev''
    where "rockchip_vpu_try_context c2 dev' = Some dev''" "current_ctx dev'' = Some c2"
      "watchdog_work dev'' = Some 2000"
      "run_src (ctxs dev'' c2) = Some (hd (src_queue (ctxs dev c2)))"
      "run_dst (ctxs dev'' c2) = Some (hd (dst_queue (ctxs dev c2)))"
    by auto
  with e show "\<exists>dev' dev''. watchdog_expires dev = Some dev'
           \<and> rockchip_vpu_try_context c2 dev' = Some dev''
           \<and> current_ctx dev'' = Some c2 \<and> watchdog_work dev'' = Some 2000
           \<and> run_src (ctxs dev'' c2) = Some (hd (src_queue (ctxs dev c2)))
           \<and> run_dst (ctxs dev'' c2) = Some (hd (dst_queue (ctxs dev c2)))"
    by blast
next
  assume a: "ready_inv dev \<and> current_ctx dev = Some c \<and> run_src (ctxs dev c) = Some src
        \<and> run_dst (ctxs dev c) = Some dst \<and> watchdog_work dev = Some ms"
  then show "\<exists>dev'. vdpu_irq 0 dev = Some dev' \<and>
          (if ready_ctxs (rockchip_vpu_try_context_locked c dev) = []
              \<or> test_bit VPU_SUSPENDED (dev_state dev)
           then current_ctx dev' = None \<and> \<not> test_bit VPU_RUNNING (dev_state dev')
             \<and> watchdog_work dev' = None
             \<and> trace dev' = trace dev @ [Ev_power_off, Ev_watchdog_cancelled]
                  @ completion_events c VB2_BUF_STATE_DONE src dst dev
                  @ [Ev_spin_lock, Ev_spin_unlock]
           else current_ctx dev' = Some (hd (ready_ctxs (rockchip_vpu_try_context_locked c dev)))
             \<and> test_bit VPU_RUNNING (dev_state dev') \<and> watchdog_work dev' = Some 2000
             \<and> trace dev' = trace dev @ [Ev_power_off, Ev_watchdog_cancelled]
                  @ completion_events c VB2_BUF_STATE_DONE src dst dev
                  @ dispatch_events (hd (ready_ctxs (rockchip_vpu_try_context_locked c dev))) dev)"
    using vdpu_irq_outcome [of dev c src dst ms] by blast
next
  assume "current_ctx dev = Some c \<and> irq_ret \<noteq> 0"
  then show "vdpu_irq irq_ret dev = Some dev" by (simp add: vdpu_irq_def)
qed

lemma example_dev_facts:
  "ready_ctxs example_dev = 1 # [2]" "src_queue (ctxs example_dev 1) = 10 # [11]"
  "dst_queue (ctxs example_dev 1) = 20 # [21]"
  "\<not> test_bit VPU_RUNNING (dev_state example_dev)"
  "\<not> test_bit VPU_SUSPENDED (dev_state example_dev)"
  "watchdog_work example_dev = None" "trace example_dev = []"
  "dispatch_events 1 example_dev
     = [Ev_spin_lock, Ev_spin_unlock, Ev_prepare_run 1, Ev_codec_run 1, Ev_watchdog_scheduled 2000]"
  by (simp_all add: example_dev_def example_dev_idle_def example_ctxs_def example_ctx_def
      test_bit_def dispatch_events_def)

lemma example_dev_busy_events:
  "ready_ctxs (rockchip_vpu_try_context_locked 1 example_dev_busy) = [2, 1]"
  "trace example_dev_busy = []"
  "completion_events 1 result 10 20 example_dev_busy
     = [Ev_run_done_hook 1 result, Ev_vb2_buffer_done 10 result, Ev_vb2_buffer_done 20 result,
        Ev_wake_up_all, Ev_spin_lock, Ev_spin_unlock]"
  "dispatch_events 2 example_dev_busy
     = [Ev_spin_lock, Ev_spin_unlock, Ev_codec_run 2, Ev_watchdog_scheduled 2000]"
  by (simp_all add: example_dev_busy_def example_ctxs_def example_ctx_def
      try_context_locked_ready completion_events_def dispatch_events_def)

lemma example_dev_last_facts:
  "ready_inv example_dev_last" "current_ctx example_dev_last = Some 2"
  "run_src (ctxs example_dev_last 2) = Some 12" "run_dst (ctxs example_dev_last 2) = Some 22"
  "watchdog_work example_dev_last = Some 2000"
  "ready_ctxs (rockchip_vpu_try_context_locked 2 example_dev_last) = []"
  "\<not> test_bit VPU_SUSPENDED (dev_state example_dev_last)"
  "src_queue (ctxs example_dev_last 1) = [10, 11]"
  "dst_queue (ctxs example_dev_last 1) = [20, 21]"
  by (simp_all add: example_dev_last_def example_ctxs_def example_ctx_def ready_inv_def
      try_context_locked_ready test_bit_def VPU_SUSPENDED_def)

text \<open>
  Instances of C5 on the example devices: a dispatch, an expiry with context 2 waiting,
  an expiry with nothing waiting followed by a submit of context 1, and the interrupt
  path with a zero and with a non-zero codec status.
\<close>

theorem C5_watchdog_recovery_witness:
  "(ready_ctxs example_dev = 1 # [2] \<and> src_queue (ctxs example_dev 1) = 10 # [11]
      \<and> dst_queue (ctxs example_dev 1) = 20 # [21]
      \<and> \<not> test_bit VPU_RUNNING (dev_state example_dev)
      \<and> \<not> test_bit VPU_SUSPENDED (dev_state example_dev)
      \<and> watchdog_work example_dev = None)
   \<and> (\<exists>dev'. rockchip_vpu_try_run example_dev = Some dev' \<and> current_ctx dev' = Some 1
         \<and> watchdog_work dev' = Some 2000
         \<and> trace dev' = [Ev_spin_lock, Ev_spin_unlock, Ev_prepare_run 1, Ev_codec_run 1,
                          Ev_watchdog_scheduled 2000])
   \<and> test_bit VPU_RUNNING (dev_state example_dev_busy)
   \<and> (\<exists>dev'. rockchip_vpu_try_context 2 example_dev_busy = Some dev'
         \<and> watchdog_work dev' = Some 2000 \<and> current_ctx dev' = Some 1)
   \<and> (ready_inv example_dev_busy \<and> current_ctx example_dev_busy = Some 1
        \<and> run_src (ctxs example_dev_busy 1) = Some 10
        \<and> run_dst (ctxs example_dev_busy 1) = Some 20
        \<and> watchdog_work example_dev_busy = Some 2000)
   \<and> (\<exists>dev'. watchdog_expires example_dev_busy = Some dev'
         \<and> current_ctx dev' = Some 2 \<and> watchdog_work dev' = Some 2000
         \<and> trace dev' =
             [Ev_spin_lock, Ev_codec_reset 1, Ev_spin_unlock, Ev_power_off,
              Ev_run_done_hook 1 VB2_BUF_STATE_ERROR,
              Ev_vb2_buffer_done 10 VB2_BUF_STATE_ERROR,
              Ev_vb2_buffer_done 20 VB2_BUF_STATE_ERROR,
              Ev_wake_up_all, Ev_spin_lock, Ev_spin_unlock,
              Ev_spin_lock, Ev_spin_unlock, Ev_codec_run 2, Ev_watchdog_scheduled 2000])
   \<and> (ready_inv example_dev_last \<and> current_ctx example_dev_last = Some 2
        \<and> run_src (ctxs example_dev_last 2) = Some 12
        \<and> run_dst (ctxs example_dev_last 2) = Some 22
        \<and> watchdog_work example_dev_last = Some 2000
        \<and> ready_ctxs (rockchip_vpu_try_context_locked 2 example_dev_last) = []
        \<and> \<not> test_bit VPU_SUSPENDED (dev_state example_dev_last)
        \<and> src_queue (ctxs example_dev_last 1) \<noteq> []
        \<and> dst_queue (ctxs example_dev_last 1) \<noteq> [])
   \<and> (\<exists>dev' dev''. watchdog_expires example_dev_last = Some dev'
         \<and> rockchip_vpu_try_context 1 dev' = Some dev''
         \<and> current_ctx dev'' = Some 1 \<and> watchdog_work dev'' = Some 2000
         \<and> run_src (ctxs dev'' 1) = Some 10 \<and> run_dst (ctxs dev'' 1) = Some 20)
   \<and> (\<exists>dev'. vdpu_irq 0 example_dev_busy = Some dev'
         \<and> current_ctx dev' = Some 2 \<and> watchdog_work dev' = Some 2000
         \<and> trace dev' =
             [Ev_power_off, Ev_watchdog_cancelled,
              Ev_run_done_hook 1 VB2_BUF_STATE_DONE,
              Ev_vb2_buffer_done 10 VB2_BUF_STATE_DONE,
              Ev_vb2_buffer_done 20 VB2_BUF_STATE_DONE,
              Ev_wake_up_all, Ev_spin_lock, Ev_spin_unlock,
              Ev_spin_lock, Ev_spin_unlock, Ev_codec_run 2, Ev_watchdog_scheduled 2000])
   \<and> vdpu_irq (- 1) example_dev_busy = Some example_dev_busy"
proof -
  have h1: "ready_ctxs example_dev = 1 # [2] \<and> src_queue (ctxs example_dev 1) = 10 # [11]
      \<and> dst_queue (ctxs example_dev 1) = 20 # [21]
      \<and> \<not> test_bit VPU_RUNNING (dev_state example_dev)
      \<and> \<not> test_bit VPU_SUSPENDED (dev_state example_dev)
      \<and> watchdog_work example_dev = None"
    using example_dev_facts by blast
  have h3: "ready_inv example_dev_busy \<and> current_ctx example_dev_busy = Some 1
        \<and> run_src (ctxs example_dev_busy 1) = Some 10
        \<and> run_dst (ctxs example_dev_busy 1) = Some 20
        \<and> watchdog_work example_dev_busy = Some 2000"
    using example_dev_busy_inv example_dev_busy_run by blast
  have h4: "ready_inv example_dev_last \<and> current_ctx example_dev_last = Some 2
        \<and> run_src (ctxs example_dev_last 2) = Some 12
        \<and> run_dst (ctxs example_dev_last 2) = Some 22
        \<and> watchdog_work example_dev_last = Some 2000
        \<and> ready_ctxs (rockchip_vpu_try_context_locked 2 example_dev_last) = []
        \<and> \<not> test_bit VPU_SUSPENDED (dev_state example_dev_last)
        \<and> src_queue (ctxs example_dev_last 1) \<noteq> []
        \<and> dst_queue (ctxs example_dev_last 1) \<noteq> []"
    using example_dev_last_facts by simp
  note p1 = C5_watchdog_recovery [where dev = example_dev and c = 1 and rest = "[2]"
      and src = 10 and srcs = "[11]" and dst = 20 and dsts = "[21]",
      THEN conjunct1, rule_format, OF h1]
  note p2 = C5_watchdog_recovery [where dev = example_dev_busy and ?c2.0 = 2,
      THEN conjunct2, THEN conjunct1, rule_format, OF example_dev_busy_run(5)]
  note p3 = C5_watchdog_recovery [where dev = example_dev_busy and c = 1
      and src = 10 and dst = 20 and ms = 2000,
      THEN conjunct2, THEN conjunct2, THEN conjunct1, rule_format, OF h3]
  note p4 = C5_watchdog_recovery [where dev = example_dev_last and c = 2
      and src = 12 and dst = 22 and ms = 2000 and ?c2.0 = 1,
      THEN conjunct2, THEN conjunct2, THEN conjunct2, THEN conjunct1, rule_format, OF h4]
  note p5 = C5_watchdog_recovery [where dev = example_dev_busy and c = 1
      and src = 10 and dst = 20 and ms = 2000,
      THEN conjunct2, THEN conjunct2, THEN conjunct2, THEN conjunct2, THEN conjunct1,
      rule_format, OF h3]
  have h6: "current_ctx example_dev_busy = Some 1 \<and> (- 1 :: int) \<noteq> 0"
    using example_dev_busy_run(3) by simp
  note p6 = C5_watchdog_recovery [where dev = example_dev_busy and c = 1 and irq_ret = "- 1",
      THEN conjunct2, THEN conjunct2, THEN conjunct2, THEN conjunct2, THEN conjunct2,
      rule_format, OF h6]
  have a1: "\<exists>dev'. rockchip_vpu_try_run example_dev = Some dev' \<and> current_ctx dev' = Some 1
         \<and> watchdog_work dev' = Some 2000
         \<and> trace dev' = [Ev_spin_lock, Ev_spin_unlock, Ev_prepare_run 1, Ev_codec_run 1,
                          Ev_watchdog_scheduled 2000]"
    using p1 example_dev_facts(7,8) by auto
  have a2: "\<exists>dev'. rockchip_vpu_try_context 2 example_dev_busy = Some dev'
         \<and> watchdog_work dev' = Some 2000 \<and> current_ctx dev' = Some 1"
    using p2 example_dev_busy_run(3,4) by auto
  have a3: "\<exists>dev'. watchdog_expires example_dev_busy = Some dev'
         \<and> current_ctx dev' = Some 2 \<and> watchdog_work dev' = Some 2000
         \<and> trace dev' =
             [Ev_spin_lock, Ev_codec_reset 1, Ev_spin_unlock, Ev_power_off,
              Ev_run_done_hook 1 VB2_BUF_STATE_ERROR,
              Ev_vb2_buffer_done 10 VB2_BUF_STATE_ERROR,
              Ev_vb2_buffer_done 20 VB2_BUF_STATE_ERROR,
              Ev_wake_up_all, Ev_spin_lock, Ev_spin_unlock,
              Ev_spin_lock, Ev_spin_unlock, Ev_codec_run 2, Ev_watchdog_scheduled 2000]"
    using p3 example_dev_busy_events example_dev_busy_run(6) by auto
  have a4: "\<exists>dev' dev''. watchdog_expires example_dev_last = Some dev'
         \<and> rockchip_vpu_try_context 1 dev' = Some dev''
         \<and> current_ctx dev'' = Some 1 \<and> watchdog_work dev'' = Some 2000
         \<and> run_src (ctxs dev'' 1) = Some 10 \<and> run_dst (ctxs dev'' 1) = Some 20"
    using p4 example_dev_last_facts(8,9) by auto
  have a5: "\<exists>dev'. vdpu_irq 0 example_dev_busy = Some dev'
         \<and> current_ctx dev' = Some 2 \<and> watchdog_work dev' = Some 2000
         \<and> trace dev' =
             [Ev_power_off, Ev_watchdog_cancelled,
              Ev_run_done_hook 1 VB2_BUF_STATE_DONE,
              Ev_vb2_buffer_done 10 VB2_BUF_STATE_DONE,
              Ev_vb2_buffer_done 20 VB2_BUF_STATE_DONE,
              Ev_wake_up_all, Ev_spin_lock, Ev_spin_unlock,
              Ev_spin_lock, Ev_spin_unlock, Ev_codec_run 2, Ev_watchdog_scheduled 2000]"
    using p5 example_dev_busy_events example_dev_busy_run(6) by auto
  show ?thesis
    using h1 a1 example_dev_busy_run(5) a2 h3 a3 h4 a4 a5 p6 by blast
qed

end
